theory Spec2Isabelle
  imports Main "HOL-Library.Option_ord" "HOL-Library.Char_ord" "HOL-Library.List_Lexorder"
    "HOL-Library.Multiset" "HOL-Library.Sublist"
begin

section \<open>The board router of src/server/api/routers/board.ts\<close>

text \<open>
  The router reads and writes a relational database through an ORM, reads and writes
  JSON config files, and reshapes the rows it reads. Each procedure is embedded as a
  function from the state it reads (and its input) to either the error it throws or
  its result (and the state it leaves).

  Strings are \<^typ>\<open>string\<close>, a \<^typ>\<open>char\<close> standing for a code unit below 256;
  a nullable column or an optional input is an \<^typ>\<open>'a option\<close> with
  \<^term>\<open>None\<close> for null or undefined; integer columns are \<^typ>\<open>int\<close>.
\<close>

subsection \<open>Errors\<close>

text \<open>
  \<open>TRPCError code message\<close> is the error the procedures throw themselves.
  \<open>TypeError\<close> is what the JavaScript runtime throws when a property of
  \<open>undefined\<close> or \<open>null\<close> is read or written, or a property is written on a
  primitive in strict mode (a module is strict code).
  \<open>ConstraintError\<close> is what an insert throws when the row breaks a constraint of the
  schema.
  \<open>Unmodelled\<close> is no error of the program: \<open>assignAt\<close> returns it where the
  program reads a property that an object inherits from \<open>Object.prototype\<close>, reads or
  writes \<open>__proto__\<close>, writes the \<open>length\<close> of an array, or uses an array index
  beyond the exactly representable integers. There the program goes on, and what it does
  next depends on the built-in objects it has reached; \<open>byName\<close> takes that from a
  parameter (see \<open>mapOptionsIn\<close>), and \<open>ThrownBeyond\<close> is the exception of a run
  that throws after such a step (a \<open>TypeError\<close> or a \<open>RangeError\<close>).
\<close>

datatype trpc_code = NOT_FOUND

datatype error =
    TRPCError trpc_code string | TypeError | ConstraintError | Unmodelled | ThrownBeyond

type_synonym ident = string

subsection \<open>A stable sort with a comparator\<close>

text \<open>
  \<open>Array.prototype.sort(compareFn)\<close> is stable; \<open>x\<close> stays before \<open>y\<close> unless
  \<open>compareFn(x, y) > 0\<close>. It sorts in place and returns the same array.
\<close>

fun insort_cmp :: "('a \<Rightarrow> 'a \<Rightarrow> int) \<Rightarrow> 'a \<Rightarrow> 'a list \<Rightarrow> 'a list" where
  "insort_cmp c x [] = [x]"
| "insort_cmp c x (y # ys) = (if c x y \<le> 0 then x # y # ys else y # insort_cmp c x ys)"

definition sort_cmp :: "('a \<Rightarrow> 'a \<Rightarrow> int) \<Rightarrow> 'a list \<Rightarrow> 'a list" where
  "sort_cmp c xs = foldr (insort_cmp c) xs []"

subsection \<open>Running a fallible function over a list\<close>

fun mapM :: "('a \<Rightarrow> error + 'b) \<Rightarrow> 'a list \<Rightarrow> error + 'b list" where
  "mapM f [] = Inr []"
| "mapM f (x # xs) =
     (case f x of
        Inl e \<Rightarrow> Inl e
      | Inr y \<Rightarrow> (case mapM f xs of Inl e \<Rightarrow> Inl e | Inr ys \<Rightarrow> Inr (y # ys)))"

fun filterM :: "('a \<Rightarrow> error + bool) \<Rightarrow> 'a list \<Rightarrow> error + 'a list" where
  "filterM p [] = Inr []"
| "filterM p (x # xs) =
     (case p x of
        Inl e \<Rightarrow> Inl e
      | Inr b \<Rightarrow>
          (case filterM p xs of
             Inl e \<Rightarrow> Inl e
           | Inr ys \<Rightarrow> Inr (if b then x # ys else ys)))"

text \<open>The same for a function that also reads and changes a state.\<close>

fun mapMS :: "('a \<Rightarrow> 's \<Rightarrow> (error + 'b) \<times> 's) \<Rightarrow> 'a list \<Rightarrow> 's \<Rightarrow> (error + 'b list) \<times> 's" where
  "mapMS f [] s = (Inr [], s)"
| "mapMS f (x # xs) s =
     (case f x s of
        (Inl e, s') \<Rightarrow> (Inl e, s')
      | (Inr y, s') \<Rightarrow>
          (case mapMS f xs s' of
             (Inl e, s'') \<Rightarrow> (Inl e, s'')
           | (Inr ys, s'') \<Rightarrow> (Inr (y # ys), s'')))"

subsection \<open>The relational schema\<close>

text \<open>
  Modelled from the spec: the schema (\<open>~/server/db/schema\<close>) is not part of the
  sources at hand. The spec names the entities (board, layout, section, item, app,
  widget, integration, secret, layout-item) and says they are tied together by foreign
  keys; the columns below are the ones the router reads or writes, and each relation is
  the foreign key the router fills when it inserts. A table is the list of its rows.
\<close>

record user_row =
  u_id :: ident
  u_name :: "string option"

record board_row =
  b_id :: ident
  b_name :: string
  b_ownerId :: "ident option"
  b_allowGuests :: bool
  b_isLeftSidebarVisible :: bool
  b_isRightSidebarVisible :: bool
  b_isPingEnabled :: bool
  b_appOpacity :: int
  b_backgroundImageUrl :: "string option"
  b_primaryColor :: string
  b_secondaryColor :: string
  b_customCss :: string
  b_pageTitle :: "string option"
  b_metaTitle :: "string option"
  b_logoImageUrl :: "string option"
  b_faviconImageUrl :: "string option"
  b_primaryShade :: int

record layout_row =
  l_id :: ident
  l_name :: string
  l_boardId :: ident

datatype section_type = SecEmpty | SecHidden | SecCategory | SecSidebar

record section_row =
  s_id :: ident
  s_layoutId :: ident
  s_type :: section_type
  s_position :: "int option"
  s_name :: "string option"

datatype item_type = ItemApp | ItemWidget

record item_row =
  i_id :: ident
  i_type :: item_type
  i_boardId :: ident

record app_row =
  a_id :: ident
  a_name :: string
  a_internalUrl :: string
  a_iconUrl :: string
  a_integrationId :: "ident option"

record app_item_row =
  ai_appId :: ident
  ai_itemId :: ident

record widget_row =
  w_id :: ident
  w_type :: string
  w_itemId :: ident

datatype option_type = OptArray | OptObject | OptNumber | OptBoolean | OptString | OptNull

record widget_option =
  o_widgetId :: ident
  o_path :: string
  o_value :: "string option"
  o_type :: option_type

record layout_item_row =
  li_id :: ident
  li_itemId :: ident
  li_sectionId :: ident
  li_width :: int
  li_height :: int
  li_x :: int
  li_y :: int

record integration_row =
  in_id :: ident
  in_name :: string

datatype visibility = Private | Public

record secret_row =
  sec_integrationId :: ident
  sec_key :: string
  sec_value :: "string option"
  sec_visibility :: visibility

record status_code_row =
  sc_appId :: ident
  sc_code :: int

record database =
  users :: "user_row list"
  boards :: "board_row list"
  layouts :: "layout_row list"
  sections :: "section_row list"
  items :: "item_row list"
  apps :: "app_row list"
  appItems :: "app_item_row list"
  widgets :: "widget_row list"
  widgetOptions :: "widget_option list"
  layoutItems :: "layout_item_row list"
  integrations :: "integration_row list"
  integrationSecrets :: "secret_row list"
  appStatusCodes :: "status_code_row list"

subsection \<open>JSON values\<close>

text \<open>
  The numbers \<open>parseFloat(s)\<close> and \<open>parseInt(s, 10)\<close> are kept as the call that
  produces them: the embedding does not compute floating-point values. An object or an
  array is the map of its own properties; an array element is the property named by the
  decimal numeral of its index.
\<close>

datatype js_number = ParseFloat string | ParseInt string

datatype jsval =
    JNull
  | JBool bool
  | JNumber js_number
  | JString string
  | JArray "string \<Rightarrow> jsval option"
  | JObject "string \<Rightarrow> jsval option"

fun showNat :: "nat \<Rightarrow> string" where
  "showNat n =
     (if n < 10 then [''0123456789'' ! n]
      else showNat (n div 10) @ [''0123456789'' ! (n mod 10)])"

declare showNat.simps [simp del]

definition showInt :: "int \<Rightarrow> string" where
  "showInt i = (if i < 0 then CHR ''-'' # showNat (nat (- i)) else showNat (nat i))"

definition isWhiteSpace :: "char \<Rightarrow> bool" where
  "isWhiteSpace c =
     (c \<in> set [CHR 0x09, CHR 0x0A, CHR 0x0B, CHR 0x0C, CHR 0x0D, CHR 0x20, CHR 0xA0])"

definition digitValue :: "char \<Rightarrow> nat option" where
  "digitValue =
     map_of [(CHR ''0'', 0), (CHR ''1'', 1), (CHR ''2'', 2), (CHR ''3'', 3), (CHR ''4'', 4),
             (CHR ''5'', 5), (CHR ''6'', 6), (CHR ''7'', 7), (CHR ''8'', 8), (CHR ''9'', 9)]"

definition decimalValue :: "string \<Rightarrow> nat" where
  "decimalValue ds = foldl (\<lambda>n c. 10 * n + the (digitValue c)) 0 ds"

text \<open>
  \<open>arrayIndexKey key\<close> is the property that \<open>current[parseInt(key, 10)]\<close> reads on
  an array: \<open>parseInt\<close> skips leading white space, reads a sign and the longest run of
  decimal digits, and gives \<open>NaN\<close> when there is none; the number is then turned into
  a property name. \<^term>\<open>None\<close> marks an integer too large to be represented exactly
  (from \<open>2\<^sup>5\<^sup>3\<close> on).
\<close>

definition arrayIndexKey :: "string \<Rightarrow> string option" where
  "arrayIndexKey key =
     (let s = dropWhile isWhiteSpace key;
          negative = (s \<noteq> [] \<and> hd s = CHR ''-'');
          body = (if s \<noteq> [] \<and> (hd s = CHR ''-'' \<or> hd s = CHR ''+'') then tl s else s);
          ds = takeWhile (\<lambda>c. digitValue c \<noteq> None) body;
          n = decimalValue ds
      in if ds = [] then Some ''NaN''
         else if 9007199254740992 \<le> n then None
         else Some (if negative \<and> n \<noteq> 0 then CHR ''-'' # showNat n else showNat n))"

text \<open>
  The property names every object inherits from \<open>Object.prototype\<close>. All but
  \<open>__proto__\<close> are data properties: an assignment creates an own property of that name,
  which then hides the inherited one. \<open>__proto__\<close> is an accessor.
\<close>

definition inheritedKeys :: "string list" where
  "inheritedKeys =
     [''__proto__'', ''constructor'', ''hasOwnProperty'', ''isPrototypeOf'',
      ''propertyIsEnumerable'', ''toLocaleString'', ''toString'', ''valueOf'',
      ''__defineGetter__'', ''__defineSetter__'', ''__lookupGetter__'', ''__lookupSetter__'']"

subsection \<open>mapOptions and addAtPath\<close>

text \<open>\<open>path.split('.')\<close>: never empty; the empty string splits into one empty key.\<close>

fun split_dot :: "string \<Rightarrow> string list" where
  "split_dot [] = [[]]"
| "split_dot (c # cs) =
     (if c = CHR ''.'' then [] # split_dot cs
      else (case split_dot cs of [] \<Rightarrow> [[c]] | w # ws \<Rightarrow> (c # w) # ws))"

text \<open>
  The value the chain of \<open>if\<close>s of \<open>addAtPath\<close> assigns to \<open>current[lastKey]\<close>;
  \<^term>\<open>None\<close> when no branch assigns: a row of type number whose value is null or
  empty fails the test \<open>item.type === 'number' && value\<close> and matches no later
  branch.
\<close>

definition decodeOption :: "widget_option \<Rightarrow> jsval option" where
  "decodeOption item =
     (case o_type item of
        OptArray \<Rightarrow> Some (JArray Map.empty)
      | OptObject \<Rightarrow> Some (JObject Map.empty)
      | OptNumber \<Rightarrow>
          (case o_value item of
             None \<Rightarrow> None
           | Some v \<Rightarrow>
               if v = [] then None
               else Some (JNumber (if CHR ''.'' \<in> set v then ParseFloat v else ParseInt v)))
      | OptBoolean \<Rightarrow> Some (JBool (o_value item = Some ''true''))
      | OptString \<Rightarrow> Some (case o_value item of None \<Rightarrow> JNull | Some v \<Rightarrow> JString v)
      | OptNull \<Rightarrow> Some JNull)"

text \<open>
  \<open>addAtPath\<close> walks \<open>current\<close> down the keys before the last and then writes
  \<open>current[lastKey]\<close> in place. The objects form a tree (each \<open>[]\<close> and \<open>{}\<close> is
  new and stored once), so the write through the reference \<open>current\<close> is the
  replacement of that subtree: \<open>assignAt current keys lastKey new\<close> returns
  \<open>current\<close> after the write. Where a step reads a missing property, \<open>current\<close>
  becomes \<open>undefined\<close> and stays so; on a primitive it stays as it is; on \<open>null\<close>
  the read throws. The write throws on \<open>undefined\<close>, \<open>null\<close> and primitives.
\<close>

fun assignAt :: "jsval \<Rightarrow> string list \<Rightarrow> string \<Rightarrow> jsval option \<Rightarrow> error + jsval" where
  "assignAt current [] lastKey new =
     (case new of
        None \<Rightarrow> Inr current
      | Some v \<Rightarrow>
          (case current of
             JObject m \<Rightarrow>
               if lastKey = ''__proto__'' then Inl Unmodelled
               else Inr (JObject (m(lastKey \<mapsto> v)))
           | JArray m \<Rightarrow>
               if lastKey = ''__proto__'' \<or> lastKey = ''length'' then Inl Unmodelled
               else Inr (JArray (m(lastKey \<mapsto> v)))
           | _ \<Rightarrow> Inl TypeError))"
| "assignAt current (key # keys) lastKey new =
     (case current of
        JArray m \<Rightarrow>
          (case arrayIndexKey key of
             None \<Rightarrow> Inl Unmodelled
           | Some i \<Rightarrow>
               (case m i of
                  None \<Rightarrow> if new = None then Inr current else Inl TypeError
                | Some c \<Rightarrow>
                    (case assignAt c keys lastKey new of
                       Inl e \<Rightarrow> Inl e
                     | Inr c' \<Rightarrow> Inr (JArray (m(i \<mapsto> c'))))))
      | JObject m \<Rightarrow>
          (case m key of
             None \<Rightarrow>
               if key \<in> set inheritedKeys then Inl Unmodelled
               else if new = None then Inr current else Inl TypeError
           | Some c \<Rightarrow>
               if key = ''__proto__'' then Inl Unmodelled
               else
                 (case assignAt c keys lastKey new of
                    Inl e \<Rightarrow> Inl e
                  | Inr c' \<Rightarrow> Inr (JObject (m(key \<mapsto> c')))))
      | JNull \<Rightarrow> Inl TypeError
      | _ \<Rightarrow> if new = None then Inr current else Inl TypeError)"

definition addAtPath :: "jsval \<Rightarrow> widget_option \<Rightarrow> error + jsval" where
  "addAtPath outerObj item =
     (let pathArray = split_dot (o_path item)
      in assignAt outerObj (butlast pathArray) (last pathArray) (decodeOption item))"

text \<open>
  \<open>localeCompare\<close> is the platform's collation; it is a parameter of the embedding.
\<close>

definition mapOptions :: "(string \<Rightarrow> string \<Rightarrow> int) \<Rightarrow> widget_option list \<Rightarrow> error + jsval" where
  "mapOptions localeCompare options =
     (let sorted = sort_cmp (\<lambda>a b. localeCompare (o_path a) (o_path b)) options
      in foldl (\<lambda>result item. case result of Inl e \<Rightarrow> Inl e | Inr obj \<Rightarrow> addAtPath obj item)
           (Inr (JObject Map.empty)) sorted)"

subsection \<open>mapOptions within a run\<close>

text \<open>
  \<open>mapOptions\<close> above describes a call made while the built-in objects are as the
  platform made them, and as long as the call stays within the objects it builds. Where
  \<open>assignAt\<close> answers \<open>Unmodelled\<close> the program goes on outside them. Reading an
  inherited property makes \<open>current\<close> the object \<open>Object.prototype\<close>, one of its
  functions or the function \<open>Object\<close>, and the write lands there: the path
  \<open>toString.x\<close> stores \<open>x\<close> on the function \<open>Object.prototype.toString\<close> and the
  call returns \<open>{}\<close>, while \<open>toString.name\<close> throws, that property being read-only.
  Writing \<open>__proto__\<close> replaces a prototype, writing \<open>length\<close> cuts or extends an
  array or throws, and an index from \<open>2\<^sup>5\<^sup>3\<close> on is rounded. What is written on a
  built-in object stays for the calls that follow, which read it through every object
  they build.

  The embedding does not compute this; it takes it from a parameter. A \<open>realm\<close>
  counts the calls of \<open>mapOptions\<close> the process has made so far and records whether
  one of them has left what \<open>assignAt\<close> describes. From the first such call on, the
  outcome of the \<open>n\<close>-th call is \<open>beyond n options\<close>: \<^term>\<open>None\<close> when it
  throws, \<open>Some v\<close> when it returns, \<open>v\<close> holding the own properties of the object
  returned. Before that call the outcome is that of \<open>mapOptions\<close> above. A process
  starts in \<open>pristine\<close>.
\<close>

record realm =
  rl_calls :: nat
  rl_altered :: bool

definition pristine :: realm where
  "pristine = \<lparr> rl_calls = 0, rl_altered = False \<rparr>"

fun leavesEmbedding :: "error + 'a \<Rightarrow> bool" where
  "leavesEmbedding (Inl Unmodelled) = True"
| "leavesEmbedding _ = False"

definition mapOptionsIn ::
    "(string \<Rightarrow> string \<Rightarrow> int) \<Rightarrow> (nat \<Rightarrow> widget_option list \<Rightarrow> jsval option)
       \<Rightarrow> widget_option list \<Rightarrow> realm \<Rightarrow> (error + jsval) \<times> realm" where
  "mapOptionsIn localeCompare beyond options rl =
     (let described = mapOptions localeCompare options;
          leaves = (rl_altered rl \<or> leavesEmbedding described)
      in (if leaves
          then (case beyond (rl_calls rl) options of None \<Rightarrow> Inl ThrownBeyond | Some v \<Rightarrow> Inr v)
          else described,
          \<lparr> rl_calls = rl_calls rl + 1, rl_altered = leaves \<rparr>))"

subsection \<open>Reading the object that mapOptions builds\<close>

text \<open>
  The words of the claims about \<open>mapOptions\<close>, for comparison with the code. The value
  at a path of keys is read through own properties. A list of rows is prefix-closed when
  every proper ancestor of the path of a row (a non-empty proper prefix of its keys) is the
  path of a row of type array or object.
\<close>

fun getPath :: "jsval \<Rightarrow> string list \<Rightarrow> jsval option" where
  "getPath v [] = Some v"
| "getPath v (k # ks) =
     (case v of
        JObject m \<Rightarrow> (case m k of None \<Rightarrow> None | Some c \<Rightarrow> getPath c ks)
      | JArray m \<Rightarrow> (case m k of None \<Rightarrow> None | Some c \<Rightarrow> getPath c ks)
      | _ \<Rightarrow> None)"

fun isObj :: "jsval option \<Rightarrow> bool" where
  "isObj (Some (JObject m)) = True"
| "isObj _ = False"

fun isArr :: "jsval option \<Rightarrow> bool" where
  "isArr (Some (JArray m)) = True"
| "isArr _ = False"

definition prefixClosed :: "widget_option list \<Rightarrow> bool" where
  "prefixClosed rows =
     (\<forall>r \<in> set rows. \<forall>ks \<in> set (prefixes (split_dot (o_path r))).
        ks \<noteq> [] \<and> ks \<noteq> split_dot (o_path r) \<longrightarrow>
          (\<exists>a \<in> set rows. split_dot (o_path a) = ks
             \<and> (o_type a = OptArray \<or> o_type a = OptObject)))"

text \<open>
  The keys the reconstruction can address: none is \<open>__proto__\<close>, and a key just below
  a row of type array is a canonical index, the name under which \<open>addAtPath\<close> looks the
  element up again.
\<close>

definition plainKeys :: "widget_option list \<Rightarrow> bool" where
  "plainKeys rows =
     (\<forall>r \<in> set rows.
        (\<forall>k \<in> set (split_dot (o_path r)). k \<noteq> ''__proto__'')
      \<and> (\<forall>a \<in> set rows.
            o_type a = OptArray
            \<and> strict_prefix (split_dot (o_path a)) (split_dot (o_path r)) \<longrightarrow>
              arrayIndexKey (split_dot (o_path r) ! length (split_dot (o_path a)))
                = Some (split_dot (o_path r) ! length (split_dot (o_path a)))))"

text \<open>
  What the reconstruction needs of the collation: it is a total preorder on strings, and
  a path sorts before the paths below it.
\<close>

definition collates :: "(string \<Rightarrow> string \<Rightarrow> int) \<Rightarrow> bool" where
  "collates localeCompare =
     ((\<forall>a b. (localeCompare a b < 0) = (0 < localeCompare b a))
    \<and> (\<forall>a b c. localeCompare a b \<le> 0 \<longrightarrow> localeCompare b c \<le> 0 \<longrightarrow> localeCompare a c \<le> 0)
    \<and> (\<forall>a b. localeCompare a (a @ CHR ''.'' # b) < 0))"

subsection \<open>The relational queries\<close>

text \<open>
  What a query returns: a row with the rows of its \<open>with\<close> relations nested in it.
  A relation to one row is \<^term>\<open>None\<close> when the row is missing. \<open>findFirst\<close> returns
  the first row that satisfies \<open>where\<close>, \<open>findMany\<close> all of them.
\<close>

record item_join =
  itj_row :: item_row
  itj_layouts :: "layout_item_row list"

record integration_join =
  inj_row :: integration_row
  inj_secrets :: "secret_row list"

record app_join =
  apj_row :: app_row
  apj_integration :: "integration_join option"
  apj_statusCodes :: "int list"

record app_item_join =
  aij_row :: app_item_row
  aij_app :: "app_join option"
  aij_item :: "item_join option"

record widget_join =
  wj_row :: widget_row
  wj_options :: "widget_option list"
  wj_item :: "item_join option"

text \<open>The board without the column \<open>ownerId\<close> (\<open>columns: { ownerId: false }\<close>).\<close>

record board_view =
  bv_id :: ident
  bv_name :: string
  bv_allowGuests :: bool
  bv_isLeftSidebarVisible :: bool
  bv_isRightSidebarVisible :: bool
  bv_isPingEnabled :: bool
  bv_appOpacity :: int
  bv_backgroundImageUrl :: "string option"
  bv_primaryColor :: string
  bv_secondaryColor :: string
  bv_customCss :: string
  bv_pageTitle :: "string option"
  bv_metaTitle :: "string option"
  bv_logoImageUrl :: "string option"
  bv_faviconImageUrl :: "string option"
  bv_primaryShade :: int

record layout_join =
  lj_name :: string
  lj_sections :: "section_row list"

record board_join =
  bj_board :: board_view
  bj_owner :: "user_row option"
  bj_layouts :: "layout_join list"

definition withoutOwnerId :: "board_row \<Rightarrow> board_view" where
  "withoutOwnerId b =
     \<lparr> bv_id = b_id b, bv_name = b_name b, bv_allowGuests = b_allowGuests b,
       bv_isLeftSidebarVisible = b_isLeftSidebarVisible b,
       bv_isRightSidebarVisible = b_isRightSidebarVisible b,
       bv_isPingEnabled = b_isPingEnabled b, bv_appOpacity = b_appOpacity b,
       bv_backgroundImageUrl = b_backgroundImageUrl b, bv_primaryColor = b_primaryColor b,
       bv_secondaryColor = b_secondaryColor b, bv_customCss = b_customCss b,
       bv_pageTitle = b_pageTitle b, bv_metaTitle = b_metaTitle b,
       bv_logoImageUrl = b_logoImageUrl b, bv_faviconImageUrl = b_faviconImageUrl b,
       bv_primaryShade = b_primaryShade b \<rparr>"

text \<open>
  \<open>orderBy: sections.position\<close> is ascending, with null before every number;
  rows of equal position keep the order of the table.
\<close>

definition sectionsOfLayout :: "database \<Rightarrow> layout_row \<Rightarrow> section_row list" where
  "sectionsOfLayout db l =
     sort_key s_position (filter (\<lambda>s. s_layoutId s = l_id l) (sections db))"

definition layoutsOfBoard :: "database \<Rightarrow> board_row \<Rightarrow> string \<Rightarrow> layout_row list" where
  "layoutsOfBoard db b layoutName =
     filter (\<lambda>l. l_boardId l = b_id b \<and> l_name l = layoutName) (layouts db)"

definition getFullBoardWithLayoutSectionsAsync ::
    "database \<Rightarrow> string \<Rightarrow> string \<Rightarrow> board_join option" where
  "getFullBoardWithLayoutSectionsAsync db boardName layoutName =
     (case find (\<lambda>b. b_name b = boardName) (boards db) of
        None \<Rightarrow> None
      | Some b \<Rightarrow>
          Some \<lparr> bj_board = withoutOwnerId b,
                 bj_owner = find (\<lambda>u. Some (u_id u) = b_ownerId b) (users db),
                 bj_layouts =
                   map (\<lambda>l. \<lparr> lj_name = l_name l, lj_sections = sectionsOfLayout db l \<rparr>)
                     (layoutsOfBoard db b layoutName) \<rparr>)"

definition itemWithLayouts :: "database \<Rightarrow> ident list \<Rightarrow> ident \<Rightarrow> item_join option" where
  "itemWithLayouts db sectionIds itemId =
     map_option
       (\<lambda>it. \<lparr> itj_row = it,
               itj_layouts =
                 filter (\<lambda>li. li_itemId li = i_id it \<and> li_sectionId li \<in> set sectionIds)
                   (layoutItems db) \<rparr>)
       (find (\<lambda>it. i_id it = itemId) (items db))"

definition appWithIntegration :: "database \<Rightarrow> ident \<Rightarrow> app_join option" where
  "appWithIntegration db appId =
     map_option
       (\<lambda>a. \<lparr> apj_row = a,
              apj_integration =
                map_option
                  (\<lambda>i. \<lparr> inj_row = i,
                         inj_secrets =
                           filter (\<lambda>s. sec_integrationId s = in_id i) (integrationSecrets db) \<rparr>)
                  (find (\<lambda>i. Some (in_id i) = a_integrationId a) (integrations db)),
              apj_statusCodes =
                map sc_code (filter (\<lambda>c. sc_appId c = a_id a) (appStatusCodes db)) \<rparr>)
       (find (\<lambda>a. a_id a = appId) (apps db))"

definition getAppsForSectionsAsync :: "database \<Rightarrow> ident list \<Rightarrow> app_item_join list" where
  "getAppsForSectionsAsync db sectionIds =
     (if sectionIds = [] then []
      else map (\<lambda>ai. \<lparr> aij_row = ai,
                       aij_app = appWithIntegration db (ai_appId ai),
                       aij_item = itemWithLayouts db sectionIds (ai_itemId ai) \<rparr>)
             (appItems db))"

definition getWidgetsForSectionsAsync :: "database \<Rightarrow> ident list \<Rightarrow> widget_join list" where
  "getWidgetsForSectionsAsync db sectionIds =
     (if sectionIds = [] then []
      else map (\<lambda>w. \<lparr> wj_row = w,
                      wj_options = filter (\<lambda>opt. o_widgetId opt = w_id w) (widgetOptions db),
                      wj_item = itemWithLayouts db sectionIds (w_itemId w) \<rparr>)
             (widgets db))"

subsection \<open>Reshaping the rows\<close>

record mapped_secret =
  ms_key :: string
  ms_visibility :: visibility
  ms_isDefined :: bool
  ms_value :: "string option"

definition mapSecret :: "secret_row \<Rightarrow> mapped_secret" where
  "mapSecret secret =
     (let isDefined = (sec_value secret \<noteq> None \<and> sec_value secret \<noteq> Some [])
      in if sec_visibility secret = Private
         then \<lparr> ms_key = sec_key secret, ms_visibility = Private, ms_isDefined = isDefined,
                ms_value = None \<rparr>
         else \<lparr> ms_key = sec_key secret, ms_visibility = Public, ms_isDefined = isDefined,
                ms_value = sec_value secret \<rparr>)"

record mapped_integration =
  mi_row :: integration_row
  mi_secrets :: "mapped_secret list"

record mapped_app =
  ma_id :: ident
  ma_width :: int
  ma_height :: int
  ma_x :: int
  ma_y :: int
  ma_name :: string
  ma_internalUrl :: string
  ma_iconUrl :: string
  ma_integrationId :: "ident option"
  ma_integration :: "mapped_integration option"
  ma_statusCodes :: "int list"

text \<open>
  \<open>appItem.item.layouts.at(0)!\<close> and \<open>appItem.app!\<close> are destructured: a missing
  one throws.
\<close>

definition mapApp :: "app_item_join \<Rightarrow> error + mapped_app" where
  "mapApp appItem =
     (case aij_item appItem of
        None \<Rightarrow> Inl TypeError
      | Some item \<Rightarrow>
          (case itj_layouts item of
             [] \<Rightarrow> Inl TypeError
           | li # _ \<Rightarrow>
               (case aij_app appItem of
                  None \<Rightarrow> Inl TypeError
                | Some app \<Rightarrow>
                    Inr \<lparr> ma_id = li_itemId li, ma_width = li_width li,
                          ma_height = li_height li, ma_x = li_x li, ma_y = li_y li,
                          ma_name = a_name (apj_row app),
                          ma_internalUrl = a_internalUrl (apj_row app),
                          ma_iconUrl = a_iconUrl (apj_row app),
                          ma_integrationId = a_integrationId (apj_row app),
                          ma_integration =
                            map_option
                              (\<lambda>integration.
                                 \<lparr> mi_row = inj_row integration,
                                   mi_secrets = map mapSecret (inj_secrets integration) \<rparr>)
                              (apj_integration app),
                          ma_statusCodes = apj_statusCodes app \<rparr>)))"

record mapped_widget =
  mw_id :: ident
  mw_width :: int
  mw_height :: int
  mw_x :: int
  mw_y :: int
  mw_sort :: string
  mw_options :: jsval

text \<open>
  \<open>widgetItem.item.layouts.at(0)!\<close> is destructured before \<open>mapOptions\<close> is called.
\<close>

definition mapWidget ::
    "(string \<Rightarrow> string \<Rightarrow> int) \<Rightarrow> (nat \<Rightarrow> widget_option list \<Rightarrow> jsval option)
       \<Rightarrow> widget_join \<Rightarrow> realm \<Rightarrow> (error + mapped_widget) \<times> realm" where
  "mapWidget localeCompare beyond widgetItem rl =
     (case wj_item widgetItem of
        None \<Rightarrow> (Inl TypeError, rl)
      | Some item \<Rightarrow>
          (case itj_layouts item of
             [] \<Rightarrow> (Inl TypeError, rl)
           | li # _ \<Rightarrow>
               (case mapOptionsIn localeCompare beyond (wj_options widgetItem) rl of
                  (Inl e, rl') \<Rightarrow> (Inl e, rl')
                | (Inr opts, rl') \<Rightarrow>
                    (Inr \<lparr> mw_id = li_itemId li, mw_width = li_width li,
                           mw_height = li_height li, mw_x = li_x li, mw_y = li_y li,
                           mw_sort = w_type (wj_row widgetItem), mw_options = opts \<rparr>,
                     rl'))))"

datatype mapped_item = AppItem mapped_app | WidgetItem mapped_widget

datatype 'a field = Absent | Present 'a

datatype section_position = Position "int option" | SideLeft | SideRight

record prepared_section =
  ps_id :: ident
  ps_type :: section_type
  ps_name :: "string option field"
  ps_position :: section_position
  ps_items :: "mapped_item list"

definition mapSection :: "section_row \<Rightarrow> mapped_item list \<Rightarrow> prepared_section" where
  "mapSection section its =
     (case s_type section of
        SecEmpty \<Rightarrow>
          \<lparr> ps_id = s_id section, ps_type = SecEmpty, ps_name = Absent,
            ps_position = Position (s_position section), ps_items = its \<rparr>
      | SecHidden \<Rightarrow>
          \<lparr> ps_id = s_id section, ps_type = SecHidden, ps_name = Absent,
            ps_position = Position None, ps_items = its \<rparr>
      | SecCategory \<Rightarrow>
          \<lparr> ps_id = s_id section, ps_type = SecCategory, ps_name = Present (s_name section),
            ps_position = Position (s_position section), ps_items = its \<rparr>
      | SecSidebar \<Rightarrow>
          \<lparr> ps_id = s_id section, ps_type = SecSidebar, ps_name = Absent,
            ps_position = (if s_position section = Some 0 then SideLeft else SideRight),
            ps_items = its \<rparr>)"

subsection \<open>byName and byNameSimple\<close>

record byName_input =
  bn_boardName :: string
  bn_layout :: "string option"

record full_board =
  fb_board :: board_view
  fb_owner :: "user_row option"
  fb_sections :: "prepared_section list"

text \<open>\<open>x.item.layouts.some((y) => y.sectionId === section.id)\<close>\<close>

definition inSection :: "section_row \<Rightarrow> item_join option \<Rightarrow> error + bool" where
  "inSection section item =
     (case item of
        None \<Rightarrow> Inl TypeError
      | Some it \<Rightarrow> Inr (\<exists>y \<in> set (itj_layouts it). li_sectionId y = s_id section))"

text \<open>
  The callback of \<open>layout.sections.map\<close>: the two filters, then \<open>mapApp\<close> over the
  apps and \<open>mapWidget\<close> over the widgets, then \<open>mapSection\<close>.
\<close>

definition prepareSection ::
    "(string \<Rightarrow> string \<Rightarrow> int) \<Rightarrow> (nat \<Rightarrow> widget_option list \<Rightarrow> jsval option)
       \<Rightarrow> app_item_join list \<Rightarrow> widget_join list \<Rightarrow> section_row \<Rightarrow> realm
       \<Rightarrow> (error + prepared_section) \<times> realm" where
  "prepareSection localeCompare beyond allApps allWidgets section rl =
     (case filterM (\<lambda>x. inSection section (aij_item x)) allApps of
        Inl e \<Rightarrow> (Inl e, rl)
      | Inr filteredApps \<Rightarrow>
          (case filterM (\<lambda>x. inSection section (wj_item x)) allWidgets of
             Inl e \<Rightarrow> (Inl e, rl)
           | Inr filteredWidgets \<Rightarrow>
               (case mapM mapApp filteredApps of
                  Inl e \<Rightarrow> (Inl e, rl)
                | Inr mappedApps \<Rightarrow>
                    (case mapMS (mapWidget localeCompare beyond) filteredWidgets rl of
                       (Inl e, rl') \<Rightarrow> (Inl e, rl')
                     | (Inr mappedWidgets, rl') \<Rightarrow>
                         (Inr (mapSection section
                                 (map AppItem mappedApps @ map WidgetItem mappedWidgets)),
                          rl')))))"

text \<open>\<open>input.layout ?? 'default'\<close>\<close>

definition requestedLayout :: "byName_input \<Rightarrow> string" where
  "requestedLayout input = (case bn_layout input of None \<Rightarrow> ''default'' | Some l \<Rightarrow> l)"

text \<open>
  \<open>rl\<close> is the realm in which the query starts: \<open>pristine\<close>, or the realm an earlier
  query of the same process has left. The realm this query leaves is not part of its
  result; it is the start of a later one, and what is proved below of \<open>byName\<close> is
  proved for every start.
\<close>

definition byName ::
    "(string \<Rightarrow> string \<Rightarrow> int) \<Rightarrow> (nat \<Rightarrow> widget_option list \<Rightarrow> jsval option) \<Rightarrow> realm
       \<Rightarrow> database \<Rightarrow> byName_input \<Rightarrow> error + full_board" where
  "byName localeCompare beyond rl db input =
     (case getFullBoardWithLayoutSectionsAsync db (bn_boardName input) (requestedLayout input) of
        None \<Rightarrow> Inl (TRPCError NOT_FOUND ''Board not found'')
      | Some board \<Rightarrow>
          (case bj_layouts board of
             [] \<Rightarrow> Inl (TRPCError NOT_FOUND ''Layout not found'')
           | layout # _ \<Rightarrow>
               (let sectionIds = map s_id (lj_sections layout);
                    allApps = getAppsForSectionsAsync db sectionIds;
                    allWidgets = getWidgetsForSectionsAsync db sectionIds
                in case fst (mapMS (prepareSection localeCompare beyond allApps allWidgets)
                               (lj_sections layout) rl) of
                     Inl e \<Rightarrow> Inl e
                   | Inr preparedSections \<Rightarrow>
                       Inr \<lparr> fb_board = bj_board board, fb_owner = bj_owner board,
                             fb_sections = preparedSections \<rparr>)))"

definition byNameSimple :: "database \<Rightarrow> string \<Rightarrow> error + board_row" where
  "byNameSimple db boardName =
     (case find (\<lambda>b. b_name b = boardName) (boards db) of
        None \<Rightarrow> Inl (TRPCError NOT_FOUND ''Board not found'')
      | Some board \<Rightarrow> Inr board)"

subsection \<open>updateCustomization\<close>

record access_input =
  allowGuests :: bool

record layout_input =
  leftSidebarEnabled :: bool
  rightSidebarEnabled :: bool
  pingsEnabled :: bool

record appearance_input =
  opacity :: int
  backgroundSrc :: "string option"
  primaryColor :: string
  secondaryColor :: string
  customCss :: string
  shade :: int

record pageMetadata_input =
  pageTitle :: "string option"
  metaTitle :: "string option"
  logoSrc :: "string option"
  faviconSrc :: "string option"

record customization =
  access :: access_input
  layout :: layout_input
  appearance :: appearance_input
  pageMetadata :: pageMetadata_input

record updateCustomization_input =
  uc_boardName :: string
  uc_customization :: customization

text \<open>
  \<open>db.update(boards).set({...}).where(eq(boards.id, dbBoard.id))\<close> sets the
  fourteen columns in every row whose id is that of the board read; the procedure
  returns the row it read first. The input is taken with every field given (the
  validation schema of the input is not at hand).
\<close>

definition setCustomization :: "customization \<Rightarrow> board_row \<Rightarrow> board_row" where
  "setCustomization c b =
     b \<lparr> b_allowGuests := allowGuests (access c),
         b_isLeftSidebarVisible := leftSidebarEnabled (layout c),
         b_isRightSidebarVisible := rightSidebarEnabled (layout c),
         b_isPingEnabled := pingsEnabled (layout c),
         b_appOpacity := opacity (appearance c),
         b_backgroundImageUrl := backgroundSrc (appearance c),
         b_primaryColor := primaryColor (appearance c),
         b_secondaryColor := secondaryColor (appearance c),
         b_customCss := customCss (appearance c),
         b_pageTitle := pageTitle (pageMetadata c),
         b_metaTitle := metaTitle (pageMetadata c),
         b_logoImageUrl := logoSrc (pageMetadata c),
         b_faviconImageUrl := faviconSrc (pageMetadata c),
         b_primaryShade := shade (appearance c) \<rparr>"

definition updateCustomization ::
    "database \<Rightarrow> updateCustomization_input \<Rightarrow> error + (database \<times> board_row)" where
  "updateCustomization db input =
     (case find (\<lambda>b. b_name b = uc_boardName input) (boards db) of
        None \<Rightarrow> Inl (TRPCError NOT_FOUND ''Board not found'')
      | Some dbBoard \<Rightarrow>
          Inr (db \<lparr> boards :=
                      map (\<lambda>b. if b_id b = b_id dbBoard
                               then setCustomization (uc_customization input) b else b)
                        (boards db) \<rparr>,
               dbBoard))"

subsection \<open>Inserting rows\<close>

text \<open>
  Modelled from the spec: the schema is not part of the sources at hand. The spec says
  that the rows are tied together by foreign keys and that uniqueness and one layout per
  name per board are enforced by the relational schema. So an insert throws, and stores
  nothing, when the row repeats the primary key \<open>id\<close> of its table (for \<open>appItems\<close>,
  which has no \<open>id\<close>, the pair of its two columns), when a board repeats a name, when a
  layout repeats the name of a layout of the same board, or when a foreign key of the row
  names no row. Otherwise \<open>db.insert(table).values(row)\<close> appends the row.
\<close>

definition insertBoard :: "board_row \<Rightarrow> database \<Rightarrow> error + database" where
  "insertBoard row db =
     (if b_id row \<in> set (map b_id (boards db))
         \<or> b_name row \<in> set (map b_name (boards db))
         \<or> (case b_ownerId row of None \<Rightarrow> False | Some u \<Rightarrow> u \<notin> set (map u_id (users db)))
      then Inl ConstraintError
      else Inr (db \<lparr> boards := boards db @ [row] \<rparr>))"

definition insertLayout :: "layout_row \<Rightarrow> database \<Rightarrow> error + database" where
  "insertLayout row db =
     (if l_id row \<in> set (map l_id (layouts db))
         \<or> (l_boardId row, l_name row) \<in> set (map (\<lambda>l. (l_boardId l, l_name l)) (layouts db))
         \<or> l_boardId row \<notin> set (map b_id (boards db))
      then Inl ConstraintError
      else Inr (db \<lparr> layouts := layouts db @ [row] \<rparr>))"

definition insertSection :: "section_row \<Rightarrow> database \<Rightarrow> error + database" where
  "insertSection row db =
     (if s_id row \<in> set (map s_id (sections db))
         \<or> s_layoutId row \<notin> set (map l_id (layouts db))
      then Inl ConstraintError
      else Inr (db \<lparr> sections := sections db @ [row] \<rparr>))"

definition insertItem :: "item_row \<Rightarrow> database \<Rightarrow> error + database" where
  "insertItem row db =
     (if i_id row \<in> set (map i_id (items db))
         \<or> i_boardId row \<notin> set (map b_id (boards db))
      then Inl ConstraintError
      else Inr (db \<lparr> items := items db @ [row] \<rparr>))"

definition insertApp :: "app_row \<Rightarrow> database \<Rightarrow> error + database" where
  "insertApp row db =
     (if a_id row \<in> set (map a_id (apps db))
         \<or> (case a_integrationId row of
               None \<Rightarrow> False
             | Some i \<Rightarrow> i \<notin> set (map in_id (integrations db)))
      then Inl ConstraintError
      else Inr (db \<lparr> apps := apps db @ [row] \<rparr>))"

definition insertAppItem :: "app_item_row \<Rightarrow> database \<Rightarrow> error + database" where
  "insertAppItem row db =
     (if (ai_appId row, ai_itemId row) \<in> set (map (\<lambda>r. (ai_appId r, ai_itemId r)) (appItems db))
         \<or> ai_appId row \<notin> set (map a_id (apps db))
         \<or> ai_itemId row \<notin> set (map i_id (items db))
      then Inl ConstraintError
      else Inr (db \<lparr> appItems := appItems db @ [row] \<rparr>))"

definition insertWidget :: "widget_row \<Rightarrow> database \<Rightarrow> error + database" where
  "insertWidget row db =
     (if w_id row \<in> set (map w_id (widgets db))
         \<or> w_itemId row \<notin> set (map i_id (items db))
      then Inl ConstraintError
      else Inr (db \<lparr> widgets := widgets db @ [row] \<rparr>))"

definition insertLayoutItem :: "layout_item_row \<Rightarrow> database \<Rightarrow> error + database" where
  "insertLayoutItem row db =
     (if li_id row \<in> set (map li_id (layoutItems db))
         \<or> li_itemId row \<notin> set (map i_id (items db))
         \<or> li_sectionId row \<notin> set (map s_id (sections db))
      then Inl ConstraintError
      else Inr (db \<lparr> layoutItems := layoutItems db @ [row] \<rparr>))"

subsection \<open>exampleBoard, addApp and addWidget\<close>

text \<open>
  The state of a mutation: the database and the number of identifiers drawn so far.
  \<open>randomUUID()\<close> returns the next identifier of a supply \<open>uuid\<close>, a parameter. A
  mutation is a list of steps run in order, each awaited before the next: a step returns
  the error it throws, if any, and the state it leaves. The first step that throws ends
  the run, and what was inserted before stays (the procedures open no transaction).
  Columns an insert leaves out take their default: for a board these are the columns of
  the parameter \<open>boardDefaults\<close>, and the nullable columns of the other tables are null.
\<close>

record state =
  st_drawn :: nat
  st_db :: database

fun inOrder :: "(state \<Rightarrow> error option \<times> state) list \<Rightarrow> state \<Rightarrow> error option \<times> state" where
  "inOrder [] st = (None, st)"
| "inOrder (step # steps) st =
     (case step st of
        (Some e, st') \<Rightarrow> (Some e, st')
      | (None, st') \<Rightarrow> inOrder steps st')"

definition randomUUID :: "state \<Rightarrow> error option \<times> state" where
  "randomUUID st = (None, st \<lparr> st_drawn := st_drawn st + 1 \<rparr>)"

definition dbInsert :: "(database \<Rightarrow> error + database) \<Rightarrow> state \<Rightarrow> error option \<times> state" where
  "dbInsert ins st =
     (case ins (st_db st) of
        Inl e \<Rightarrow> (Some e, st)
      | Inr db \<Rightarrow> (None, st \<lparr> st_db := db \<rparr>))"

record AddWidgetProps =
  awp_boardId :: ident
  awp_sectionId :: ident
  awp_type :: string
  awp_width :: int
  awp_height :: int
  awp_x :: int
  awp_y :: int

record AddAppProps =
  aap_boardId :: ident
  aap_sectionId :: ident
  aap_name :: string
  aap_internalUrl :: string
  aap_iconUrl :: string
  aap_width :: int
  aap_height :: int
  aap_x :: int
  aap_y :: int

text \<open>
  In \<open>addWidget\<close>, \<open>addApp\<close> and \<open>exampleBoard\<close> the identifiers are named first:
  the \<open>k\<close>-th call of \<open>randomUUID\<close> of a procedure entered with \<open>n\<close> identifiers
  drawn returns \<open>uuid (n + k)\<close>.
\<close>

definition addWidget ::
    "(nat \<Rightarrow> ident) \<Rightarrow> AddWidgetProps \<Rightarrow> state \<Rightarrow> error option \<times> state" where
  "addWidget uuid props st =
     (let n = st_drawn st;
          itemId = uuid n;
          widgetId = uuid (n + 1);
          layoutItemId = uuid (n + 2)
      in inOrder
           [randomUUID,
            dbInsert (insertItem
              \<lparr> i_id = itemId, i_type = ItemWidget, i_boardId = awp_boardId props \<rparr>),
            randomUUID,
            dbInsert (insertWidget
              \<lparr> w_id = widgetId, w_type = awp_type props, w_itemId = itemId \<rparr>),
            randomUUID,
            dbInsert (insertLayoutItem
              \<lparr> li_id = layoutItemId, li_itemId = itemId,
                li_sectionId = awp_sectionId props, li_width = awp_width props,
                li_height = awp_height props, li_x = awp_x props, li_y = awp_y props \<rparr>)]
           st)"

definition addApp ::
    "(nat \<Rightarrow> ident) \<Rightarrow> AddAppProps \<Rightarrow> state \<Rightarrow> error option \<times> state" where
  "addApp uuid props st =
     (let n = st_drawn st;
          itemId = uuid n;
          appId = uuid (n + 1);
          layoutItemId = uuid (n + 2)
      in inOrder
           [randomUUID,
            dbInsert (insertItem
              \<lparr> i_id = itemId, i_type = ItemApp, i_boardId = aap_boardId props \<rparr>),
            randomUUID,
            dbInsert (insertApp
              \<lparr> a_id = appId, a_name = aap_name props,
                a_internalUrl = aap_internalUrl props, a_iconUrl = aap_iconUrl props,
                a_integrationId = None \<rparr>),
            dbInsert (insertAppItem \<lparr> ai_appId = appId, ai_itemId = itemId \<rparr>),
            randomUUID,
            dbInsert (insertLayoutItem
              \<lparr> li_id = layoutItemId, li_itemId = itemId,
                li_sectionId = aap_sectionId props, li_width = aap_width props,
                li_height = aap_height props, li_x = aap_x props, li_y = aap_y props \<rparr>)]
           st)"

definition exampleBoard ::
    "(nat \<Rightarrow> ident) \<Rightarrow> board_row \<Rightarrow> string \<Rightarrow> ident \<Rightarrow> state \<Rightarrow> error option \<times> state" where
  "exampleBoard uuid boardDefaults boardName userId st =
     (let n = st_drawn st;
          boardId = uuid n;
          layoutId = uuid (n + 1);
          sectionId = uuid (n + 2)
      in inOrder
           [randomUUID, randomUUID, randomUUID,
            dbInsert (insertBoard
              (boardDefaults \<lparr> b_id := boardId, b_name := boardName,
                               b_ownerId := Some userId \<rparr>)),
            dbInsert (insertLayout
              \<lparr> l_id = layoutId, l_name = ''default'', l_boardId = boardId \<rparr>),
            dbInsert (insertSection
              \<lparr> s_id = sectionId, s_layoutId = layoutId, s_type = SecEmpty,
                s_position = Some 0, s_name = None \<rparr>),
            addApp uuid
              \<lparr> aap_boardId = boardId, aap_sectionId = sectionId, aap_name = ''Contribute'',
                aap_internalUrl = ''https://github.com/ajnart/homarr'',
                aap_iconUrl =
                  ''https://cdn.jsdelivr.net/gh/walkxcode/dashboard-icons@master/png/github.png'',
                aap_width = 2, aap_height = 1, aap_x = 2, aap_y = 0 \<rparr>,
            addApp uuid
              \<lparr> aap_boardId = boardId, aap_sectionId = sectionId, aap_name = ''Discord'',
                aap_internalUrl = ''https://discord.com/invite/aCsmEV5RgA'',
                aap_iconUrl =
                  ''https://cdn.jsdelivr.net/gh/walkxcode/dashboard-icons@master/png/discord.png'',
                aap_width = 2, aap_height = 1, aap_x = 4, aap_y = 0 \<rparr>,
            addApp uuid
              \<lparr> aap_boardId = boardId, aap_sectionId = sectionId, aap_name = ''Donate'',
                aap_internalUrl = ''https://ko-fi.com/ajnart'',
                aap_iconUrl =
                  ''https://cdn.jsdelivr.net/gh/walkxcode/dashboard-icons@master/png/ko-fi.png'',
                aap_width = 2, aap_height = 1, aap_x = 6, aap_y = 0 \<rparr>,
            addApp uuid
              \<lparr> aap_boardId = boardId, aap_sectionId = sectionId,
                aap_name = ''Documentation'', aap_internalUrl = ''https://homarr.dev'',
                aap_iconUrl = ''/imgs/logo/logo.png'',
                aap_width = 2, aap_height = 2, aap_x = 6, aap_y = 1 \<rparr>,
            addWidget uuid
              \<lparr> awp_boardId = boardId, awp_sectionId = sectionId, awp_type = ''weather'',
                awp_width = 2, awp_height = 1, awp_x = 0, awp_y = 0 \<rparr>,
            addWidget uuid
              \<lparr> awp_boardId = boardId, awp_sectionId = sectionId, awp_type = ''date'',
                awp_width = 2, awp_height = 1, awp_x = 8, awp_y = 0 \<rparr>,
            addWidget uuid
              \<lparr> awp_boardId = boardId, awp_sectionId = sectionId, awp_type = ''date'',
                awp_width = 2, awp_height = 1, awp_x = 8, awp_y = 1 \<rparr>,
            addWidget uuid
              \<lparr> awp_boardId = boardId, awp_sectionId = sectionId, awp_type = ''notebook'',
                awp_width = 6, awp_height = 3, awp_x = 0, awp_y = 1 \<rparr>]
           st)"

text \<open>
  The identifiers on which a uniqueness constraint rests: an identifier is fresh when it
  is none of them.
\<close>

definition usedIds :: "database \<Rightarrow> ident list" where
  "usedIds db =
     map b_id (boards db) @ map l_id (layouts db) @ map l_boardId (layouts db)
     @ map s_id (sections db) @ map i_id (items db) @ map a_id (apps db)
     @ map ai_appId (appItems db) @ map ai_itemId (appItems db)
     @ map w_id (widgets db) @ map li_id (layoutItems db)"

subsection \<open>addAppsForContainers\<close>

text \<open>
  A config file holds wrappers, apps and other properties the procedure copies as they
  are. \<open>configExists\<close>, \<open>getConfig\<close> and \<open>generateDefaultApp\<close> are imported from
  modules that are not at hand; they are parameters. \<open>generateDefaultApp\<close> is called
  once for each container, and its first argument here is the number of the call, so
  that two calls may return different apps. The position of a wrapper is an
  \<^typ>\<open>int\<close>.

  The port of a container is a JavaScript number, which the procedure tests and prints.
  The numbers are a type parameter \<open>'n\<close> of the embedding, and the two operations of the
  platform on them are parameters: \<open>truthy p\<close> is the test \<open>container.port ? _ : _\<close>
  (false for \<open>0\<close>, \<open>-0\<close> and \<open>NaN\<close> and for no other number), and
  \<open>numberToString p\<close> is the text the template literal puts for \<open>${container.port}\<close>
  (\<open>8080\<close> for 8080, \<open>1e+21\<close> for \<open>10\<^sup>2\<^sup>1\<close>, \<open>0.5\<close> for a half).
\<close>

record wrapper =
  wr_id :: string
  wr_position :: int

record 'b behaviour =
  externalUrl :: string
  bh_other :: 'b

record ('b, 'a) config_app =
  ca_name :: string
  ca_url :: string
  ca_behaviour :: "'b behaviour"
  ca_other :: 'a

record ('b, 'a, 'c) config =
  cf_wrappers :: "wrapper list"
  cf_apps :: "('b, 'a) config_app list"
  cf_other :: 'c

record 'n container =
  ct_name :: string
  ct_port :: "'n option"

record 'n addApps_input =
  aa_boardName :: string
  aa_apps :: "'n container list"

text \<open>
  \<open>container.port ? `http://localhost:${container.port}` : 'http://localhost'\<close>:
  a port that is left out is \<open>undefined\<close>, which is falsy.
\<close>

definition containerAddress :: "('n \<Rightarrow> bool) \<Rightarrow> ('n \<Rightarrow> string) \<Rightarrow> 'n container \<Rightarrow> string" where
  "containerAddress truthy numberToString c =
     (case ct_port c of
        None \<Rightarrow> ''http://localhost''
      | Some p \<Rightarrow>
          if truthy p then ''http://localhost:'' @ numberToString p else ''http://localhost'')"

text \<open>
  The callback of \<open>input.apps.map\<close>; \<open>lowestWrapper\<close> is \<open>undefined\<close> when the
  config has no wrapper, and \<open>lowestWrapper.id\<close> then throws.
\<close>

definition containerApp ::
    "(nat \<Rightarrow> string \<Rightarrow> ('b, 'a) config_app) \<Rightarrow> ('n \<Rightarrow> bool) \<Rightarrow> ('n \<Rightarrow> string)
       \<Rightarrow> wrapper option \<Rightarrow> nat \<times> 'n container \<Rightarrow> error + ('b, 'a) config_app" where
  "containerApp generateDefaultApp truthy numberToString lowestWrapper ic =
     (case lowestWrapper of
        None \<Rightarrow> Inl TypeError
      | Some w \<Rightarrow>
          (let defaultApp = generateDefaultApp (fst ic) (wr_id w);
               address = containerAddress truthy numberToString (snd ic)
           in Inr (defaultApp
                     \<lparr> ca_name := ct_name (snd ic), ca_url := address,
                       ca_behaviour := (ca_behaviour defaultApp) \<lparr> externalUrl := address \<rparr> \<rparr>)))"

text \<open>
  The result is the one file the procedure writes: its path and the config written.
  \<open>config.wrappers.sort(...)\<close> sorts the array of the config in place, and the spread
  \<open>...config\<close> copies that array into the new config.
\<close>

definition addAppsForContainers ::
    "(string \<Rightarrow> bool) \<Rightarrow> (string \<Rightarrow> ('b, 'a, 'c) config) \<Rightarrow> (nat \<Rightarrow> string \<Rightarrow> ('b, 'a) config_app)
       \<Rightarrow> ('n \<Rightarrow> bool) \<Rightarrow> ('n \<Rightarrow> string) \<Rightarrow> 'n addApps_input
       \<Rightarrow> error + (string \<times> ('b, 'a, 'c) config)" where
  "addAppsForContainers configExists getConfig generateDefaultApp truthy numberToString input =
     (if \<not> configExists (aa_boardName input)
      then Inl (TRPCError NOT_FOUND ''Board not found'')
      else
        (let config = getConfig (aa_boardName input);
             sortedWrappers =
               sort_cmp (\<lambda>a b. wr_position a - wr_position b) (cf_wrappers config);
             lowestWrapper = (case sortedWrappers of [] \<Rightarrow> None | w # _ \<Rightarrow> Some w)
         in case mapM (containerApp generateDefaultApp truthy numberToString lowestWrapper)
                   (zip [0 ..< length (aa_apps input)] (aa_apps input)) of
              Inl e \<Rightarrow> Inl e
            | Inr newApps \<Rightarrow>
                Inr (''data/configs/'' @ aa_boardName input @ ''.json'',
                     config \<lparr> cf_wrappers := sortedWrappers,
                              cf_apps := cf_apps config @ newApps \<rparr>)))"

subsection \<open>Notions used in the proofs about mapOptions\<close>

text \<open>\<open>keys.join('.')\<close>, the inverse of \<open>split_dot\<close>.\<close>

fun join_dot :: "string list \<Rightarrow> string" where
  "join_dot [] = []"
| "join_dot [k] = k"
| "join_dot (k # ks) = k @ CHR ''.'' # join_dot ks"

text \<open>
  \<open>ancestorsFirst seen todo\<close>: every proper ancestor of the path of a row in \<open>todo\<close> is
  the path of a row of type array or object that stands before it, in \<open>seen\<close> or in
  \<open>todo\<close>.
\<close>

definition ancestorsFirst :: "widget_option list \<Rightarrow> widget_option list \<Rightarrow> bool" where
  "ancestorsFirst seen todo =
     (\<forall>xs r ys. todo = xs @ r # ys \<longrightarrow>
        (\<forall>n. 1 \<le> n \<and> n < length (split_dot (o_path r)) \<longrightarrow>
           (\<exists>a \<in> set (seen @ xs). split_dot (o_path a) = take n (split_dot (o_path r))
              \<and> (o_type a = OptArray \<or> o_type a = OptObject))))"

text \<open>
  \<open>writable cur p\<close>: along the keys of \<open>p\<close> but the last, \<open>cur\<close> holds arrays and
  objects, and every key is one the embedding describes on the container it is used on.
\<close>

fun writable :: "jsval \<Rightarrow> string list \<Rightarrow> bool" where
  "writable cur [] = True"
| "writable cur (k # ks) =
     (case cur of
        JObject m \<Rightarrow>
          k \<noteq> ''__proto__'' \<and> (ks = [] \<or> (case m k of None \<Rightarrow> False | Some c \<Rightarrow> writable c ks))
      | JArray m \<Rightarrow>
          arrayIndexKey k = Some k
          \<and> (ks = [] \<or> (case m k of None \<Rightarrow> False | Some c \<Rightarrow> writable c ks))
      | _ \<Rightarrow> False)"

text \<open>The value \<open>cur\<close> with \<open>v\<close> stored at the path \<open>p\<close>.\<close>

fun putPath :: "jsval \<Rightarrow> string list \<Rightarrow> jsval \<Rightarrow> jsval" where
  "putPath cur [] v = v"
| "putPath cur (k # ks) v =
     (case cur of
        JObject m \<Rightarrow> JObject (m(k \<mapsto> (case m k of None \<Rightarrow> v | Some c \<Rightarrow> putPath c ks v)))
      | JArray m \<Rightarrow> JArray (m(k \<mapsto> (case m k of None \<Rightarrow> v | Some c \<Rightarrow> putPath c ks v)))
      | _ \<Rightarrow> cur)"

text \<open>
  \<open>decodedAt obj r\<close>: the path of \<open>r\<close> holds in \<open>obj\<close> what \<open>addAtPath\<close> assigns for
  \<open>r\<close> (an array, an object, or the decoded value; nothing when it assigns nothing).
  \<open>built obj seen\<close> is the invariant of the loop of \<open>mapOptions\<close> after the rows
  \<open>seen\<close>: \<open>obj\<close> is an object, holds every row seen, and holds nothing else.
\<close>

definition decodedAt :: "jsval \<Rightarrow> widget_option \<Rightarrow> bool" where
  "decodedAt obj r =
     (case o_type r of
        OptArray \<Rightarrow> isArr (getPath obj (split_dot (o_path r)))
      | OptObject \<Rightarrow> isObj (getPath obj (split_dot (o_path r)))
      | _ \<Rightarrow> getPath obj (split_dot (o_path r)) = decodeOption r)"

definition built :: "jsval \<Rightarrow> widget_option list \<Rightarrow> bool" where
  "built obj seen =
     (isObj (Some obj)
    \<and> (\<forall>r \<in> set seen. decodedAt obj r)
    \<and> (\<forall>ks. ks \<noteq> [] \<longrightarrow> getPath obj ks \<noteq> None \<longrightarrow>
          ks \<in> (\<lambda>r. split_dot (o_path r)) ` set seen))"

text \<open>The condition \<open>plainKeys\<close> puts on one row.\<close>

definition keysOK :: "widget_option list \<Rightarrow> widget_option \<Rightarrow> bool" where
  "keysOK rows r =
     ((\<forall>k \<in> set (split_dot (o_path r)). k \<noteq> ''__proto__'')
      \<and> (\<forall>a \<in> set rows.
            o_type a = OptArray
            \<and> strict_prefix (split_dot (o_path a)) (split_dot (o_path r)) \<longrightarrow>
              arrayIndexKey (split_dot (o_path r) ! length (split_dot (o_path a)))
                = Some (split_dot (o_path r) ! length (split_dot (o_path a)))))"

subsection \<open>Sample data\<close>

text \<open>
  A collation to run the procedures with: strings compared unit by unit. And a small
  database: two boards, the first with two layouts; the layout \<open>default\<close> has a category
  at position 1 stored before an empty section at position 0; an app with an integration
  and two secrets lies in the empty section and a widget with three options in the
  category.
\<close>

definition codeUnitCompare :: "string \<Rightarrow> string \<Rightarrow> int" where
  "codeUnitCompare a b = (if a = b then 0 else if a < b then - 1 else 1)"

definition demo_board :: board_row where
  "demo_board =
     \<lparr> b_id = ''b1'', b_name = ''home'', b_ownerId = Some ''u1'', b_allowGuests = False,
       b_isLeftSidebarVisible = False, b_isRightSidebarVisible = False,
       b_isPingEnabled = False, b_appOpacity = 100, b_backgroundImageUrl = None,
       b_primaryColor = ''red'', b_secondaryColor = ''orange'', b_customCss = [],
       b_pageTitle = None, b_metaTitle = None, b_logoImageUrl = None,
       b_faviconImageUrl = None, b_primaryShade = 6 \<rparr>"

definition demo_db :: database where
  "demo_db =
     \<lparr> users = [\<lparr> u_id = ''u1'', u_name = Some ''admin'' \<rparr>],
       boards = [demo_board, demo_board \<lparr> b_id := ''b2'', b_name := ''lab'' \<rparr>],
       layouts = [\<lparr> l_id = ''l1'', l_name = ''default'', l_boardId = ''b1'' \<rparr>,
                  \<lparr> l_id = ''l2'', l_name = ''mobile'', l_boardId = ''b1'' \<rparr>],
       sections = [\<lparr> s_id = ''s2'', s_layoutId = ''l1'', s_type = SecCategory,
                      s_position = Some 1, s_name = Some ''Media'' \<rparr>,
                   \<lparr> s_id = ''s1'', s_layoutId = ''l1'', s_type = SecEmpty,
                      s_position = Some 0, s_name = None \<rparr>,
                   \<lparr> s_id = ''s3'', s_layoutId = ''l2'', s_type = SecEmpty,
                      s_position = Some 0, s_name = None \<rparr>],
       items = [\<lparr> i_id = ''i1'', i_type = ItemApp, i_boardId = ''b1'' \<rparr>,
                \<lparr> i_id = ''i2'', i_type = ItemWidget, i_boardId = ''b1'' \<rparr>],
       apps = [\<lparr> a_id = ''a1'', a_name = ''Plex'', a_internalUrl = ''http://plex'',
                  a_iconUrl = ''/plex.png'', a_integrationId = Some ''n1'' \<rparr>],
       appItems = [\<lparr> ai_appId = ''a1'', ai_itemId = ''i1'' \<rparr>],
       widgets = [\<lparr> w_id = ''w1'', w_type = ''weather'', w_itemId = ''i2'' \<rparr>],
       widgetOptions =
         [\<lparr> o_widgetId = ''w1'', o_path = ''location.name'', o_value = Some ''Paris'',
             o_type = OptString \<rparr>,
          \<lparr> o_widgetId = ''w1'', o_path = ''location'', o_value = None, o_type = OptObject \<rparr>,
          \<lparr> o_widgetId = ''w1'', o_path = ''fahrenheit'', o_value = Some ''false'',
             o_type = OptBoolean \<rparr>],
       layoutItems =
         [\<lparr> li_id = ''y1'', li_itemId = ''i1'', li_sectionId = ''s1'', li_width = 2,
             li_height = 1, li_x = 0, li_y = 0 \<rparr>,
          \<lparr> li_id = ''y2'', li_itemId = ''i2'', li_sectionId = ''s2'', li_width = 2,
             li_height = 1, li_x = 2, li_y = 0 \<rparr>],
       integrations = [\<lparr> in_id = ''n1'', in_name = ''plex'' \<rparr>],
       integrationSecrets =
         [\<lparr> sec_integrationId = ''n1'', sec_key = ''apiKey'', sec_value = Some ''hunter2'',
             sec_visibility = Private \<rparr>,
          \<lparr> sec_integrationId = ''n1'', sec_key = ''username'', sec_value = Some [],
             sec_visibility = Public \<rparr>],
       appStatusCodes = [\<lparr> sc_appId = ''a1'', sc_code = 200 \<rparr>] \<rparr>"

definition demo_home :: byName_input where
  "demo_home = \<lparr> bn_boardName = ''home'', bn_layout = None \<rparr>"

definition demo_mobile :: byName_input where
  "demo_mobile = \<lparr> bn_boardName = ''home'', bn_layout = Some ''mobile'' \<rparr>"

text \<open>
  The same database with one option row whose path starts with an inherited key: the
  program stores \<open>x\<close> on the function \<open>Object.prototype.toString\<close> and
  \<open>mapOptions\<close> returns the empty object, which is what \<open>demo_beyond\<close> answers.
\<close>

definition demo_db_inherited :: database where
  "demo_db_inherited =
     demo_db \<lparr> widgetOptions :=
       [\<lparr> o_widgetId = ''w1'', o_path = ''toString.x'', o_value = Some ''v'',
           o_type = OptString \<rparr>] \<rparr>"

definition demo_beyond :: "nat \<Rightarrow> widget_option list \<Rightarrow> jsval option" where
  "demo_beyond n options = Some (JObject Map.empty)"

definition demo_customization :: customization where
  "demo_customization =
     \<lparr> access = \<lparr> allowGuests = True \<rparr>,
       layout = \<lparr> leftSidebarEnabled = True, rightSidebarEnabled = False,
                  pingsEnabled = True \<rparr>,
       appearance = \<lparr> opacity = 80, backgroundSrc = Some ''/bg.png'', primaryColor = ''blue'',
                      secondaryColor = ''cyan'', customCss = ''body {}'', shade = 4 \<rparr>,
       pageMetadata = \<lparr> pageTitle = Some ''Home'', metaTitle = None, logoSrc = None,
                        faviconSrc = None \<rparr> \<rparr>"

definition demo_config :: "(unit, nat \<times> string, unit) config" where
  "demo_config =
     \<lparr> cf_wrappers = [\<lparr> wr_id = ''wrapB'', wr_position = 1 \<rparr>,
                      \<lparr> wr_id = ''wrapA'', wr_position = 0 \<rparr>],
       cf_apps = [],
       cf_other = () \<rparr>"

text \<open>A default app that records the number of the call and the wrapper it was made for.\<close>

definition demo_defaultApp :: "nat \<Rightarrow> string \<Rightarrow> (unit, nat \<times> string) config_app" where
  "demo_defaultApp n wrapperId =
     \<lparr> ca_name = ''Your app'', ca_url = ''https://homarr.dev'',
       ca_behaviour = \<lparr> externalUrl = ''https://homarr.dev'', bh_other = () \<rparr>,
       ca_other = (n, wrapperId) \<rparr>"

text \<open>
  Ports that are integers of a few digits: such a number is falsy exactly when it is 0,
  and is printed as its decimal numeral.
\<close>

definition demo_containers :: "int addApps_input" where
  "demo_containers =
     \<lparr> aa_boardName = ''home'',
       aa_apps = [\<lparr> ct_name = ''nginx'', ct_port = Some 8080 \<rparr>,
                  \<lparr> ct_name = ''redis'', ct_port = None \<rparr>,
                  \<lparr> ct_name = ''zero'', ct_port = Some 0 \<rparr>] \<rparr>"

definition demo_update :: updateCustomization_input where
  "demo_update = \<lparr> uc_boardName = ''home'', uc_customization = demo_customization \<rparr>"

definition demo_app_out :: mapped_app where
  "demo_app_out =
     \<lparr> ma_id = ''i1'', ma_width = 2, ma_height = 1, ma_x = 0, ma_y = 0, ma_name = ''Plex'',
       ma_internalUrl = ''http://plex'', ma_iconUrl = ''/plex.png'',
       ma_integrationId = Some ''n1'',
       ma_integration =
         Some \<lparr> mi_row = \<lparr> in_id = ''n1'', in_name = ''plex'' \<rparr>,
                mi_secrets =
                  [\<lparr> ms_key = ''apiKey'', ms_visibility = Private, ms_isDefined = True,
                      ms_value = None \<rparr>,
                   \<lparr> ms_key = ''username'', ms_visibility = Public, ms_isDefined = False,
                      ms_value = Some [] \<rparr>] \<rparr>,
       ma_statusCodes = [200] \<rparr>"

definition demo_widget_out :: mapped_widget where
  "demo_widget_out =
     \<lparr> mw_id = ''i2'', mw_width = 2, mw_height = 1, mw_x = 2, mw_y = 0, mw_sort = ''weather'',
       mw_options =
         JObject [''fahrenheit'' \<mapsto> JBool False,
                  ''location'' \<mapsto> JObject [''name'' \<mapsto> JString ''Paris'']] \<rparr>"

definition demo_result :: full_board where
  "demo_result =
     \<lparr> fb_board = withoutOwnerId demo_board,
       fb_owner = Some \<lparr> u_id = ''u1'', u_name = Some ''admin'' \<rparr>,
       fb_sections =
         [\<lparr> ps_id = ''s1'', ps_type = SecEmpty, ps_name = Absent,
             ps_position = Position (Some 0), ps_items = [AppItem demo_app_out] \<rparr>,
          \<lparr> ps_id = ''s2'', ps_type = SecCategory, ps_name = Present (Some ''Media''),
             ps_position = Position (Some 1), ps_items = [WidgetItem demo_widget_out] \<rparr>] \<rparr>"

definition demo_result_mobile :: full_board where
  "demo_result_mobile =
     \<lparr> fb_board = withoutOwnerId demo_board,
       fb_owner = Some \<lparr> u_id = ''u1'', u_name = Some ''admin'' \<rparr>,
       fb_sections =
         [\<lparr> ps_id = ''s3'', ps_type = SecEmpty, ps_name = Absent,
             ps_position = Position (Some 0), ps_items = [] \<rparr>] \<rparr>"

definition demo_result_inherited :: full_board where
  "demo_result_inherited =
     \<lparr> fb_board = withoutOwnerId demo_board,
       fb_owner = Some \<lparr> u_id = ''u1'', u_name = Some ''admin'' \<rparr>,
       fb_sections =
         [\<lparr> ps_id = ''s1'', ps_type = SecEmpty, ps_name = Absent,
             ps_position = Position (Some 0), ps_items = [AppItem demo_app_out] \<rparr>,
          \<lparr> ps_id = ''s2'', ps_type = SecCategory, ps_name = Present (Some ''Media''),
             ps_position = Position (Some 1),
             ps_items = [WidgetItem (demo_widget_out \<lparr> mw_options := JObject Map.empty \<rparr>)] \<rparr>] \<rparr>"

definition demo_written :: "(unit, nat \<times> string, unit) config" where
  "demo_written =
     \<lparr> cf_wrappers = [\<lparr> wr_id = ''wrapA'', wr_position = 0 \<rparr>,
                      \<lparr> wr_id = ''wrapB'', wr_position = 1 \<rparr>],
       cf_apps =
         [\<lparr> ca_name = ''nginx'', ca_url = ''http://localhost:8080'',
             ca_behaviour = \<lparr> externalUrl = ''http://localhost:8080'', bh_other = () \<rparr>,
             ca_other = (0, ''wrapA'') \<rparr>,
          \<lparr> ca_name = ''redis'', ca_url = ''http://localhost'',
             ca_behaviour = \<lparr> externalUrl = ''http://localhost'', bh_other = () \<rparr>,
             ca_other = (1, ''wrapA'') \<rparr>,
          \<lparr> ca_name = ''zero'', ca_url = ''http://localhost'',
             ca_behaviour = \<lparr> externalUrl = ''http://localhost'', bh_other = () \<rparr>,
             ca_other = (2, ''wrapA'') \<rparr>],
       cf_other = () \<rparr>"

definition demo_uuid :: "nat \<Rightarrow> ident" where
  "demo_uuid n = ''uuid-'' @ showNat n"

definition demo_state :: state where
  "demo_state = \<lparr> st_drawn = 0, st_db = demo_db \<rparr>"

text \<open>Rows of options: an array with two elements, an object, numbers, a number with
  an empty value, a boolean and a null.\<close>

definition demo_options :: "widget_option list" where
  "demo_options =
     [\<lparr> o_widgetId = ''w1'', o_path = ''tags.1'', o_value = Some ''b'', o_type = OptString \<rparr>,
      \<lparr> o_widgetId = ''w1'', o_path = ''tags'', o_value = None, o_type = OptArray \<rparr>,
      \<lparr> o_widgetId = ''w1'', o_path = ''tags.0'', o_value = Some ''a'', o_type = OptString \<rparr>,
      \<lparr> o_widgetId = ''w1'', o_path = ''location'', o_value = None, o_type = OptObject \<rparr>,
      \<lparr> o_widgetId = ''w1'', o_path = ''location.latitude'', o_value = Some ''48.85'',
        o_type = OptNumber \<rparr>,
      \<lparr> o_widgetId = ''w1'', o_path = ''zoom'', o_value = Some ''12'', o_type = OptNumber \<rparr>,
      \<lparr> o_widgetId = ''w1'', o_path = ''limit'', o_value = Some [], o_type = OptNumber \<rparr>,
      \<lparr> o_widgetId = ''w1'', o_path = ''enabled'', o_value = Some ''true'', o_type = OptBoolean \<rparr>,
      \<lparr> o_widgetId = ''w1'', o_path = ''note'', o_value = None, o_type = OptNull \<rparr>]"

section \<open>Auxiliary facts\<close>

lemma mapM_Inr_D: "mapM f xs = Inr ys \<Longrightarrow> list_all2 (\<lambda>x y. f x = Inr y) xs ys"
  by (induction xs arbitrary: ys) (auto split: sum.splits)

lemma mapM_Inr_I: "list_all2 (\<lambda>x y. f x = Inr y) xs ys \<Longrightarrow> mapM f xs = Inr ys"
  by (induction xs ys rule: list_all2_induct) auto

lemma mapM_Inl_D: "mapM f xs = Inl e \<Longrightarrow> \<exists>x \<in> set xs. f x = Inl e"
  by (induction xs) (auto split: sum.splits)

lemma filterM_Inr_D: "filterM p xs = Inr ys \<Longrightarrow> ys = filter (\<lambda>x. p x = Inr True) xs"
  by (induction xs arbitrary: ys) (auto split: sum.splits)

lemma filterM_Inl_D: "filterM p xs = Inl e \<Longrightarrow> \<exists>x \<in> set xs. p x = Inl e"
  by (induction xs) (auto split: sum.splits)

lemma assignAt_no_trpc: "assignAt cur ks k new \<noteq> Inl (TRPCError c m)"
  by (induction cur ks k new rule: assignAt.induct) (auto split: option.splits jsval.splits sum.splits)

lemma foldl_addAtPath_Inl: "foldl (\<lambda>result item. case result of Inl e \<Rightarrow> Inl e | Inr obj \<Rightarrow> addAtPath obj item) (Inl e) xs = Inl e"
  by (induction xs) auto

lemma foldl_addAtPath_no_trpc:
  "foldl (\<lambda>result item. case result of Inl e \<Rightarrow> Inl e | Inr obj \<Rightarrow> addAtPath obj item) (Inr obj) xs \<noteq> Inl (TRPCError c m)"
proof (induction xs arbitrary: obj)
  case Nil
  show ?case by simp
next
  case (Cons x xs)
  show ?case
  proof (cases "addAtPath obj x")
    case (Inl e)
    then have "e \<noteq> TRPCError c m" using assignAt_no_trpc by (auto simp: addAtPath_def Let_def)
    with Inl show ?thesis by (simp add: foldl_addAtPath_Inl)
  next
    case (Inr obj')
    then show ?thesis using Cons.IH by simp
  qed
qed

lemma mapOptions_no_trpc: "mapOptions lc opts \<noteq> Inl (TRPCError c m)"
  by (simp add: mapOptions_def Let_def foldl_addAtPath_no_trpc)

lemma mapMS_Inr_D:
  "mapMS f xs s = (Inr ys, s') \<Longrightarrow> list_all2 (\<lambda>x y. \<exists>t t'. f x t = (Inr y, t')) xs ys"
proof (induction xs arbitrary: ys s)
  case Nil
  then show ?case by simp
next
  case (Cons x xs)
  from Cons.prems obtain y s1 zs where
    1: "f x s = (Inr y, s1)" and 2: "mapMS f xs s1 = (Inr zs, s')" and 3: "ys = y # zs"
    by (auto split: prod.splits sum.splits)
  from Cons.IH [OF 2] 1 3 show ?case by auto
qed

lemma mapMS_Inl_D: "mapMS f xs s = (Inl e, s') \<Longrightarrow> \<exists>x \<in> set xs. \<exists>t t'. f x t = (Inl e, t')"
proof (induction xs arbitrary: s)
  case Nil
  then show ?case by simp
next
  case (Cons x xs)
  show ?case
  proof (cases "f x s")
    case (Pair r s1)
    show ?thesis
    proof (cases r)
      case (Inl e1)
      with Pair Cons.prems have "f x s = (Inl e, s')" by simp
      then show ?thesis by auto
    next
      case (Inr y)
      with Pair Cons.prems have "mapMS f xs s1 = (Inl e, s')"
        by (auto split: prod.splits sum.splits)
      from Cons.IH [OF this] show ?thesis by auto
    qed
  qed
qed

lemma mapOptionsIn_no_trpc: "fst (mapOptionsIn lc beyond opts rl) \<noteq> Inl (TRPCError c m)"
  using mapOptions_no_trpc [of lc opts c m]
  by (auto simp: mapOptionsIn_def Let_def split: option.splits)

lemma mapWidget_no_trpc: "fst (mapWidget lc beyond w rl) \<noteq> Inl (TRPCError c m)"
  using mapOptionsIn_no_trpc [of lc beyond "wj_options w" rl c m]
  by (auto simp: mapWidget_def split: option.splits list.splits sum.splits prod.splits)

lemma mapApp_no_trpc: "mapApp a \<noteq> Inl (TRPCError c m)"
  by (auto simp: mapApp_def split: option.splits list.splits)

lemma inSection_no_trpc: "inSection s it \<noteq> Inl (TRPCError c m)"
  by (auto simp: inSection_def split: option.splits)

lemma mapMS_mapWidget_no_trpc:
  "fst (mapMS (mapWidget lc beyond) ws rl) \<noteq> Inl (TRPCError c m)"
proof
  assume a: "fst (mapMS (mapWidget lc beyond) ws rl) = Inl (TRPCError c m)"
  then obtain rl' where "mapMS (mapWidget lc beyond) ws rl = (Inl (TRPCError c m), rl')"
    by (cases "mapMS (mapWidget lc beyond) ws rl") simp
  from mapMS_Inl_D [OF this] obtain w t t' where
    "mapWidget lc beyond w t = (Inl (TRPCError c m), t')" by blast
  then show False using mapWidget_no_trpc [of lc beyond w t c m] by simp
qed

lemma prepareSection_no_trpc:
  "fst (prepareSection lc beyond as ws s rl) \<noteq> Inl (TRPCError c m)"
proof
  assume a: "fst (prepareSection lc beyond as ws s rl) = Inl (TRPCError c m)"
  have w: "\<And>fw rl'. mapMS (mapWidget lc beyond) fw rl \<noteq> (Inl (TRPCError c m), rl')"
    using mapMS_mapWidget_no_trpc [of lc beyond _ rl c m] by (metis fst_conv)
  from a show False
    unfolding prepareSection_def
    by (auto split: sum.splits prod.splits dest!: filterM_Inl_D mapM_Inl_D
        simp: inSection_no_trpc mapApp_no_trpc w)
qed


lemma find_Some_D: "find P xs = Some x \<Longrightarrow> x \<in> set xs \<and> P x"
  by (induction xs) (auto split: if_splits)

lemma find_None_Ball: "(find P xs = None) = (\<forall>x \<in> set xs. \<not> P x)"
  by (induction xs) auto

lemma mapMS_prepareSection_no_trpc:
  "fst (mapMS (prepareSection lc beyond as ws) xs rl) \<noteq> Inl (TRPCError c m)"
proof
  assume a: "fst (mapMS (prepareSection lc beyond as ws) xs rl) = Inl (TRPCError c m)"
  then obtain rl' where
    "mapMS (prepareSection lc beyond as ws) xs rl = (Inl (TRPCError c m), rl')"
    by (cases "mapMS (prepareSection lc beyond as ws) xs rl") simp
  from mapMS_Inl_D [OF this] obtain x t t' where
    "prepareSection lc beyond as ws x t = (Inl (TRPCError c m), t')" by blast
  then show False using prepareSection_no_trpc [of lc beyond as ws x t c m] by simp
qed

lemma byName_no_board:
  "find (\<lambda>b. b_name b = bn_boardName input) (boards db) = None
   \<Longrightarrow> byName lc beyond rl db input = Inl (TRPCError NOT_FOUND ''Board not found'')"
  by (simp add: byName_def getFullBoardWithLayoutSectionsAsync_def)

lemma byName_no_layout:
  "find (\<lambda>b. b_name b = bn_boardName input) (boards db) = Some b
   \<Longrightarrow> layoutsOfBoard db b (requestedLayout input) = []
   \<Longrightarrow> byName lc beyond rl db input = Inl (TRPCError NOT_FOUND ''Layout not found'')"
  by (simp add: byName_def getFullBoardWithLayoutSectionsAsync_def)

lemma byName_layout:
  "find (\<lambda>b. b_name b = bn_boardName input) (boards db) = Some b
   \<Longrightarrow> layoutsOfBoard db b (requestedLayout input) = l # ls
   \<Longrightarrow> byName lc beyond rl db input =
       (case fst (mapMS (prepareSection lc beyond
                     (getAppsForSectionsAsync db (map s_id (sectionsOfLayout db l)))
                     (getWidgetsForSectionsAsync db (map s_id (sectionsOfLayout db l))))
               (sectionsOfLayout db l) rl) of
          Inl e \<Rightarrow> Inl e
        | Inr preparedSections \<Rightarrow>
            Inr \<lparr> fb_board = withoutOwnerId b,
                  fb_owner = find (\<lambda>u. Some (u_id u) = b_ownerId b) (users db),
                  fb_sections = preparedSections \<rparr>)"
  by (simp add: byName_def getFullBoardWithLayoutSectionsAsync_def Let_def
      split: sum.splits)

lemma byName_layout_no_trpc:
  assumes "find (\<lambda>b. b_name b = bn_boardName input) (boards db) = Some b"
    and "layoutsOfBoard db b (requestedLayout input) = l # ls"
  shows "byName lc beyond rl db input \<noteq> Inl (TRPCError c m)"
  using mapMS_prepareSection_no_trpc
  by (auto simp: byName_layout [OF assms] split: sum.splits)

text \<open>
  \<open>byName\<close> has an outcome of the program on every input: it never answers
  \<open>Unmodelled\<close>.
\<close>

lemma leavesEmbedding_iff: "leavesEmbedding r = (r = Inl Unmodelled)"
  by (cases r rule: leavesEmbedding.cases) simp_all

lemma mapOptionsIn_not_Unmodelled: "fst (mapOptionsIn lc beyond opts rl) \<noteq> Inl Unmodelled"
  by (auto simp: mapOptionsIn_def Let_def leavesEmbedding_iff split: option.splits)

lemma mapWidget_not_Unmodelled: "fst (mapWidget lc beyond w rl) \<noteq> Inl Unmodelled"
  using mapOptionsIn_not_Unmodelled [of lc beyond "wj_options w" rl]
  by (auto simp: mapWidget_def split: option.splits list.splits sum.splits prod.splits)

lemma prepareSection_not_Unmodelled:
  "fst (prepareSection lc beyond as ws s rl) \<noteq> Inl Unmodelled"
proof
  assume a: "fst (prepareSection lc beyond as ws s rl) = Inl Unmodelled"
  have w: "\<And>fw rl'. mapMS (mapWidget lc beyond) fw rl \<noteq> (Inl Unmodelled, rl')"
  proof
    fix fw rl' assume "mapMS (mapWidget lc beyond) fw rl = (Inl Unmodelled, rl')"
    from mapMS_Inl_D [OF this] obtain x t t' where
      "mapWidget lc beyond x t = (Inl Unmodelled, t')" by blast
    then show False using mapWidget_not_Unmodelled [of lc beyond x t] by simp
  qed
  from a show False
    unfolding prepareSection_def
    by (auto split: sum.splits prod.splits dest!: filterM_Inl_D mapM_Inl_D
        simp: inSection_def mapApp_def w split: option.splits list.splits)
qed

lemma byName_not_Unmodelled: "byName lc beyond rl db input \<noteq> Inl Unmodelled"
proof
  assume a: "byName lc beyond rl db input = Inl Unmodelled"
  show False
  proof (cases "find (\<lambda>b. b_name b = bn_boardName input) (boards db)")
    case None
    from byName_no_board [OF None] a show False by simp
  next
    case (Some b)
    show False
    proof (cases "layoutsOfBoard db b (requestedLayout input)")
      case Nil
      from byName_no_layout [OF Some Nil] a show False by simp
    next
      case (Cons l ls)
      let ?f = "prepareSection lc beyond
                     (getAppsForSectionsAsync db (map s_id (sectionsOfLayout db l)))
                     (getWidgetsForSectionsAsync db (map s_id (sectionsOfLayout db l)))"
      from a have "fst (mapMS ?f (sectionsOfLayout db l) rl) = Inl Unmodelled"
        by (auto simp: byName_layout [OF Some Cons] split: sum.splits)
      then obtain rl' where "mapMS ?f (sectionsOfLayout db l) rl = (Inl Unmodelled, rl')"
        by (cases "mapMS ?f (sectionsOfLayout db l) rl") simp
      from mapMS_Inl_D [OF this] obtain x t t' where "?f x t = (Inl Unmodelled, t')" by blast
      then show False
        using prepareSection_not_Unmodelled
          [of lc beyond "getAppsForSectionsAsync db (map s_id (sectionsOfLayout db l))"
             "getWidgetsForSectionsAsync db (map s_id (sectionsOfLayout db l))" x t]
        by simp
    qed
  qed
qed

lemma find_map_same:
  "find P xs = Some x \<Longrightarrow> (\<And>y. P (f y) = P y) \<Longrightarrow> find P (map f xs) = Some (f x)"
  by (induction xs) (auto split: if_splits)

lemma setCustomization_keys:
  "b_id (setCustomization c b) = b_id b \<and> b_name (setCustomization c b) = b_name b
   \<and> b_ownerId (setCustomization c b) = b_ownerId b"
  by (simp add: setCustomization_def)

lemma filterM_Inr_all: "filterM p xs = Inr ys \<Longrightarrow> \<forall>x \<in> set xs. \<exists>b. p x = Inr b"
  by (induction xs arbitrary: ys) (auto split: sum.splits)

lemma list_all2_in_set2: "list_all2 P xs ys \<Longrightarrow> y \<in> set ys \<Longrightarrow> \<exists>x \<in> set xs. P x y"
  by (induction xs ys rule: list_all2_induct) auto

lemma filter_Cons_find: "filter P xs = x # ys \<Longrightarrow> find P xs = Some x"
  by (induction xs) (auto split: if_splits)

lemma mapSection_sel: "ps_id (mapSection s its) = s_id s \<and> ps_items (mapSection s its) = its
    \<and> ps_type (mapSection s its) = s_type s"
  by (cases "s_type s") (simp_all add: mapSection_def)

lemma byName_Inr_D:
  assumes "byName lc beyond rl db input = Inr res"
  shows "\<exists>b l. find (\<lambda>b. b_name b = bn_boardName input) (boards db) = Some b
      \<and> find (\<lambda>l. l_boardId l = b_id b \<and> l_name l = requestedLayout input) (layouts db) = Some l
      \<and> list_all2
          (\<lambda>s ps. \<exists>t t'. prepareSection lc beyond
                     (getAppsForSectionsAsync db (map s_id (sectionsOfLayout db l)))
                     (getWidgetsForSectionsAsync db (map s_id (sectionsOfLayout db l))) s t
                   = (Inr ps, t'))
          (sectionsOfLayout db l) (fb_sections res)"
proof (cases "find (\<lambda>b. b_name b = bn_boardName input) (boards db)")
  case None
  then show ?thesis using assms byName_no_board [OF None] by simp
next
  case (Some b)
  show ?thesis
  proof (cases "layoutsOfBoard db b (requestedLayout input)")
    case Nil
    then show ?thesis using assms byName_no_layout [OF Some Nil] by simp
  next
    case (Cons l ls)
    have l: "find (\<lambda>l. l_boardId l = b_id b \<and> l_name l = requestedLayout input) (layouts db) = Some l"
      using Cons by (simp add: layoutsOfBoard_def filter_Cons_find)
    from assms obtain ps where
      m: "fst (mapMS (prepareSection lc beyond
                     (getAppsForSectionsAsync db (map s_id (sectionsOfLayout db l)))
                     (getWidgetsForSectionsAsync db (map s_id (sectionsOfLayout db l))))
               (sectionsOfLayout db l) rl) = Inr ps" and r: "fb_sections res = ps"
      by (auto simp: byName_layout [OF Some Cons] split: sum.splits)
    from m obtain rl' where
      "mapMS (prepareSection lc beyond
                     (getAppsForSectionsAsync db (map s_id (sectionsOfLayout db l)))
                     (getWidgetsForSectionsAsync db (map s_id (sectionsOfLayout db l))))
               (sectionsOfLayout db l) rl = (Inr ps, rl')"
      by (cases "mapMS (prepareSection lc beyond
                     (getAppsForSectionsAsync db (map s_id (sectionsOfLayout db l)))
                     (getWidgetsForSectionsAsync db (map s_id (sectionsOfLayout db l))))
               (sectionsOfLayout db l) rl") simp
    from mapMS_Inr_D [OF this] Some l r show ?thesis by auto
  qed
qed

lemma prepareSection_Inr_D:
  assumes "prepareSection lc beyond allApps allWidgets s rl = (Inr ps, rl')"
  shows "\<exists>mas mws. ps = mapSection s (map AppItem mas @ map WidgetItem mws)
     \<and> list_all2 (\<lambda>x m. mapApp x = Inr m)
          (filter (\<lambda>x. inSection s (aij_item x) = Inr True) allApps) mas
     \<and> list_all2 (\<lambda>x m. \<exists>t t'. mapWidget lc beyond x t = (Inr m, t'))
          (filter (\<lambda>x. inSection s (wj_item x) = Inr True) allWidgets) mws
     \<and> (\<forall>x \<in> set allApps. \<exists>b. inSection s (aij_item x) = Inr b)
     \<and> (\<forall>x \<in> set allWidgets. \<exists>b. inSection s (wj_item x) = Inr b)"
proof -
  from assms obtain fa fw mas mws where
    fa: "filterM (\<lambda>x. inSection s (aij_item x)) allApps = Inr fa" and
    fw: "filterM (\<lambda>x. inSection s (wj_item x)) allWidgets = Inr fw" and
    ma: "mapM mapApp fa = Inr mas" and
    mw: "mapMS (mapWidget lc beyond) fw rl = (Inr mws, rl')" and
    ps: "ps = mapSection s (map AppItem mas @ map WidgetItem mws)"
    unfolding prepareSection_def by (auto split: sum.splits prod.splits)
  show ?thesis
    using ps mapM_Inr_D [OF ma] mapMS_Inr_D [OF mw] filterM_Inr_D [OF fa] filterM_Inr_D [OF fw]
      filterM_Inr_all [OF fa] filterM_Inr_all [OF fw]
    by blast
qed

lemma inSection_join:
  assumes "inSection s (itemWithLayouts db ids itemId) = Inr b" and "s_id s \<in> set ids"
  shows "b = (\<exists>li \<in> set (layoutItems db). li_itemId li = itemId \<and> li_sectionId li = s_id s)"
proof -
  from assms(1) obtain it where it: "find (\<lambda>it. i_id it = itemId) (items db) = Some it"
    by (cases "find (\<lambda>it. i_id it = itemId) (items db)")
       (auto simp: inSection_def itemWithLayouts_def)
  have "i_id it = itemId" using find_Some_D [OF it] by simp
  then show ?thesis using assms it by (auto simp: inSection_def itemWithLayouts_def)
qed

lemma mapApp_join_D:
  assumes "mapApp \<lparr> aij_row = ai, aij_app = appWithIntegration db (ai_appId ai),
                    aij_item = itemWithLayouts db ids (ai_itemId ai) \<rparr> = Inr m"
  shows "ma_id m = ai_itemId ai
     \<and> (\<exists>a \<in> set (apps db). a_id a = ai_appId ai \<and> ma_name m = a_name a
           \<and> ma_internalUrl m = a_internalUrl a \<and> ma_iconUrl m = a_iconUrl a
           \<and> (case ma_integration m of
                 None \<Rightarrow> True
               | Some mi \<Rightarrow> mi_row mi \<in> set (integrations db)
                   \<and> Some (in_id (mi_row mi)) = a_integrationId a
                   \<and> mi_secrets mi =
                       map mapSecret (filter (\<lambda>s. sec_integrationId s = in_id (mi_row mi))
                                       (integrationSecrets db))))"
proof -
  from assms obtain it where it: "find (\<lambda>it. i_id it = ai_itemId ai) (items db) = Some it"
    by (cases "find (\<lambda>it. i_id it = ai_itemId ai) (items db)")
       (auto simp: mapApp_def itemWithLayouts_def)
  from assms obtain a where a: "find (\<lambda>a. a_id a = ai_appId ai) (apps db) = Some a"
    by (cases "find (\<lambda>a. a_id a = ai_appId ai) (apps db)")
       (auto simp: mapApp_def appWithIntegration_def split: option.splits list.splits)
  from assms it obtain li lis where
    li: "filter (\<lambda>li. li_itemId li = i_id it \<and> li_sectionId li \<in> set ids) (layoutItems db) = li # lis"
    by (auto simp: mapApp_def itemWithLayouts_def split: list.splits)
  have "li \<in> set (filter (\<lambda>li. li_itemId li = i_id it \<and> li_sectionId li \<in> set ids) (layoutItems db))"
    using li by simp
  then have lid: "li_itemId li = ai_itemId ai" using find_Some_D [OF it] by simp
  have m: "m = \<lparr> ma_id = li_itemId li, ma_width = li_width li,
                          ma_height = li_height li, ma_x = li_x li, ma_y = li_y li,
                          ma_name = a_name a,
                          ma_internalUrl = a_internalUrl a,
                          ma_iconUrl = a_iconUrl a,
                          ma_integrationId = a_integrationId a,
                          ma_integration =
                            map_option
                              (\<lambda>i. \<lparr> mi_row = i,
                                   mi_secrets = map mapSecret
                                      (filter (\<lambda>s. sec_integrationId s = in_id i) (integrationSecrets db)) \<rparr>)
                              (find (\<lambda>i. Some (in_id i) = a_integrationId a) (integrations db)),
                          ma_statusCodes = map sc_code (filter (\<lambda>c. sc_appId c = a_id a) (appStatusCodes db)) \<rparr>"
    using assms it a li
    by (simp add: mapApp_def itemWithLayouts_def appWithIntegration_def option.map_comp comp_def)
  have ain: "a \<in> set (apps db) \<and> a_id a = ai_appId ai" using find_Some_D [OF a] by simp
  show ?thesis
  proof (cases "find (\<lambda>i. Some (in_id i) = a_integrationId a) (integrations db)")
    case None
    then show ?thesis using m lid ain by auto
  next
    case (Some i)
    then show ?thesis using m lid ain find_Some_D [OF Some] by auto
  qed
qed

lemma mapWidget_join_D:
  assumes "mapWidget lc beyond \<lparr> wj_row = w, wj_options = opts,
                    wj_item = itemWithLayouts db ids (w_itemId w) \<rparr> t = (Inr m, t')"
  shows "mw_id m = w_itemId w \<and> mw_sort m = w_type w
     \<and> mapOptionsIn lc beyond opts t = (Inr (mw_options m), t')"
proof -
  from assms obtain it where it: "find (\<lambda>it. i_id it = w_itemId w) (items db) = Some it"
    by (cases "find (\<lambda>it. i_id it = w_itemId w) (items db)")
       (auto simp: mapWidget_def itemWithLayouts_def)
  from assms it obtain li lis where
    li: "filter (\<lambda>li. li_itemId li = i_id it \<and> li_sectionId li \<in> set ids) (layoutItems db) = li # lis"
    by (auto simp: mapWidget_def itemWithLayouts_def split: list.splits)
  have "li \<in> set (filter (\<lambda>li. li_itemId li = i_id it \<and> li_sectionId li \<in> set ids) (layoutItems db))"
    using li by simp
  then have lid: "li_itemId li = w_itemId w" using find_Some_D [OF it] by simp
  show ?thesis using assms it li lid
    by (auto simp: mapWidget_def itemWithLayouts_def split: sum.splits prod.splits)
qed

lemma mapSecret_props:
  "ms_key (mapSecret s) = sec_key s \<and> ms_visibility (mapSecret s) = sec_visibility s
   \<and> ms_isDefined (mapSecret s) = (sec_value s \<noteq> None \<and> sec_value s \<noteq> Some [])
   \<and> (sec_visibility s = Private \<longrightarrow> ms_value (mapSecret s) = None)
   \<and> (sec_visibility s = Public \<longrightarrow> ms_value (mapSecret s) = sec_value s)"
  by (cases "sec_visibility s") (simp_all add: mapSecret_def Let_def)

lemma filter_map_cong:
  "(\<And>x. x \<in> set xs \<Longrightarrow> P (f x) = Q x) \<Longrightarrow> filter P (map f xs) = map f (filter Q xs)"
  by (induction xs) auto

lemma section_apps:
  assumes p: "prepareSection lc beyond (getAppsForSectionsAsync db ids)
                (getWidgetsForSectionsAsync db ids) s rl = (Inr ps, rl')"
    and s: "s_id s \<in> set ids"
  shows "\<exists>mas mws. ps = mapSection s (map AppItem mas @ map WidgetItem mws)
     \<and> list_all2
          (\<lambda>ai m. mapApp \<lparr> aij_row = ai, aij_app = appWithIntegration db (ai_appId ai),
                             aij_item = itemWithLayouts db ids (ai_itemId ai) \<rparr> = Inr m)
          (filter (\<lambda>ai. \<exists>li \<in> set (layoutItems db).
                          li_itemId li = ai_itemId ai \<and> li_sectionId li = s_id s) (appItems db))
          mas
     \<and> list_all2
          (\<lambda>w m. \<exists>t t'. mapWidget lc beyond \<lparr> wj_row = w,
                      wj_options = filter (\<lambda>opt. o_widgetId opt = w_id w) (widgetOptions db),
                      wj_item = itemWithLayouts db ids (w_itemId w) \<rparr> t = (Inr m, t'))
          (filter (\<lambda>w. \<exists>li \<in> set (layoutItems db).
                          li_itemId li = w_itemId w \<and> li_sectionId li = s_id s) (widgets db))
          mws"
proof -
  let ?J = "\<lambda>ai. \<lparr> aij_row = ai, aij_app = appWithIntegration db (ai_appId ai),
                             aij_item = itemWithLayouts db ids (ai_itemId ai) \<rparr>"
  let ?K = "\<lambda>w. \<lparr> wj_row = w,
                      wj_options = filter (\<lambda>opt. o_widgetId opt = w_id w) (widgetOptions db),
                      wj_item = itemWithLayouts db ids (w_itemId w) \<rparr>"
  from s have ne: "ids \<noteq> []" by auto
  have A: "getAppsForSectionsAsync db ids = map ?J (appItems db)"
    using ne by (simp add: getAppsForSectionsAsync_def)
  have W: "getWidgetsForSectionsAsync db ids = map ?K (widgets db)"
    using ne by (simp add: getWidgetsForSectionsAsync_def)
  from prepareSection_Inr_D [OF p] obtain mas mws where
    ps: "ps = mapSection s (map AppItem mas @ map WidgetItem mws)" and
    la: "list_all2 (\<lambda>x m. mapApp x = Inr m)
          (filter (\<lambda>x. inSection s (aij_item x) = Inr True) (map ?J (appItems db))) mas" and
    lw: "list_all2 (\<lambda>x m. \<exists>t t'. mapWidget lc beyond x t = (Inr m, t'))
          (filter (\<lambda>x. inSection s (wj_item x) = Inr True) (map ?K (widgets db))) mws" and
    oka: "\<forall>x \<in> set (map ?J (appItems db)). \<exists>b. inSection s (aij_item x) = Inr b" and
    okw: "\<forall>x \<in> set (map ?K (widgets db)). \<exists>b. inSection s (wj_item x) = Inr b"
    unfolding A W by blast
  have fa: "filter (\<lambda>x. inSection s (aij_item x) = Inr True) (map ?J (appItems db))
      = map ?J (filter (\<lambda>ai. \<exists>li \<in> set (layoutItems db).
                          li_itemId li = ai_itemId ai \<and> li_sectionId li = s_id s) (appItems db))"
  proof (rule filter_map_cong)
    fix ai assume "ai \<in> set (appItems db)"
    with oka obtain b where b: "inSection s (itemWithLayouts db ids (ai_itemId ai)) = Inr b"
      by auto
    from inSection_join [OF b s] b
    show "(inSection s (aij_item (?J ai)) = Inr True)
        = (\<exists>li \<in> set (layoutItems db). li_itemId li = ai_itemId ai \<and> li_sectionId li = s_id s)"
      by auto
  qed
  have fw: "filter (\<lambda>x. inSection s (wj_item x) = Inr True) (map ?K (widgets db))
      = map ?K (filter (\<lambda>w. \<exists>li \<in> set (layoutItems db).
                          li_itemId li = w_itemId w \<and> li_sectionId li = s_id s) (widgets db))"
  proof (rule filter_map_cong)
    fix w assume "w \<in> set (widgets db)"
    with okw obtain b where b: "inSection s (itemWithLayouts db ids (w_itemId w)) = Inr b"
      by auto
    from inSection_join [OF b s] b
    show "(inSection s (wj_item (?K w)) = Inr True)
        = (\<exists>li \<in> set (layoutItems db). li_itemId li = w_itemId w \<and> li_sectionId li = s_id s)"
      by auto
  qed
  from la lw show ?thesis unfolding fa fw list_all2_map1 using ps by blast
qed

lemma demo_byName: "byName codeUnitCompare demo_beyond pristine demo_db demo_home = Inr demo_result"
  by (simp add: byName_def getFullBoardWithLayoutSectionsAsync_def demo_db_def demo_board_def
      demo_home_def requestedLayout_def layoutsOfBoard_def sectionsOfLayout_def
      getAppsForSectionsAsync_def getWidgetsForSectionsAsync_def prepareSection_def inSection_def
      itemWithLayouts_def appWithIntegration_def mapApp_def mapWidget_def mapOptions_def
      mapOptionsIn_def pristine_def Let_def
      sort_cmp_def codeUnitCompare_def addAtPath_def decodeOption_def inheritedKeys_def
      mapSection_def mapSecret_def demo_result_def demo_app_out_def demo_widget_out_def)

lemma demo_byName_mobile:
  "byName codeUnitCompare demo_beyond pristine demo_db demo_mobile = Inr demo_result_mobile"
  by (simp add: byName_def getFullBoardWithLayoutSectionsAsync_def demo_db_def demo_board_def
      demo_mobile_def requestedLayout_def layoutsOfBoard_def sectionsOfLayout_def
      getAppsForSectionsAsync_def getWidgetsForSectionsAsync_def prepareSection_def inSection_def
      itemWithLayouts_def appWithIntegration_def mapApp_def mapWidget_def mapOptions_def
      mapOptionsIn_def pristine_def Let_def
      sort_cmp_def codeUnitCompare_def addAtPath_def decodeOption_def inheritedKeys_def
      mapSection_def mapSecret_def demo_result_mobile_def)

lemma demo_byName_inherited:
  "byName codeUnitCompare demo_beyond pristine demo_db_inherited demo_home = Inr demo_result_inherited"
  by (simp add: byName_def getFullBoardWithLayoutSectionsAsync_def demo_db_inherited_def
      demo_db_def demo_board_def
      demo_home_def requestedLayout_def layoutsOfBoard_def sectionsOfLayout_def
      getAppsForSectionsAsync_def getWidgetsForSectionsAsync_def prepareSection_def inSection_def
      itemWithLayouts_def appWithIntegration_def mapApp_def mapWidget_def mapOptions_def
      mapOptionsIn_def pristine_def Let_def demo_beyond_def
      sort_cmp_def codeUnitCompare_def addAtPath_def decodeOption_def inheritedKeys_def
      mapSection_def mapSecret_def demo_result_inherited_def demo_app_out_def
      demo_widget_out_def)

text \<open>
  When \<open>byName\<close> returns: the board and the layout exist, the rows of \<open>appItems\<close> and
  \<open>widgets\<close> name items and apps that exist, \<open>mapOptions\<close> returns on the options of
  every widget, and the realm is unaltered at the start.
\<close>

lemma find_Some_filter: "find P xs = Some x \<Longrightarrow> \<exists>ys. filter P xs = x # ys"
  by (induction xs) (auto split: if_splits)

lemma find_ex: "\<exists>x \<in> set xs. P x \<Longrightarrow> \<exists>y. find P xs = Some y"
  by (induction xs) auto

lemma filterM_returns: "\<forall>x \<in> set xs. \<exists>b. p x = Inr b \<Longrightarrow> \<exists>ys. filterM p xs = Inr ys"
  by (induction xs) (auto split: sum.splits)

lemma mapM_returns: "\<forall>x \<in> set xs. \<exists>y. f x = Inr y \<Longrightarrow> \<exists>ys. mapM f xs = Inr ys"
  by (induction xs) (auto split: sum.splits)

lemma mapMS_returns:
  assumes "I s" and "\<And>x t. x \<in> set xs \<Longrightarrow> I t \<Longrightarrow> \<exists>y t'. f x t = (Inr y, t') \<and> I t'"
  shows "\<exists>ys s'. mapMS f xs s = (Inr ys, s') \<and> I s'"
  using assms
proof (induction xs arbitrary: s)
  case Nil
  then show ?case by simp
next
  case (Cons x xs)
  from Cons.prems(2) [of x s] Cons.prems(1) obtain y s1 where
    1: "f x s = (Inr y, s1)" and 2: "I s1" by auto
  have "\<And>x t. x \<in> set xs \<Longrightarrow> I t \<Longrightarrow> \<exists>y t'. f x t = (Inr y, t') \<and> I t'"
    using Cons.prems(2) by simp
  from Cons.IH [OF 2 this] obtain ys s' where
    3: "mapMS f xs s1 = (Inr ys, s')" and 4: "I s'" by blast
  from 1 3 4 show ?case by simp
qed

lemma mapOptionsIn_described:
  "\<not> rl_altered rl \<Longrightarrow> mapOptions lc opts = Inr v
   \<Longrightarrow> mapOptionsIn lc beyond opts rl
       = (Inr v, \<lparr> rl_calls = rl_calls rl + 1, rl_altered = False \<rparr>)"
  by (simp add: mapOptionsIn_def Let_def)

lemma itemWithLayouts_Some:
  assumes "itemId \<in> set (map i_id (items db))"
  shows "\<exists>it. itemWithLayouts db ids itemId = Some it"
proof -
  from assms have "itemId \<in> i_id ` set (items db)" by simp
  then have "\<exists>x \<in> set (items db). i_id x = itemId" by (rule imageE) (rule bexI, rule sym)
  from find_ex [of "items db" "\<lambda>it. i_id it = itemId", OF this] obtain r where
    "find (\<lambda>it. i_id it = itemId) (items db) = Some r" by blast
  then show ?thesis by (simp add: itemWithLayouts_def)
qed

lemma inSection_True_layouts:
  "inSection s (Some it) = Inr True \<Longrightarrow> itj_layouts it \<noteq> []"
  by (auto simp: inSection_def)

lemma prepareSection_returns:
  assumes apps_ok: "\<forall>ai \<in> set (appItems db).
        ai_itemId ai \<in> set (map i_id (items db)) \<and> ai_appId ai \<in> set (map a_id (apps db))"
    and widgets_ok: "\<forall>w \<in> set (widgets db). w_itemId w \<in> set (map i_id (items db))"
    and options_ok: "\<forall>w \<in> set (widgets db).
        \<exists>v. mapOptions lc (filter (\<lambda>opt. o_widgetId opt = w_id w) (widgetOptions db)) = Inr v"
    and rl: "\<not> rl_altered rl"
  shows "\<exists>ps rl'. prepareSection lc beyond (getAppsForSectionsAsync db ids)
                     (getWidgetsForSectionsAsync db ids) s rl = (Inr ps, rl')
                \<and> \<not> rl_altered rl'"
proof -
  let ?A = "getAppsForSectionsAsync db ids" and ?W = "getWidgetsForSectionsAsync db ids"
  have a_item: "\<forall>x \<in> set ?A. \<exists>it. aij_item x = Some it"
  proof
    fix x assume "x \<in> set ?A"
    then obtain ai where ai: "ai \<in> set (appItems db)"
      and x: "aij_item x = itemWithLayouts db ids (ai_itemId ai)"
      by (auto simp: getAppsForSectionsAsync_def split: if_splits)
    from apps_ok ai have "ai_itemId ai \<in> set (map i_id (items db))" by blast
    from itemWithLayouts_Some [OF this] show "\<exists>it. aij_item x = Some it" unfolding x .
  qed
  have a_app: "\<forall>x \<in> set ?A. \<exists>a. aij_app x = Some a"
  proof
    fix x assume "x \<in> set ?A"
    then obtain ai where ai: "ai \<in> set (appItems db)"
      and x: "aij_app x = appWithIntegration db (ai_appId ai)"
      by (auto simp: getAppsForSectionsAsync_def split: if_splits)
    from apps_ok ai have "ai_appId ai \<in> a_id ` set (apps db)" by simp
    then have "\<exists>a \<in> set (apps db). a_id a = ai_appId ai" by (rule imageE) (rule bexI, rule sym)
    from find_ex [of "apps db" "\<lambda>a. a_id a = ai_appId ai", OF this]
    show "\<exists>a. aij_app x = Some a" unfolding x by (auto simp: appWithIntegration_def)
  qed
  have w_item: "\<forall>x \<in> set ?W. \<exists>it. wj_item x = Some it"
  proof
    fix x assume "x \<in> set ?W"
    then obtain w where w: "w \<in> set (widgets db)"
      and x: "wj_item x = itemWithLayouts db ids (w_itemId w)"
      by (auto simp: getWidgetsForSectionsAsync_def split: if_splits)
    from widgets_ok w have "w_itemId w \<in> set (map i_id (items db))" by blast
    from itemWithLayouts_Some [OF this] show "\<exists>it. wj_item x = Some it" unfolding x .
  qed
  have w_opts: "\<forall>x \<in> set ?W. \<exists>v. mapOptions lc (wj_options x) = Inr v"
  proof
    fix x assume "x \<in> set ?W"
    then obtain w where w: "w \<in> set (widgets db)"
      and x: "wj_options x = filter (\<lambda>opt. o_widgetId opt = w_id w) (widgetOptions db)"
      by (auto simp: getWidgetsForSectionsAsync_def split: if_splits)
    from options_ok w show "\<exists>v. mapOptions lc (wj_options x) = Inr v" unfolding x by blast
  qed
  from a_item have "\<forall>x \<in> set ?A. \<exists>b. inSection s (aij_item x) = Inr b"
    by (auto simp: inSection_def)
  from filterM_returns [OF this] obtain fa where
    fa: "filterM (\<lambda>x. inSection s (aij_item x)) ?A = Inr fa" by blast
  from w_item have "\<forall>x \<in> set ?W. \<exists>b. inSection s (wj_item x) = Inr b"
    by (auto simp: inSection_def)
  from filterM_returns [OF this] obtain fw where
    fw: "filterM (\<lambda>x. inSection s (wj_item x)) ?W = Inr fw" by blast
  have "\<forall>x \<in> set fa. \<exists>y. mapApp x = Inr y"
  proof
    fix x assume "x \<in> set fa"
    then have xin: "x \<in> set ?A" and t: "inSection s (aij_item x) = Inr True"
      unfolding filterM_Inr_D [OF fa] by simp_all
    from a_item xin obtain it where it: "aij_item x = Some it" by blast
    from a_app xin obtain a where a: "aij_app x = Some a" by blast
    from t it have "itj_layouts it \<noteq> []" by (simp add: inSection_True_layouts)
    then show "\<exists>y. mapApp x = Inr y" using it a
      by (cases "itj_layouts it") (simp_all add: mapApp_def)
  qed
  from mapM_returns [OF this] obtain mas where mas: "mapM mapApp fa = Inr mas" by blast
  have "\<exists>ys s'. mapMS (mapWidget lc beyond) fw rl = (Inr ys, s') \<and> \<not> rl_altered s'"
  proof (rule mapMS_returns [where I = "\<lambda>t :: realm. \<not> rl_altered t"])
    show "\<not> rl_altered rl" by (fact rl)
  next
    fix x and t :: realm assume "x \<in> set fw" and na: "\<not> rl_altered t"
    then have xin: "x \<in> set ?W" and tr: "inSection s (wj_item x) = Inr True"
      unfolding filterM_Inr_D [OF fw] by simp_all
    from w_item xin obtain it where it: "wj_item x = Some it" by blast
    from w_opts xin obtain v where v: "mapOptions lc (wj_options x) = Inr v" by blast
    from tr it have "itj_layouts it \<noteq> []" by (simp add: inSection_True_layouts)
    then show "\<exists>y t'. mapWidget lc beyond x t = (Inr y, t') \<and> \<not> rl_altered t'"
      using it mapOptionsIn_described [OF na v, of beyond]
      by (cases "itj_layouts it") (simp_all add: mapWidget_def)
  qed
  then obtain mws rl' where
    mws: "mapMS (mapWidget lc beyond) fw rl = (Inr mws, rl')" and r: "\<not> rl_altered rl'"
    by blast
  from fa fw mas mws r show ?thesis by (simp add: prepareSection_def)
qed

lemma byName_returns:
  assumes b: "find (\<lambda>b. b_name b = bn_boardName input) (boards db) = Some b"
    and l: "find (\<lambda>l. l_boardId l = b_id b
                  \<and> l_name l = (case bn_layout input of None \<Rightarrow> ''default'' | Some name \<Rightarrow> name))
              (layouts db) = Some l"
    and apps_ok: "\<forall>ai \<in> set (appItems db).
        ai_itemId ai \<in> set (map i_id (items db)) \<and> ai_appId ai \<in> set (map a_id (apps db))"
    and widgets_ok: "\<forall>w \<in> set (widgets db). w_itemId w \<in> set (map i_id (items db))"
    and options_ok: "\<forall>w \<in> set (widgets db).
        \<exists>v. mapOptions lc (filter (\<lambda>opt. o_widgetId opt = w_id w) (widgetOptions db)) = Inr v"
    and rl: "\<not> rl_altered rl"
  shows "\<exists>res. byName lc beyond rl db input = Inr res"
proof -
  from find_Some_filter [OF l] obtain ls where
    ls: "layoutsOfBoard db b (requestedLayout input) = l # ls"
    by (auto simp: layoutsOfBoard_def requestedLayout_def)
  let ?ids = "map s_id (sectionsOfLayout db l)"
  have "\<exists>ys s'. mapMS (prepareSection lc beyond (getAppsForSectionsAsync db ?ids)
                     (getWidgetsForSectionsAsync db ?ids)) (sectionsOfLayout db l) rl
                 = (Inr ys, s') \<and> \<not> rl_altered s'"
    by (rule mapMS_returns [where I = "\<lambda>t :: realm. \<not> rl_altered t", OF rl])
       (rule prepareSection_returns [OF apps_ok widgets_ok options_ok])
  then obtain ys s' where
    "mapMS (prepareSection lc beyond (getAppsForSectionsAsync db ?ids)
                     (getWidgetsForSectionsAsync db ?ids)) (sectionsOfLayout db l) rl
                 = (Inr ys, s')" by blast
  then show ?thesis using b ls
    by (simp add: byName_def getFullBoardWithLayoutSectionsAsync_def Let_def)
qed

lemma insort_cmp_key: "insort_cmp (\<lambda>a b. f a - f b) x ys = insort_key f x ys"
  by (induction ys) auto

lemma sort_cmp_key: "sort_cmp (\<lambda>a b. f a - f b) xs = sort_key f xs"
  by (induction xs) (simp_all add: sort_cmp_def insort_cmp_key)

lemma sort_key_hd_min:
  assumes "sort_key f xs = w # ws"
  shows "w \<in> set xs \<and> (\<forall>x \<in> set xs. f w \<le> f x)"
proof -
  have "set (w # ws) = set xs" using assms [symmetric] by simp
  moreover have "sorted (map f (w # ws))" using assms [symmetric] by simp
  ultimately show ?thesis by auto
qed

lemma sort_key_Nil_iff: "(sort_key f xs = []) = (xs = [])"
  by (metis length_sort length_0_conv)

lemma mapM_total:
  "(\<And>x. x \<in> set xs \<Longrightarrow> f x = Inr (g x)) \<Longrightarrow> mapM f xs = Inr (map g xs)"
  by (induction xs) auto

lemma mapM_containerApp:
  "mapM (containerApp gen truthy str (Some w)) ics
     = Inr (map (\<lambda>ic. (gen (fst ic) (wr_id w))
                         \<lparr> ca_name := ct_name (snd ic),
                           ca_url := containerAddress truthy str (snd ic),
                           ca_behaviour := (ca_behaviour (gen (fst ic) (wr_id w)))
                              \<lparr> externalUrl := containerAddress truthy str (snd ic) \<rparr> \<rparr>) ics)"
  by (rule mapM_total) (simp add: containerApp_def Let_def)

lemma mapM_containerApp_None:
  "ics \<noteq> [] \<Longrightarrow> mapM (containerApp gen truthy str None) ics = Inl TypeError"
  by (cases ics) (simp_all add: containerApp_def)

lemma addAppsForContainers_wrapper:
  assumes "configExists (aa_boardName input)"
    and "sort_key wr_position (cf_wrappers (getConfig (aa_boardName input))) = w # ws"
  shows "addAppsForContainers configExists getConfig gen truthy str input
     = Inr (''data/configs/'' @ aa_boardName input @ ''.json'',
            (getConfig (aa_boardName input))
              \<lparr> cf_wrappers := w # ws,
                cf_apps := cf_apps (getConfig (aa_boardName input)) @
                  map (\<lambda>ic. (gen (fst ic) (wr_id w))
                         \<lparr> ca_name := ct_name (snd ic),
                           ca_url := containerAddress truthy str (snd ic),
                           ca_behaviour := (ca_behaviour (gen (fst ic) (wr_id w)))
                              \<lparr> externalUrl := containerAddress truthy str (snd ic) \<rparr> \<rparr>)
                    (zip [0 ..< length (aa_apps input)] (aa_apps input)) \<rparr>)"
  using assms by (simp add: addAppsForContainers_def sort_cmp_key Let_def mapM_containerApp)

lemma addAppsForContainers_no_wrapper:
  assumes "configExists (aa_boardName input)"
    and "cf_wrappers (getConfig (aa_boardName input)) = []"
  shows "addAppsForContainers configExists getConfig gen truthy str input
     = (if aa_apps input = [] then
          Inr (''data/configs/'' @ aa_boardName input @ ''.json'', getConfig (aa_boardName input))
        else Inl TypeError)"
  using assms
  by (simp add: addAppsForContainers_def sort_cmp_key Let_def mapM_containerApp_None)

lemma demo_addApps:
  "addAppsForContainers (\<lambda>n. n = ''home'') (\<lambda>n. demo_config) demo_defaultApp
       (\<lambda>p. p \<noteq> 0) showInt demo_containers
     = Inr (''data/configs/home.json'', demo_written)"
  by (simp add: addAppsForContainers_def demo_containers_def demo_config_def demo_defaultApp_def
      demo_written_def sort_cmp_def containerApp_def containerAddress_def showInt_def
      showNat.simps upt_rec Let_def numeral_2_eq_2)

lemma addWidget_ok:
  assumes "st_drawn st = m" and "itemId = uuid m" and "widgetId = uuid (m + 1)"
    and "layoutItemId = uuid (m + 2)"
    and "itemId \<notin> set (map i_id (items (st_db st)))"
    and "widgetId \<notin> set (map w_id (widgets (st_db st)))"
    and "layoutItemId \<notin> set (map li_id (layoutItems (st_db st)))"
    and "awp_boardId props \<in> set (map b_id (boards (st_db st)))"
    and "awp_sectionId props \<in> set (map s_id (sections (st_db st)))"
  shows "addWidget uuid props st =
    (None,
     \<lparr> st_drawn = m + 3,
       st_db = (st_db st)
         \<lparr> items := items (st_db st) @
              [\<lparr> i_id = itemId, i_type = ItemWidget, i_boardId = awp_boardId props \<rparr>],
           widgets := widgets (st_db st) @
              [\<lparr> w_id = widgetId, w_type = awp_type props, w_itemId = itemId \<rparr>],
           layoutItems := layoutItems (st_db st) @
              [\<lparr> li_id = layoutItemId, li_itemId = itemId,
                 li_sectionId = awp_sectionId props, li_width = awp_width props,
                 li_height = awp_height props, li_x = awp_x props, li_y = awp_y props \<rparr>] \<rparr> \<rparr>)"
  using assms
  by (cases st)
     (simp add: addWidget_def Let_def randomUUID_def dbInsert_def insertItem_def
        insertWidget_def insertLayoutItem_def)

lemma addApp_ok:
  assumes "st_drawn st = m" and "itemId = uuid m" and "appId = uuid (m + 1)"
    and "layoutItemId = uuid (m + 2)"
    and "itemId \<notin> set (map i_id (items (st_db st)))"
    and "appId \<notin> set (map a_id (apps (st_db st)))"
    and "(appId, itemId) \<notin> set (map (\<lambda>r. (ai_appId r, ai_itemId r)) (appItems (st_db st)))"
    and "layoutItemId \<notin> set (map li_id (layoutItems (st_db st)))"
    and "aap_boardId props \<in> set (map b_id (boards (st_db st)))"
    and "aap_sectionId props \<in> set (map s_id (sections (st_db st)))"
  shows "addApp uuid props st =
    (None,
     \<lparr> st_drawn = m + 3,
       st_db = (st_db st)
         \<lparr> items := items (st_db st) @
              [\<lparr> i_id = itemId, i_type = ItemApp, i_boardId = aap_boardId props \<rparr>],
           apps := apps (st_db st) @
              [\<lparr> a_id = appId, a_name = aap_name props,
                 a_internalUrl = aap_internalUrl props, a_iconUrl = aap_iconUrl props,
                 a_integrationId = None \<rparr>],
           appItems := appItems (st_db st) @ [\<lparr> ai_appId = appId, ai_itemId = itemId \<rparr>],
           layoutItems := layoutItems (st_db st) @
              [\<lparr> li_id = layoutItemId, li_itemId = itemId,
                 li_sectionId = aap_sectionId props, li_width = aap_width props,
                 li_height = aap_height props, li_x = aap_x props, li_y = aap_y props \<rparr>] \<rparr> \<rparr>)"
  using assms
  by (cases st)
     (simp add: addApp_def Let_def randomUUID_def dbInsert_def insertItem_def
        insertApp_def insertAppItem_def insertLayoutItem_def)

subsection \<open>mapOptions rebuilds the nested object\<close>

lemma split_dot_ne: "split_dot s \<noteq> []"
  by (induction s) (auto split: list.splits)

lemma join_dot_Cons: "ks \<noteq> [] \<Longrightarrow> join_dot (k # ks) = k @ CHR ''.'' # join_dot ks"
  by (cases ks) auto

lemma join_split_dot: "join_dot (split_dot s) = s"
proof (induction s)
  case Nil
  show ?case by simp
next
  case (Cons c cs)
  obtain h t where X: "split_dot cs = h # t" using split_dot_ne [of cs] by (cases "split_dot cs") auto
  show ?case
  proof (cases "c = CHR ''.''")
    case True
    then show ?thesis using Cons.IH split_dot_ne [of cs] by (simp add: join_dot_Cons)
  next
    case False
    then show ?thesis using Cons.IH X by (cases t) auto
  qed
qed

lemma join_dot_append:
  "xs \<noteq> [] \<Longrightarrow> ys \<noteq> [] \<Longrightarrow> join_dot (xs @ ys) = join_dot xs @ CHR ''.'' # join_dot ys"
proof (induction xs rule: join_dot.induct)
  case 1
  then show ?case by simp
next
  case (2 k)
  then show ?case by (simp add: join_dot_Cons)
next
  case (3 k v va)
  then show ?case by simp
qed

lemma split_dot_inj: "split_dot a = split_dot b \<Longrightarrow> a = b"
  by (metis join_split_dot)

lemma path_below:
  assumes "split_dot a = take n (split_dot r)" and "1 \<le> n" and "n < length (split_dot r)"
  shows "\<exists>rest. r = a @ CHR ''.'' # rest"
proof -
  have 1: "take n (split_dot r) \<noteq> []" using assms(2,3) by auto
  have 2: "drop n (split_dot r) \<noteq> []" using assms(3) by auto
  have "r = join_dot (take n (split_dot r) @ drop n (split_dot r))"
    by (simp add: join_split_dot)
  also have "\<dots> = join_dot (take n (split_dot r)) @ CHR ''.'' # join_dot (drop n (split_dot r))"
    by (rule join_dot_append [OF 1 2])
  also have "join_dot (take n (split_dot r)) = a"
    using assms(1) [symmetric] by (simp add: join_split_dot)
  finally show ?thesis by blast
qed

lemma mset_insort_cmp: "mset (insort_cmp c x xs) = add_mset x (mset xs)"
  by (induction xs) auto

lemma mset_sort_cmp: "mset (sort_cmp c xs) = mset xs"
  by (induction xs) (simp_all add: sort_cmp_def mset_insort_cmp)

lemma set_insort_cmp: "set (insort_cmp c x xs) = insert x (set xs)"
  by (induction xs) auto

lemma set_sort_cmp: "set (sort_cmp c xs) = set xs"
  by (induction xs) (simp_all add: sort_cmp_def set_insort_cmp)

lemma sorted_insort_cmp:
  assumes tot: "\<And>x y. c x y \<le> 0 \<or> c y x \<le> 0"
    and trans: "\<And>x y z. c x y \<le> 0 \<Longrightarrow> c y z \<le> 0 \<Longrightarrow> c x z \<le> 0"
  shows "sorted_wrt (\<lambda>x y. c x y \<le> 0) xs \<Longrightarrow> sorted_wrt (\<lambda>x y. c x y \<le> 0) (insort_cmp c x xs)"
proof (induction xs)
  case Nil
  show ?case by simp
next
  case (Cons y ys)
  show ?case
  proof (cases "c x y \<le> 0")
    case True
    then show ?thesis using Cons.prems trans by auto
  next
    case False
    then have "c y x \<le> 0" using tot by blast
    then show ?thesis using False Cons by (auto simp: set_insort_cmp)
  qed
qed

lemma sorted_sort_cmp:
  assumes tot: "\<And>x y. c x y \<le> 0 \<or> c y x \<le> 0"
    and trans: "\<And>x y z. c x y \<le> 0 \<Longrightarrow> c y z \<le> 0 \<Longrightarrow> c x z \<le> 0"
  shows "sorted_wrt (\<lambda>x y. c x y \<le> 0) (sort_cmp c xs)"
proof (induction xs)
  case Nil
  show ?case by (simp add: sort_cmp_def)
next
  case (Cons x xs)
  have "sort_cmp c (x # xs) = insort_cmp c x (sort_cmp c xs)" by (simp add: sort_cmp_def)
  then show ?case using sorted_insort_cmp [of c, OF tot trans Cons] by simp
qed

lemma collates_sorted:
  assumes "collates lc"
  shows "sorted_wrt (\<lambda>a b. lc (o_path a) (o_path b) \<le> 0)
           (sort_cmp (\<lambda>a b. lc (o_path a) (o_path b)) (rows :: widget_option list))"
proof (rule sorted_sort_cmp)
  fix x y :: widget_option
  from assms have "(lc (o_path x) (o_path y) < 0) = (0 < lc (o_path y) (o_path x))"
    and "(lc (o_path y) (o_path x) < 0) = (0 < lc (o_path x) (o_path y))"
    unfolding collates_def by blast+
  then show "lc (o_path x) (o_path y) \<le> 0 \<or> lc (o_path y) (o_path x) \<le> 0" by linarith
next
  fix x y z :: widget_option
  assume "lc (o_path x) (o_path y) \<le> 0" "lc (o_path y) (o_path z) \<le> 0"
  with assms show "lc (o_path x) (o_path z) \<le> 0" unfolding collates_def by blast
qed

lemma sorted_ancestorsFirst:
  assumes c: "collates lc" and p: "prefixClosed rows"
    and s: "sorted_wrt (\<lambda>a b. lc (o_path a) (o_path b) \<le> 0) srt" and e: "set srt = set rows"
  shows "ancestorsFirst [] srt"
  unfolding ancestorsFirst_def
proof (intro allI impI)
  fix xs r ys n
  assume srt: "srt = xs @ r # ys" and n: "1 \<le> n \<and> n < length (split_dot (o_path r))"
  have r: "r \<in> set rows" using srt e by auto
  have "take n (split_dot (o_path r)) \<in> set (prefixes (split_dot (o_path r)))"
    by (simp add: in_set_prefixes take_is_prefix)
  moreover have "take n (split_dot (o_path r)) \<noteq> []" using n by auto
  moreover have "take n (split_dot (o_path r)) \<noteq> split_dot (o_path r)"
    using n by (metis length_take less_irrefl_nat min.absorb4)
  ultimately obtain a where a: "a \<in> set rows"
    and pa: "split_dot (o_path a) = take n (split_dot (o_path r))"
    and ty: "o_type a = OptArray \<or> o_type a = OptObject"
    using p r unfolding prefixClosed_def by blast
  from path_below [OF pa] n obtain rest where rest: "o_path r = o_path a @ CHR ''.'' # rest"
    by blast
  from c have lt: "lc (o_path a) (o_path r) < 0" unfolding rest collates_def by blast
  with c have gt: "0 < lc (o_path r) (o_path a)" unfolding collates_def by blast
  have "a \<noteq> r" using lt gt by auto
  have "a \<notin> set ys"
  proof
    assume "a \<in> set ys"
    with s srt have "lc (o_path r) (o_path a) \<le> 0" by (auto simp: sorted_wrt_append)
    with gt show False by simp
  qed
  with a e srt \<open>a \<noteq> r\<close> have "a \<in> set ([] @ xs)" by auto
  with pa ty show "\<exists>a \<in> set ([] @ xs). split_dot (o_path a) = take n (split_dot (o_path r))
              \<and> (o_type a = OptArray \<or> o_type a = OptObject)" by blast
qed

lemma arrayIndexKey_proto: "arrayIndexKey ''__proto__'' = Some ''NaN''"
  by (simp add: arrayIndexKey_def isWhiteSpace_def digitValue_def)

lemma arrayIndexKey_length: "arrayIndexKey ''length'' = Some ''NaN''"
  by (simp add: arrayIndexKey_def isWhiteSpace_def digitValue_def)

lemma canonical_plain: "arrayIndexKey k = Some k \<Longrightarrow> k \<noteq> ''__proto__'' \<and> k \<noteq> ''length''"
  using arrayIndexKey_proto arrayIndexKey_length by auto

lemma assignAt_putPath:
  "writable cur p \<Longrightarrow> p \<noteq> [] \<Longrightarrow>
     assignAt cur (butlast p) (last p) (Some v) = Inr (putPath cur p v)"
proof (induction p arbitrary: cur)
  case Nil
  then show ?case by simp
next
  case (Cons k ks)
  show ?case
  proof (cases "ks = []")
    case True
    then show ?thesis using Cons.prems canonical_plain [of k]
      by (auto split: jsval.splits option.splits)
  next
    case False
    then show ?thesis using Cons canonical_plain [of k]
      by (auto split: jsval.splits option.splits)
  qed
qed

lemma assignAt_skip:
  "writable cur p \<Longrightarrow> p \<noteq> [] \<Longrightarrow> assignAt cur (butlast p) (last p) None = Inr cur"
proof (induction p arbitrary: cur)
  case Nil
  then show ?case by simp
next
  case (Cons k ks)
  show ?case
  proof (cases "ks = []")
    case True
    then show ?thesis by simp
  next
    case False
    then show ?thesis using Cons
      by (auto split: jsval.splits option.splits simp: map_upd_triv)
  qed
qed

lemma getPath_putPath_same: "writable cur p \<Longrightarrow> getPath (putPath cur p v) p = Some v"
proof (induction p arbitrary: cur)
  case Nil
  show ?case by simp
next
  case (Cons k ks)
  then show ?case by (cases "ks = []") (auto split: jsval.splits option.splits)
qed

lemma getPath_putPath_other:
  "writable cur p \<Longrightarrow> \<not> prefix p q \<Longrightarrow> \<not> prefix q p \<Longrightarrow>
     getPath (putPath cur p v) q = getPath cur q"
proof (induction p arbitrary: cur q)
  case Nil
  then show ?case by simp
next
  case (Cons k ks)
  from Cons.prems(3) obtain k' qs where q: "q = k' # qs" by (cases q) auto
  show ?case
  proof (cases "k' = k")
    case False
    then show ?thesis using Cons.prems(1) q by (auto split: jsval.splits)
  next
    case True
    with Cons.prems q have np: "\<not> prefix ks qs" "\<not> prefix qs ks" by auto
    then have "ks \<noteq> []" by auto
    then show ?thesis using Cons.prems(1) Cons.IH [OF _ np] q True
      by (auto split: jsval.splits option.splits)
  qed
qed

lemma getPath_putPath_above:
  "writable cur p \<Longrightarrow> strict_prefix q p \<Longrightarrow>
     isObj (getPath (putPath cur p v) q) = isObj (getPath cur q)
   \<and> isArr (getPath (putPath cur p v) q) = isArr (getPath cur q)
   \<and> (isObj (getPath cur q) \<or> isArr (getPath cur q))"
proof (induction p arbitrary: cur q)
  case Nil
  then show ?case by simp
next
  case (Cons k ks)
  show ?case
  proof (cases q)
    case Nil
    then show ?thesis using Cons.prems(1) by (auto split: jsval.splits)
  next
    case (Cons k' qs)
    with Cons.prems(2) have k: "k' = k" and sp: "strict_prefix qs ks" by auto
    then have "ks \<noteq> []" by auto
    then show ?thesis using Cons.prems(1) Cons.IH [OF _ sp] k \<open>q = k' # qs\<close>
      by (auto split: jsval.splits option.splits)
  qed
qed

lemma getPath_putPath_below:
  "writable cur p \<Longrightarrow> strict_prefix p q \<Longrightarrow>
     getPath (putPath cur p v) q = getPath v (drop (length p) q)"
proof (induction p arbitrary: cur q)
  case Nil
  then show ?case by simp
next
  case (Cons k ks)
  from Cons.prems(2) obtain qs where q: "q = k # qs" and sp: "prefix ks qs" "ks \<noteq> qs"
    by (cases q) (auto simp: strict_prefix_def)
  then have sp': "strict_prefix ks qs" by (simp add: strict_prefix_def)
  show ?case
  proof (cases "ks = []")
    case True
    then show ?thesis using Cons.prems(1) q by (auto split: jsval.splits option.splits)
  next
    case False
    then show ?thesis using Cons.prems(1) Cons.IH [OF _ sp'] q
      by (auto split: jsval.splits option.splits)
  qed
qed

lemma getPath_prefix_defined: "getPath cur (xs @ ys) \<noteq> None \<Longrightarrow> getPath cur xs \<noteq> None"
  by (induction xs arbitrary: cur) (auto split: jsval.splits option.splits)

lemma getPath_leaf: "decodeOption r = Some v \<Longrightarrow> ks \<noteq> [] \<Longrightarrow> getPath v ks = None"
  by (cases ks; cases "o_type r")
     (auto simp: decodeOption_def split: option.splits if_splits)

lemma writable_from_getPath:
  assumes "\<forall>n < length p.
      (isObj (getPath cur (take n p)) \<and> p ! n \<noteq> ''__proto__'')
    \<or> (isArr (getPath cur (take n p)) \<and> arrayIndexKey (p ! n) = Some (p ! n))"
  shows "writable cur p"
  using assms
proof (induction p arbitrary: cur)
  case Nil
  show ?case by simp
next
  case (Cons k ks)
  from Cons.prems [rule_format, of 0]
  have top: "(isObj (Some cur) \<and> k \<noteq> ''__proto__'') \<or> (isArr (Some cur) \<and> arrayIndexKey k = Some k)"
    by simp
  show ?case
  proof (cases "ks = []")
    case True
    with top show ?thesis by (cases cur) auto
  next
    case False
    then have "1 < length (k # ks)" by (cases ks) auto
    from Cons.prems [rule_format, OF this]
    have c: "isObj (getPath cur [k]) \<or> isArr (getPath cur [k])" by auto
    then obtain c where gc: "getPath cur [k] = Some c" by (cases "getPath cur [k]") auto
    have step: "\<And>qs. getPath cur (k # qs) = getPath c qs"
      using gc by (cases cur) (auto split: option.splits)
    have "writable c ks"
    proof (rule Cons.IH, intro allI impI)
      fix n assume "n < length ks"
      then have "Suc n < length (k # ks)" by simp
      have e1: "getPath cur (take (Suc n) (k # ks)) = getPath c (take n ks)"
        by (simp only: take_Suc_Cons step)
      have e2: "(k # ks) ! Suc n = ks ! n" by simp
      from Cons.prems [rule_format, OF \<open>Suc n < length (k # ks)\<close>]
      show "(isObj (getPath c (take n ks)) \<and> ks ! n \<noteq> ''__proto__'')
        \<or> (isArr (getPath c (take n ks)) \<and> arrayIndexKey (ks ! n) = Some (ks ! n))"
        unfolding e1 e2 .
    qed
    with top gc False show ?thesis by (cases cur) (auto split: option.splits)
  qed
qed

lemma decodedAt_cong:
  "getPath obj' (split_dot (o_path r)) = getPath obj (split_dot (o_path r))
     \<Longrightarrow> decodedAt obj' r = decodedAt obj r"
  by (cases "o_type r") (simp_all add: decodedAt_def)

lemma decodedAt_kind:
  "isObj (getPath obj' (split_dot (o_path r))) = isObj (getPath obj (split_dot (o_path r)))
   \<Longrightarrow> isArr (getPath obj' (split_dot (o_path r))) = isArr (getPath obj (split_dot (o_path r)))
   \<Longrightarrow> o_type r = OptArray \<or> o_type r = OptObject
   \<Longrightarrow> decodedAt obj' r = decodedAt obj r"
  by (auto simp: decodedAt_def)

lemma decodedAt_None:
  "getPath obj (split_dot (o_path r)) = None \<Longrightarrow> decodedAt obj r
     \<Longrightarrow> getPath obj' (split_dot (o_path r)) = None \<Longrightarrow> decodedAt obj' r"
  by (cases "o_type r") (auto simp: decodedAt_def)

lemma decodedAt_new:
  "decodeOption r = Some v \<Longrightarrow> getPath obj (split_dot (o_path r)) = Some v \<Longrightarrow> decodedAt obj r"
  by (cases "o_type r") (auto simp: decodedAt_def decodeOption_def)

lemma decodeOption_None_type: "decodeOption r = None \<Longrightarrow> o_type r = OptNumber"
  by (cases "o_type r") (auto simp: decodeOption_def)

lemma strict_prefix_take:
  "strict_prefix q p \<Longrightarrow> q = take (length q) p \<and> length q < length p"
  by (auto simp: strict_prefix_def prefix_def)

lemma addAtPath_step:
  assumes inv: "built obj seen"
    and anc: "\<forall>n. 1 \<le> n \<and> n < length (split_dot (o_path r)) \<longrightarrow>
           (\<exists>a \<in> set seen. split_dot (o_path a) = take n (split_dot (o_path r))
              \<and> (o_type a = OptArray \<or> o_type a = OptObject))"
    and new: "split_dot (o_path r) \<notin> (\<lambda>r. split_dot (o_path r)) ` set seen"
    and proto: "\<forall>k \<in> set (split_dot (o_path r)). k \<noteq> ''__proto__''"
    and canon: "\<forall>a \<in> set seen. o_type a = OptArray
            \<and> strict_prefix (split_dot (o_path a)) (split_dot (o_path r)) \<longrightarrow>
              arrayIndexKey (split_dot (o_path r) ! length (split_dot (o_path a)))
                = Some (split_dot (o_path r) ! length (split_dot (o_path a)))"
    and inj: "\<forall>a \<in> set seen. \<forall>b \<in> set seen.
            split_dot (o_path a) = split_dot (o_path b) \<longrightarrow> a = b"
  shows "\<exists>obj'. addAtPath obj r = Inr obj' \<and> built obj' (seen @ [r])"
proof -
  let ?P = "\<lambda>r. split_dot (o_path r)"
  let ?p = "split_dot (o_path r)"
  have pne: "?p \<noteq> []" by (rule split_dot_ne)
  from inv have root: "isObj (Some obj)"
    and vals: "\<forall>d \<in> set seen. decodedAt obj d"
    and only: "\<forall>ks. ks \<noteq> [] \<longrightarrow> getPath obj ks \<noteq> None \<longrightarrow> ks \<in> ?P ` set seen"
    unfolding built_def by blast+
  have w: "writable obj ?p"
  proof (rule writable_from_getPath, intro allI impI)
    fix n assume n: "n < length ?p"
    show "(isObj (getPath obj (take n ?p)) \<and> ?p ! n \<noteq> ''__proto__'')
        \<or> (isArr (getPath obj (take n ?p)) \<and> arrayIndexKey (?p ! n) = Some (?p ! n))"
    proof (cases "n = 0")
      case True
      then show ?thesis using root proto n by (auto simp: in_set_conv_nth)
    next
      case False
      with n anc obtain a where a: "a \<in> set seen" and pa: "?P a = take n ?p"
        and ty: "o_type a = OptArray \<or> o_type a = OptObject"
        by (metis One_nat_def Suc_leI neq0_conv)
      from vals a have d: "decodedAt obj a" by blast
      have la: "length (?P a) = n" using pa n by simp
      have sp: "strict_prefix (?P a) ?p"
        using pa n by (metis la less_irrefl_nat strict_prefix_def take_is_prefix)
      from ty show ?thesis
      proof
        assume t: "o_type a = OptArray"
        with d have "isArr (getPath obj (take n ?p))" by (simp add: decodedAt_def pa)
        moreover from canon a t sp have "arrayIndexKey (?p ! n) = Some (?p ! n)"
          using la by auto
        ultimately show ?thesis by blast
      next
        assume t: "o_type a = OptObject"
        with d have "isObj (getPath obj (take n ?p))" by (simp add: decodedAt_def pa)
        moreover from proto n have "?p ! n \<noteq> ''__proto__''" by (auto simp: in_set_conv_nth)
        ultimately show ?thesis by blast
      qed
    qed
  qed
  have absent: "getPath obj ?p = None"
  proof (rule ccontr)
    assume "getPath obj ?p \<noteq> None"
    with only pne have "?p \<in> ?P ` set seen" by blast
    with new show False by blast
  qed
  show ?thesis
  proof (cases "decodeOption r")
    case None
    have run: "addAtPath obj r = Inr obj"
      using assignAt_skip [OF w pne] None by (simp add: addAtPath_def Let_def)
    have "decodedAt obj r"
      using decodeOption_None_type [OF None] absent None by (simp add: decodedAt_def)
    with vals have "\<forall>d \<in> set (seen @ [r]). decodedAt obj d" by auto
    moreover from only have "\<forall>ks. ks \<noteq> [] \<longrightarrow> getPath obj ks \<noteq> None \<longrightarrow>
          ks \<in> ?P ` set (seen @ [r])" by auto
    ultimately have "built obj (seen @ [r])" using root unfolding built_def by blast
    with run show ?thesis by blast
  next
    case (Some v)
    let ?o = "putPath obj ?p v"
    have run: "addAtPath obj r = Inr ?o"
      using assignAt_putPath [OF w pne] Some by (simp add: addAtPath_def Let_def)
    have same: "getPath ?o ?p = Some v" by (rule getPath_putPath_same [OF w])
    have below: "\<And>q. strict_prefix ?p q \<Longrightarrow> getPath ?o q = None"
    proof -
      fix q assume q: "strict_prefix ?p q"
      then have "drop (length ?p) q \<noteq> []" by (auto simp: strict_prefix_def prefix_def)
      with getPath_putPath_below [OF w q] getPath_leaf [OF Some] show "getPath ?o q = None"
        by simp
    qed
    have root': "isObj (Some ?o)"
    proof -
      have "strict_prefix [] ?p" using pne by (auto simp: strict_prefix_def)
      from getPath_putPath_above [OF w this, of v] root show ?thesis by simp
    qed
    have vals': "\<forall>d \<in> set (seen @ [r]). decodedAt ?o d"
    proof
      fix d assume "d \<in> set (seen @ [r])"
      then consider "d = r" | "d \<in> set seen" by auto
      then show "decodedAt ?o d"
      proof cases
        case 1
        then show ?thesis using decodedAt_new [OF Some same] by simp
      next
        case 2
        with vals have dv: "decodedAt obj d" by blast
        have "?P d \<in> ?P ` set seen" using 2 by (rule imageI)
        with new have ne: "?P d \<noteq> ?p" by metis
        consider "strict_prefix (?P d) ?p" | "strict_prefix ?p (?P d)"
          | "\<not> prefix ?p (?P d)" "\<not> prefix (?P d) ?p"
          using ne by (auto simp: strict_prefix_def)
        then show ?thesis
        proof cases
          case 1
          from strict_prefix_take [OF 1] split_dot_ne [of "o_path d"]
          have "1 \<le> length (?P d) \<and> length (?P d) < length ?p" and tk: "?P d = take (length (?P d)) ?p"
            by (auto simp: Suc_le_eq)
          with anc obtain a where a: "a \<in> set seen" and pa: "?P a = take (length (?P d)) ?p"
            and ty: "o_type a = OptArray \<or> o_type a = OptObject" by blast
          from pa tk have "?P a = ?P d" by simp
          with inj a 2 have "a = d" by blast
          with ty have ty': "o_type d = OptArray \<or> o_type d = OptObject" by simp
          from getPath_putPath_above [OF w 1, of v] decodedAt_kind [OF _ _ ty', of ?o obj] dv
          show ?thesis by blast
        next
          case 2
          have "getPath obj (?P d) = None"
          proof (rule ccontr)
            assume "getPath obj (?P d) \<noteq> None"
            moreover from 2 obtain ys where "?P d = ?p @ ys" by (auto simp: strict_prefix_def prefix_def)
            ultimately have "getPath obj ?p \<noteq> None" using getPath_prefix_defined by metis
            with absent show False by simp
          qed
          from decodedAt_None [OF this dv below [OF 2]] show ?thesis .
        next
          case 3
          from getPath_putPath_other [OF w 3, of v] decodedAt_cong [of ?o d obj] dv
          show ?thesis by simp
        qed
      qed
    qed
    have only': "\<forall>ks. ks \<noteq> [] \<longrightarrow> getPath ?o ks \<noteq> None \<longrightarrow> ks \<in> ?P ` set (seen @ [r])"
    proof (intro allI impI)
      fix ks assume ks: "ks \<noteq> []" and def: "getPath ?o ks \<noteq> None"
      consider "ks = ?p" | "strict_prefix ks ?p" | "strict_prefix ?p ks"
        | "\<not> prefix ?p ks" "\<not> prefix ks ?p"
        by (auto simp: strict_prefix_def)
      then show "ks \<in> ?P ` set (seen @ [r])"
      proof cases
        case 1
        then show ?thesis by simp
      next
        case 2
        from getPath_putPath_above [OF w 2, of v]
        have "getPath obj ks \<noteq> None" by (cases "getPath obj ks") auto
        with only ks show ?thesis by auto
      next
        case 3
        from below [OF 3] def show ?thesis by simp
      next
        case 4
        from getPath_putPath_other [OF w 4, of v] def have "getPath obj ks \<noteq> None" by simp
        with only ks show ?thesis by auto
      qed
    qed
    from root' vals' only' have "built ?o (seen @ [r])" unfolding built_def by blast
    with run show ?thesis by blast
  qed
qed

lemma ancestorsFirst_Cons:
  "ancestorsFirst seen (r # todo) \<Longrightarrow> ancestorsFirst (seen @ [r]) todo"
  unfolding ancestorsFirst_def
proof (intro allI impI)
  fix xs r' ys n
  assume a: "\<forall>xs ra ys. r # todo = xs @ ra # ys \<longrightarrow>
        (\<forall>n. 1 \<le> n \<and> n < length (split_dot (o_path ra)) \<longrightarrow>
           (\<exists>a \<in> set (seen @ xs). split_dot (o_path a) = take n (split_dot (o_path ra))
              \<and> (o_type a = OptArray \<or> o_type a = OptObject)))"
    and t: "todo = xs @ r' # ys" and n: "1 \<le> n \<and> n < length (split_dot (o_path r'))"
  from t have "r # todo = (r # xs) @ r' # ys" by simp
  with a n have "\<exists>a \<in> set (seen @ r # xs). split_dot (o_path a) = take n (split_dot (o_path r'))
              \<and> (o_type a = OptArray \<or> o_type a = OptObject)" by blast
  then show "\<exists>a \<in> set ((seen @ [r]) @ xs). split_dot (o_path a) = take n (split_dot (o_path r'))
              \<and> (o_type a = OptArray \<or> o_type a = OptObject)" by simp
qed

lemma ancestorsFirst_head:
  "ancestorsFirst seen (r # todo) \<Longrightarrow>
     \<forall>n. 1 \<le> n \<and> n < length (split_dot (o_path r)) \<longrightarrow>
           (\<exists>a \<in> set seen. split_dot (o_path a) = take n (split_dot (o_path r))
              \<and> (o_type a = OptArray \<or> o_type a = OptObject))"
  unfolding ancestorsFirst_def by (metis append_Nil append_Nil2)

lemma foldl_addAtPath_built:
  assumes "built obj seen" and "ancestorsFirst seen todo"
    and "distinct (map o_path (seen @ todo))"
    and "\<forall>r \<in> set todo. keysOK (seen @ todo) r"
  shows "\<exists>obj'. foldl (\<lambda>result item. case result of Inl e \<Rightarrow> Inl e | Inr obj \<Rightarrow> addAtPath obj item)
                    (Inr obj) todo = Inr obj'
               \<and> built obj' (seen @ todo)"
  using assms
proof (induction todo arbitrary: obj seen)
  case Nil
  then show ?case by simp
next
  case (Cons r todo)
  let ?P = "\<lambda>r. split_dot (o_path r)"
  from Cons.prems(3) have d: "distinct (map o_path seen)" and rn: "o_path r \<notin> o_path ` set seen"
    by auto
  have new: "?P r \<notin> ?P ` set seen"
  proof
    assume "?P r \<in> ?P ` set seen"
    then obtain a where "a \<in> set seen" "?P r = ?P a" by auto
    with split_dot_inj [of "o_path r" "o_path a"] rn show False by auto
  qed
  have inj: "\<forall>a \<in> set seen. \<forall>b \<in> set seen. ?P a = ?P b \<longrightarrow> a = b"
  proof (intro ballI impI)
    fix a b assume "a \<in> set seen" "b \<in> set seen" "?P a = ?P b"
    moreover have "inj_on o_path (set seen)" using d by (simp add: distinct_map)
    ultimately show "a = b" using split_dot_inj [of "o_path a" "o_path b"] by (auto dest: inj_onD)
  qed
  from Cons.prems(4) have k: "keysOK (seen @ r # todo) r" by simp
  from addAtPath_step [OF Cons.prems(1) ancestorsFirst_head [OF Cons.prems(2)] new _ _ inj] k
  obtain obj1 where run: "addAtPath obj r = Inr obj1" and b1: "built obj1 (seen @ [r])"
    unfolding keysOK_def by auto
  have "\<exists>obj'. foldl (\<lambda>result item. case result of Inl e \<Rightarrow> Inl e | Inr obj \<Rightarrow> addAtPath obj item)
                    (Inr obj1) todo = Inr obj'
               \<and> built obj' ((seen @ [r]) @ todo)"
  proof (rule Cons.IH [OF b1 ancestorsFirst_Cons [OF Cons.prems(2)]])
    show "distinct (map o_path ((seen @ [r]) @ todo))" using Cons.prems(3) by simp
    show "\<forall>r' \<in> set todo. keysOK ((seen @ [r]) @ todo) r'" using Cons.prems(4) by simp
  qed
  then show ?case using run by simp
qed

lemma getPath_empty: "ks \<noteq> [] \<Longrightarrow> getPath (JObject Map.empty) ks = None"
  by (cases ks) simp_all

lemma built_empty: "built (JObject Map.empty) []"
  by (simp add: built_def getPath_empty)

lemma keysOK_set: "set rows = set rows' \<Longrightarrow> keysOK rows r = keysOK rows' r"
  by (simp add: keysOK_def)

lemma plainKeys_keysOK: "plainKeys rows = (\<forall>r \<in> set rows. keysOK rows r)"
  by (simp add: plainKeys_def keysOK_def)

lemma mapOptions_built:
  assumes c: "collates lc" and d: "distinct (map o_path rows)"
    and p: "prefixClosed rows" and k: "plainKeys rows"
  shows "\<exists>result. mapOptions lc rows = Inr result \<and> built result (sort_cmp (\<lambda>a b. lc (o_path a) (o_path b)) rows)"
proof -
  let ?s = "sort_cmp (\<lambda>a b. lc (o_path a) (o_path b)) rows"
  have e: "set ?s = set rows" by (rule set_sort_cmp)
  have "mset (map o_path ?s) = mset (map o_path rows)" by (simp add: mset_sort_cmp)
  with d have d': "distinct (map o_path ([] @ ?s))"
    by (metis append_Nil mset_eq_imp_distinct_iff)
  have a: "ancestorsFirst [] ?s"
    by (rule sorted_ancestorsFirst [OF c p collates_sorted [OF c] e])
  have k': "\<forall>r \<in> set ?s. keysOK ([] @ ?s) r"
    using k e keysOK_set [of "[] @ ?s" rows] by (simp add: plainKeys_keysOK)
  from foldl_addAtPath_built [OF built_empty a d' k']
  show ?thesis by (simp add: mapOptions_def Let_def)
qed

lemma collates_codeUnitCompare: "collates codeUnitCompare"
  unfolding collates_def codeUnitCompare_def
proof (intro conjI allI impI)
  fix a b :: string
  show "((if a = b then 0 else if a < b then - 1 else 1) < (0::int))
      = (0 < (if b = a then 0 else if b < a then - 1 else (1::int)))"
    by auto
next
  fix a b c :: string
  assume "(if a = b then 0 else if a < b then - 1 else (1::int)) \<le> 0"
    and "(if b = c then 0 else if b < c then - 1 else (1::int)) \<le> 0"
  then have "a \<le> b" "b \<le> c" by (auto split: if_splits)
  then have "a \<le> c" by simp
  then show "(if a = c then 0 else if a < c then - 1 else (1::int)) \<le> 0" by auto
next
  fix a b :: string
  have "a < a @ CHR ''.'' # b"
    by (induction a) simp_all
  then show "(if a = a @ CHR ''.'' # b then 0 else if a < a @ CHR ''.'' # b then - 1 else (1::int)) < 0"
    by auto
qed

lemma demo_options_distinct: "distinct (map o_path demo_options)"
  by (simp add: demo_options_def)

lemma demo_options_prefixClosed: "prefixClosed demo_options"
  by (simp add: prefixClosed_def demo_options_def)

lemma arrayIndexKey_0: "arrayIndexKey ''0'' = Some ''0''"
  by (simp add: arrayIndexKey_def isWhiteSpace_def digitValue_def decimalValue_def showNat.simps Let_def)

lemma arrayIndexKey_1: "arrayIndexKey ''1'' = Some ''1''"
  by (simp add: arrayIndexKey_def isWhiteSpace_def digitValue_def decimalValue_def showNat.simps Let_def)

lemma arrayIndexKey_00: "arrayIndexKey ''00'' = Some ''0''"
  by (simp add: arrayIndexKey_def isWhiteSpace_def digitValue_def decimalValue_def showNat.simps Let_def)

lemma demo_options_plainKeys: "plainKeys demo_options"
  by (simp add: plainKeys_def demo_options_def arrayIndexKey_0 arrayIndexKey_1)

section \<open>Properties of the router\<close>

text \<open>
  C1 (amended). Let the rows have distinct paths and be prefix-closed (every proper
  ancestor of the path of a row is the path of a row of type array or object), let no
  key be \<open>__proto__\<close> and every key just below a row of type array be a canonical index,
  and let the collation be a total preorder in which a path sorts before the paths below
  it. Then \<open>mapOptions\<close> returns an object in which the path of each row holds the value
  of the row decoded by its type: an array for \<open>array\<close>, an object for \<open>object\<close>;
  for \<open>number\<close> \<open>parseFloat(value)\<close> when the value contains a dot and
  \<open>parseInt(value, 10)\<close> otherwise, but nothing at all when the value is null or
  empty; for \<open>boolean\<close> true exactly when the value is \<open>true\<close>; for \<open>string\<close> the
  value; for \<open>null\<close> null. And the object holds nothing at any other path.
\<close>

theorem mapOptions_rebuilds:
  assumes "collates localeCompare" and "distinct (map o_path rows)"
    and "prefixClosed rows" and "plainKeys rows"
  shows "\<exists>result. mapOptions localeCompare rows = Inr result
    \<and> isObj (Some result)
    \<and> (\<forall>r \<in> set rows.
         (o_type r = OptArray \<longrightarrow> isArr (getPath result (split_dot (o_path r))))
       \<and> (o_type r = OptObject \<longrightarrow> isObj (getPath result (split_dot (o_path r))))
       \<and> (o_type r = OptNumber \<longrightarrow>
            getPath result (split_dot (o_path r))
              = (case o_value r of
                   None \<Rightarrow> None
                 | Some s \<Rightarrow>
                     if s = [] then None
                     else Some (JNumber (if CHR ''.'' \<in> set s then ParseFloat s else ParseInt s))))
       \<and> (o_type r = OptBoolean \<longrightarrow>
            getPath result (split_dot (o_path r)) = Some (JBool (o_value r = Some ''true'')))
       \<and> (o_type r = OptString \<longrightarrow>
            getPath result (split_dot (o_path r))
              = Some (case o_value r of None \<Rightarrow> JNull | Some s \<Rightarrow> JString s))
       \<and> (o_type r = OptNull \<longrightarrow> getPath result (split_dot (o_path r)) = Some JNull))
    \<and> (\<forall>ks. ks \<noteq> [] \<and> getPath result ks \<noteq> None \<longrightarrow>
          (\<exists>r \<in> set rows. split_dot (o_path r) = ks))"
proof -
  from mapOptions_built [OF assms] obtain result where
    run: "mapOptions localeCompare rows = Inr result" and
    b: "built result (sort_cmp (\<lambda>a b. localeCompare (o_path a) (o_path b)) rows)"
    by blast
  from b have root: "isObj (Some result)"
    and vals: "\<forall>r \<in> set rows. decodedAt result r"
    and only: "\<forall>ks. ks \<noteq> [] \<longrightarrow> getPath result ks \<noteq> None \<longrightarrow>
          ks \<in> (\<lambda>r. split_dot (o_path r)) ` set rows"
    unfolding built_def set_sort_cmp by blast+
  have 1: "\<forall>r \<in> set rows.
         (o_type r = OptArray \<longrightarrow> isArr (getPath result (split_dot (o_path r))))
       \<and> (o_type r = OptObject \<longrightarrow> isObj (getPath result (split_dot (o_path r))))
       \<and> (o_type r = OptNumber \<longrightarrow>
            getPath result (split_dot (o_path r))
              = (case o_value r of
                   None \<Rightarrow> None
                 | Some s \<Rightarrow>
                     if s = [] then None
                     else Some (JNumber (if CHR ''.'' \<in> set s then ParseFloat s else ParseInt s))))
       \<and> (o_type r = OptBoolean \<longrightarrow>
            getPath result (split_dot (o_path r)) = Some (JBool (o_value r = Some ''true'')))
       \<and> (o_type r = OptString \<longrightarrow>
            getPath result (split_dot (o_path r))
              = Some (case o_value r of None \<Rightarrow> JNull | Some s \<Rightarrow> JString s))
       \<and> (o_type r = OptNull \<longrightarrow> getPath result (split_dot (o_path r)) = Some JNull)"
  proof
    fix r assume "r \<in> set rows"
    with vals have "decodedAt result r" by blast
    then show "(o_type r = OptArray \<longrightarrow> isArr (getPath result (split_dot (o_path r))))
       \<and> (o_type r = OptObject \<longrightarrow> isObj (getPath result (split_dot (o_path r))))
       \<and> (o_type r = OptNumber \<longrightarrow>
            getPath result (split_dot (o_path r))
              = (case o_value r of
                   None \<Rightarrow> None
                 | Some s \<Rightarrow>
                     if s = [] then None
                     else Some (JNumber (if CHR ''.'' \<in> set s then ParseFloat s else ParseInt s))))
       \<and> (o_type r = OptBoolean \<longrightarrow>
            getPath result (split_dot (o_path r)) = Some (JBool (o_value r = Some ''true'')))
       \<and> (o_type r = OptString \<longrightarrow>
            getPath result (split_dot (o_path r))
              = Some (case o_value r of None \<Rightarrow> JNull | Some s \<Rightarrow> JString s))
       \<and> (o_type r = OptNull \<longrightarrow> getPath result (split_dot (o_path r)) = Some JNull)"
      by (cases "o_type r") (auto simp: decodedAt_def decodeOption_def split: option.splits)
  qed
  have 2: "\<forall>ks. ks \<noteq> [] \<and> getPath result ks \<noteq> None \<longrightarrow>
          (\<exists>r \<in> set rows. split_dot (o_path r) = ks)"
    using only by auto
  from run root 1 2 show ?thesis by blast
qed

theorem mapOptions_rebuilds_witness:
  "collates codeUnitCompare \<and> distinct (map o_path demo_options)
   \<and> prefixClosed demo_options \<and> plainKeys demo_options
   \<and> (\<exists>result. mapOptions codeUnitCompare demo_options = Inr result
         \<and> isArr (getPath result [''tags''])
         \<and> getPath result [''tags'', ''0''] = Some (JString ''a'')
         \<and> getPath result [''tags'', ''1''] = Some (JString ''b'')
         \<and> isObj (getPath result [''location''])
         \<and> getPath result [''location'', ''latitude''] = Some (JNumber (ParseFloat ''48.85''))
         \<and> getPath result [''zoom''] = Some (JNumber (ParseInt ''12''))
         \<and> getPath result [''limit''] = None
         \<and> getPath result [''enabled''] = Some (JBool True)
         \<and> getPath result [''note''] = Some JNull)"
proof -
  from mapOptions_rebuilds [OF collates_codeUnitCompare demo_options_distinct
      demo_options_prefixClosed demo_options_plainKeys]
  obtain result where run: "mapOptions codeUnitCompare demo_options = Inr result"
    and vals: "\<forall>r \<in> set demo_options.
         (o_type r = OptArray \<longrightarrow> isArr (getPath result (split_dot (o_path r))))
       \<and> (o_type r = OptObject \<longrightarrow> isObj (getPath result (split_dot (o_path r))))
       \<and> (o_type r = OptNumber \<longrightarrow>
            getPath result (split_dot (o_path r))
              = (case o_value r of
                   None \<Rightarrow> None
                 | Some s \<Rightarrow>
                     if s = [] then None
                     else Some (JNumber (if CHR ''.'' \<in> set s then ParseFloat s else ParseInt s))))
       \<and> (o_type r = OptBoolean \<longrightarrow>
            getPath result (split_dot (o_path r)) = Some (JBool (o_value r = Some ''true'')))
       \<and> (o_type r = OptString \<longrightarrow>
            getPath result (split_dot (o_path r))
              = Some (case o_value r of None \<Rightarrow> JNull | Some s \<Rightarrow> JString s))
       \<and> (o_type r = OptNull \<longrightarrow> getPath result (split_dot (o_path r)) = Some JNull)"
    by blast
  from vals have
    "isArr (getPath result [''tags''])
         \<and> getPath result [''tags'', ''0''] = Some (JString ''a'')
         \<and> getPath result [''tags'', ''1''] = Some (JString ''b'')
         \<and> isObj (getPath result [''location''])
         \<and> getPath result [''location'', ''latitude''] = Some (JNumber (ParseFloat ''48.85''))
         \<and> getPath result [''zoom''] = Some (JNumber (ParseInt ''12''))
         \<and> getPath result [''limit''] = None
         \<and> getPath result [''enabled''] = Some (JBool True)
         \<and> getPath result [''note''] = Some JNull"
    unfolding demo_options_def by simp
  with run collates_codeUnitCompare demo_options_distinct demo_options_prefixClosed
    demo_options_plainKeys
  show ?thesis by blast
qed

theorem mapOptions_rebuilds_counterexample:
  "prefixClosed
     [\<lparr> o_widgetId = ''w1'', o_path = ''limit'', o_value = Some [], o_type = OptNumber \<rparr>]
   \<and> mapOptions codeUnitCompare
       [\<lparr> o_widgetId = ''w1'', o_path = ''limit'', o_value = Some [], o_type = OptNumber \<rparr>]
     = Inr (JObject Map.empty)
   \<and> getPath (JObject Map.empty) (split_dot ''limit'') = None
   \<and> prefixClosed
       [\<lparr> o_widgetId = ''w1'', o_path = ''tags'', o_value = None, o_type = OptArray \<rparr>,
        \<lparr> o_widgetId = ''w1'', o_path = ''tags.00'', o_value = None, o_type = OptObject \<rparr>,
        \<lparr> o_widgetId = ''w1'', o_path = ''tags.00.x'', o_value = Some ''v'', o_type = OptString \<rparr>]
   \<and> mapOptions codeUnitCompare
       [\<lparr> o_widgetId = ''w1'', o_path = ''tags'', o_value = None, o_type = OptArray \<rparr>,
        \<lparr> o_widgetId = ''w1'', o_path = ''tags.00'', o_value = None, o_type = OptObject \<rparr>,
        \<lparr> o_widgetId = ''w1'', o_path = ''tags.00.x'', o_value = Some ''v'', o_type = OptString \<rparr>]
     = Inl TypeError
   \<and> prefixClosed
       [\<lparr> o_widgetId = ''w1'', o_path = ''a'', o_value = Some ''x'', o_type = OptString \<rparr>,
        \<lparr> o_widgetId = ''w1'', o_path = ''a'', o_value = Some ''y'', o_type = OptString \<rparr>]
   \<and> mapOptions codeUnitCompare
       [\<lparr> o_widgetId = ''w1'', o_path = ''a'', o_value = Some ''x'', o_type = OptString \<rparr>,
        \<lparr> o_widgetId = ''w1'', o_path = ''a'', o_value = Some ''y'', o_type = OptString \<rparr>]
     = Inr (JObject [''a'' \<mapsto> JString ''y''])"
  by (simp add: prefixClosed_def mapOptions_def sort_cmp_def codeUnitCompare_def
      addAtPath_def decodeOption_def arrayIndexKey_00 inheritedKeys_def)

text \<open>
  C2. For a board and layout that exist, each section of the result of \<open>byName\<close> holds,
  in this order, the apps and then the widgets that have a layout item whose
  \<open>sectionId\<close> is the id of that section: its items are the images of exactly those
  rows of \<open>appItems\<close>, in table order, followed by the images of exactly those rows of
  \<open>widgets\<close>. This holds of every result, whatever the options of the widgets are,
  whatever the platform does with them (\<open>beyond\<close>) and in whatever realm the query
  starts; \<open>byName_returns\<close> says when there is a result.
\<close>

theorem byName_section_items:
  assumes "byName lc beyond rl db input = Inr res"
  shows "\<exists>b l. find (\<lambda>b. b_name b = bn_boardName input) (boards db) = Some b
      \<and> find (\<lambda>l. l_boardId l = b_id b
                  \<and> l_name l = (case bn_layout input of None \<Rightarrow> ''default'' | Some name \<Rightarrow> name))
            (layouts db) = Some l
      \<and> list_all2
          (\<lambda>s ps. ps_id ps = s_id s
             \<and> (\<exists>mas mws. ps_items ps = map AppItem mas @ map WidgetItem mws
                 \<and> list_all2
                     (\<lambda>ai m. ma_id m = ai_itemId ai
                        \<and> (\<exists>a \<in> set (apps db). a_id a = ai_appId ai \<and> ma_name m = a_name a))
                     (filter (\<lambda>ai. \<exists>li \<in> set (layoutItems db).
                                li_itemId li = ai_itemId ai \<and> li_sectionId li = s_id s)
                        (appItems db))
                     mas
                 \<and> list_all2
                     (\<lambda>w m. mw_id m = w_itemId w \<and> mw_sort m = w_type w)
                     (filter (\<lambda>w. \<exists>li \<in> set (layoutItems db).
                                li_itemId li = w_itemId w \<and> li_sectionId li = s_id s)
                        (widgets db))
                     mws))
          (sectionsOfLayout db l) (fb_sections res)"
proof -
  from byName_Inr_D [OF assms] obtain b l where
    b: "find (\<lambda>b. b_name b = bn_boardName input) (boards db) = Some b" and
    l: "find (\<lambda>l. l_boardId l = b_id b \<and> l_name l = requestedLayout input) (layouts db) = Some l" and
    all: "list_all2
          (\<lambda>s ps. \<exists>t t'. prepareSection lc beyond
                     (getAppsForSectionsAsync db (map s_id (sectionsOfLayout db l)))
                     (getWidgetsForSectionsAsync db (map s_id (sectionsOfLayout db l))) s t
                   = (Inr ps, t'))
          (sectionsOfLayout db l) (fb_sections res)"
    by blast
  let ?ids = "map s_id (sectionsOfLayout db l)"
  have "list_all2
          (\<lambda>s ps. ps_id ps = s_id s
             \<and> (\<exists>mas mws. ps_items ps = map AppItem mas @ map WidgetItem mws
                 \<and> list_all2
                     (\<lambda>ai m. ma_id m = ai_itemId ai
                        \<and> (\<exists>a \<in> set (apps db). a_id a = ai_appId ai \<and> ma_name m = a_name a))
                     (filter (\<lambda>ai. \<exists>li \<in> set (layoutItems db).
                                li_itemId li = ai_itemId ai \<and> li_sectionId li = s_id s)
                        (appItems db))
                     mas
                 \<and> list_all2
                     (\<lambda>w m. mw_id m = w_itemId w \<and> mw_sort m = w_type w)
                     (filter (\<lambda>w. \<exists>li \<in> set (layoutItems db).
                                li_itemId li = w_itemId w \<and> li_sectionId li = s_id s)
                        (widgets db))
                     mws))
          (sectionsOfLayout db l) (fb_sections res)"
  proof (rule list.rel_mono_strong [OF all])
    fix s ps
    assume sin: "s \<in> set (sectionsOfLayout db l)" and "ps \<in> set (fb_sections res)"
      and "\<exists>t t'. prepareSection lc beyond (getAppsForSectionsAsync db ?ids)
                (getWidgetsForSectionsAsync db ?ids) s t = (Inr ps, t')"
    then obtain t t' where
      p: "prepareSection lc beyond (getAppsForSectionsAsync db ?ids)
                (getWidgetsForSectionsAsync db ?ids) s t = (Inr ps, t')"
      by blast
    from sin have sid: "s_id s \<in> set ?ids" by simp
    from section_apps [OF p sid] obtain mas mws where
      ps: "ps = mapSection s (map AppItem mas @ map WidgetItem mws)" and
      la: "list_all2
          (\<lambda>ai m. mapApp \<lparr> aij_row = ai, aij_app = appWithIntegration db (ai_appId ai),
                             aij_item = itemWithLayouts db ?ids (ai_itemId ai) \<rparr> = Inr m)
          (filter (\<lambda>ai. \<exists>li \<in> set (layoutItems db).
                          li_itemId li = ai_itemId ai \<and> li_sectionId li = s_id s) (appItems db))
          mas" and
      lw: "list_all2
          (\<lambda>w m. \<exists>t t'. mapWidget lc beyond \<lparr> wj_row = w,
                      wj_options = filter (\<lambda>opt. o_widgetId opt = w_id w) (widgetOptions db),
                      wj_item = itemWithLayouts db ?ids (w_itemId w) \<rparr> t = (Inr m, t'))
          (filter (\<lambda>w. \<exists>li \<in> set (layoutItems db).
                          li_itemId li = w_itemId w \<and> li_sectionId li = s_id s) (widgets db))
          mws"
      by blast
    have la': "list_all2
                     (\<lambda>ai m. ma_id m = ai_itemId ai
                        \<and> (\<exists>a \<in> set (apps db). a_id a = ai_appId ai \<and> ma_name m = a_name a))
                     (filter (\<lambda>ai. \<exists>li \<in> set (layoutItems db).
                                li_itemId li = ai_itemId ai \<and> li_sectionId li = s_id s)
                        (appItems db))
                     mas"
      by (rule list_all2_mono [OF la]) (use mapApp_join_D in blast)
    have lw': "list_all2
                     (\<lambda>w m. mw_id m = w_itemId w \<and> mw_sort m = w_type w)
                     (filter (\<lambda>w. \<exists>li \<in> set (layoutItems db).
                                li_itemId li = w_itemId w \<and> li_sectionId li = s_id s)
                        (widgets db))
                     mws"
      by (rule list_all2_mono [OF lw]) (use mapWidget_join_D in blast)
    show "ps_id ps = s_id s
             \<and> (\<exists>mas mws. ps_items ps = map AppItem mas @ map WidgetItem mws
                 \<and> list_all2
                     (\<lambda>ai m. ma_id m = ai_itemId ai
                        \<and> (\<exists>a \<in> set (apps db). a_id a = ai_appId ai \<and> ma_name m = a_name a))
                     (filter (\<lambda>ai. \<exists>li \<in> set (layoutItems db).
                                li_itemId li = ai_itemId ai \<and> li_sectionId li = s_id s)
                        (appItems db))
                     mas
                 \<and> list_all2
                     (\<lambda>w m. mw_id m = w_itemId w \<and> mw_sort m = w_type w)
                     (filter (\<lambda>w. \<exists>li \<in> set (layoutItems db).
                                li_itemId li = w_itemId w \<and> li_sectionId li = s_id s)
                        (widgets db))
                     mws)"
      using la' lw' by (auto simp: ps mapSection_sel)
  qed
  with b l [unfolded requestedLayout_def] show ?thesis by blast
qed

theorem byName_section_items_witness:
  "byName codeUnitCompare demo_beyond pristine demo_db demo_home = Inr demo_result
   \<and> map ps_items (fb_sections demo_result)
       = [[AppItem demo_app_out], [WidgetItem demo_widget_out]]
   \<and> (\<exists>b l. find (\<lambda>b. b_name b = bn_boardName demo_home) (boards demo_db) = Some b
      \<and> find (\<lambda>l. l_boardId l = b_id b
                  \<and> l_name l = (case bn_layout demo_home of None \<Rightarrow> ''default'' | Some name \<Rightarrow> name))
            (layouts demo_db) = Some l
      \<and> list_all2
          (\<lambda>s ps. ps_id ps = s_id s
             \<and> (\<exists>mas mws. ps_items ps = map AppItem mas @ map WidgetItem mws
                 \<and> list_all2
                     (\<lambda>ai m. ma_id m = ai_itemId ai
                        \<and> (\<exists>a \<in> set (apps demo_db). a_id a = ai_appId ai \<and> ma_name m = a_name a))
                     (filter (\<lambda>ai. \<exists>li \<in> set (layoutItems demo_db).
                                li_itemId li = ai_itemId ai \<and> li_sectionId li = s_id s)
                        (appItems demo_db))
                     mas
                 \<and> list_all2
                     (\<lambda>w m. mw_id m = w_itemId w \<and> mw_sort m = w_type w)
                     (filter (\<lambda>w. \<exists>li \<in> set (layoutItems demo_db).
                                li_itemId li = w_itemId w \<and> li_sectionId li = s_id s)
                        (widgets demo_db))
                     mws))
          (sectionsOfLayout demo_db l) (fb_sections demo_result))
   \<and> byName codeUnitCompare demo_beyond pristine demo_db_inherited demo_home = Inr demo_result_inherited
   \<and> map (map (\<lambda>it. case it of AppItem m \<Rightarrow> ma_id m | WidgetItem m \<Rightarrow> mw_id m) \<circ> ps_items)
        (fb_sections demo_result_inherited)
       = [[''i1''], [''i2'']]
   \<and> (\<exists>b l. find (\<lambda>b. b_name b = bn_boardName demo_home) (boards demo_db_inherited) = Some b
      \<and> find (\<lambda>l. l_boardId l = b_id b
                  \<and> l_name l = (case bn_layout demo_home of None \<Rightarrow> ''default'' | Some name \<Rightarrow> name))
            (layouts demo_db_inherited) = Some l
      \<and> list_all2
          (\<lambda>s ps. ps_id ps = s_id s
             \<and> (\<exists>mas mws. ps_items ps = map AppItem mas @ map WidgetItem mws
                 \<and> list_all2
                     (\<lambda>ai m. ma_id m = ai_itemId ai
                        \<and> (\<exists>a \<in> set (apps demo_db_inherited).
                              a_id a = ai_appId ai \<and> ma_name m = a_name a))
                     (filter (\<lambda>ai. \<exists>li \<in> set (layoutItems demo_db_inherited).
                                li_itemId li = ai_itemId ai \<and> li_sectionId li = s_id s)
                        (appItems demo_db_inherited))
                     mas
                 \<and> list_all2
                     (\<lambda>w m. mw_id m = w_itemId w \<and> mw_sort m = w_type w)
                     (filter (\<lambda>w. \<exists>li \<in> set (layoutItems demo_db_inherited).
                                li_itemId li = w_itemId w \<and> li_sectionId li = s_id s)
                        (widgets demo_db_inherited))
                     mws))
          (sectionsOfLayout demo_db_inherited l) (fb_sections demo_result_inherited))"
proof -
  have items: "map ps_items (fb_sections demo_result)
       = [[AppItem demo_app_out], [WidgetItem demo_widget_out]]"
    by (simp add: demo_result_def)
  have ids: "map (map (\<lambda>it. case it of AppItem m \<Rightarrow> ma_id m | WidgetItem m \<Rightarrow> mw_id m) \<circ> ps_items)
        (fb_sections demo_result_inherited)
       = [[''i1''], [''i2'']]"
    by (simp add: demo_result_inherited_def demo_app_out_def demo_widget_out_def)
  from demo_byName items byName_section_items [OF demo_byName]
    demo_byName_inherited ids byName_section_items [OF demo_byName_inherited]
  show ?thesis
    by (intro conjI)
qed

text \<open>
  C3. For every app in the result of \<open>byName\<close> that has an integration, the secrets shown
  are the stored secrets of that integration, one for one: a secret stored as private is
  shown with the value null, whatever is stored; a public one with its stored value; and
  for every secret the flag \<open>isDefined\<close> is true exactly when the stored value is neither
  null nor the empty string.
\<close>

theorem byName_secrets:
  assumes "byName lc beyond rl db input = Inr res" and "ps \<in> set (fb_sections res)"
    and "AppItem m \<in> set (ps_items ps)" and "ma_integration m = Some mi"
  shows "mi_row mi \<in> set (integrations db)
    \<and> list_all2
        (\<lambda>s out. ms_key out = sec_key s \<and> ms_visibility out = sec_visibility s
           \<and> ms_isDefined out = (sec_value s \<noteq> None \<and> sec_value s \<noteq> Some [])
           \<and> (sec_visibility s = Private \<longrightarrow> ms_value out = None)
           \<and> (sec_visibility s = Public \<longrightarrow> ms_value out = sec_value s))
        (filter (\<lambda>s. sec_integrationId s = in_id (mi_row mi)) (integrationSecrets db))
        (mi_secrets mi)"
proof -
  from byName_Inr_D [OF assms(1)] obtain b l where
    all: "list_all2
          (\<lambda>s ps. \<exists>t t'. prepareSection lc beyond
                     (getAppsForSectionsAsync db (map s_id (sectionsOfLayout db l)))
                     (getWidgetsForSectionsAsync db (map s_id (sectionsOfLayout db l))) s t
                   = (Inr ps, t'))
          (sectionsOfLayout db l) (fb_sections res)"
    by blast
  let ?ids = "map s_id (sectionsOfLayout db l)"
  from list_all2_in_set2 [OF all assms(2)] obtain s t t' where
    sin: "s \<in> set (sectionsOfLayout db l)" and
    p: "prepareSection lc beyond (getAppsForSectionsAsync db ?ids)
                (getWidgetsForSectionsAsync db ?ids) s t = (Inr ps, t')"
    by blast
  from sin have sid: "s_id s \<in> set ?ids" by simp
  from section_apps [OF p sid] obtain mas mws where
      ps: "ps = mapSection s (map AppItem mas @ map WidgetItem mws)" and
      la: "list_all2
          (\<lambda>ai m. mapApp \<lparr> aij_row = ai, aij_app = appWithIntegration db (ai_appId ai),
                             aij_item = itemWithLayouts db ?ids (ai_itemId ai) \<rparr> = Inr m)
          (filter (\<lambda>ai. \<exists>li \<in> set (layoutItems db).
                          li_itemId li = ai_itemId ai \<and> li_sectionId li = s_id s) (appItems db))
          mas"
    by blast
  from assms(3) have "m \<in> set mas" by (auto simp: ps mapSection_sel)
  from list_all2_in_set2 [OF la this] obtain ai where
    "mapApp \<lparr> aij_row = ai, aij_app = appWithIntegration db (ai_appId ai),
                             aij_item = itemWithLayouts db ?ids (ai_itemId ai) \<rparr> = Inr m"
    by blast
  from mapApp_join_D [OF this] assms(4) have
    row: "mi_row mi \<in> set (integrations db)" and
    secs: "mi_secrets mi = map mapSecret (filter (\<lambda>s. sec_integrationId s = in_id (mi_row mi))
                                       (integrationSecrets db))"
    by auto
  show ?thesis using row unfolding secs
    by (simp add: list_all2_map2 list_all2_same mapSecret_props)
qed

theorem byName_secrets_witness:
  "byName codeUnitCompare demo_beyond pristine demo_db demo_home = Inr demo_result
   \<and> hd (fb_sections demo_result) \<in> set (fb_sections demo_result)
   \<and> AppItem demo_app_out \<in> set (ps_items (hd (fb_sections demo_result)))
   \<and> map sec_value (filter (\<lambda>s. sec_integrationId s = ''n1'') (integrationSecrets demo_db))
       = [Some ''hunter2'', Some []]
   \<and> map ms_value (mi_secrets (the (ma_integration demo_app_out))) = [None, Some []]
   \<and> map ms_isDefined (mi_secrets (the (ma_integration demo_app_out))) = [True, False]
   \<and> byName codeUnitCompare demo_beyond pristine demo_db_inherited demo_home = Inr demo_result_inherited
   \<and> AppItem demo_app_out \<in> set (ps_items (hd (fb_sections demo_result_inherited)))
   \<and> list_all2
        (\<lambda>s out. ms_key out = sec_key s \<and> ms_visibility out = sec_visibility s
           \<and> ms_isDefined out = (sec_value s \<noteq> None \<and> sec_value s \<noteq> Some [])
           \<and> (sec_visibility s = Private \<longrightarrow> ms_value out = None)
           \<and> (sec_visibility s = Public \<longrightarrow> ms_value out = sec_value s))
        (filter (\<lambda>s. sec_integrationId s = in_id (mi_row (the (ma_integration demo_app_out))))
           (integrationSecrets demo_db_inherited))
        (mi_secrets (the (ma_integration demo_app_out)))"
proof -
  have 1: "hd (fb_sections demo_result) \<in> set (fb_sections demo_result)"
    by (simp add: demo_result_def)
  have 2: "AppItem demo_app_out \<in> set (ps_items (hd (fb_sections demo_result)))"
    by (simp add: demo_result_def)
  have 3: "ma_integration demo_app_out = Some (the (ma_integration demo_app_out))"
    by (simp add: demo_app_out_def)
  have 4: "hd (fb_sections demo_result_inherited) \<in> set (fb_sections demo_result_inherited)"
    by (simp add: demo_result_inherited_def)
  have 5: "AppItem demo_app_out \<in> set (ps_items (hd (fb_sections demo_result_inherited)))"
    by (simp add: demo_result_inherited_def)
  have a: "byName codeUnitCompare demo_beyond pristine demo_db demo_home = Inr demo_result
   \<and> hd (fb_sections demo_result) \<in> set (fb_sections demo_result)
   \<and> AppItem demo_app_out \<in> set (ps_items (hd (fb_sections demo_result)))
   \<and> map sec_value (filter (\<lambda>s. sec_integrationId s = ''n1'') (integrationSecrets demo_db))
       = [Some ''hunter2'', Some []]
   \<and> map ms_value (mi_secrets (the (ma_integration demo_app_out))) = [None, Some []]
   \<and> map ms_isDefined (mi_secrets (the (ma_integration demo_app_out))) = [True, False]"
    using demo_byName 1 2 byName_secrets [OF demo_byName 1 2 3]
    by (simp add: demo_app_out_def demo_db_def)
  from byName_secrets [OF demo_byName_inherited 4 5 3]
  have b: "list_all2
        (\<lambda>s out. ms_key out = sec_key s \<and> ms_visibility out = sec_visibility s
           \<and> ms_isDefined out = (sec_value s \<noteq> None \<and> sec_value s \<noteq> Some [])
           \<and> (sec_visibility s = Private \<longrightarrow> ms_value out = None)
           \<and> (sec_visibility s = Public \<longrightarrow> ms_value out = sec_value s))
        (filter (\<lambda>s. sec_integrationId s = in_id (mi_row (the (ma_integration demo_app_out))))
           (integrationSecrets demo_db_inherited))
        (mi_secrets (the (ma_integration demo_app_out)))"
    by (rule conjunct2)
  from a demo_byName_inherited 5 b show ?thesis by (intro conjI) (elim conjE, assumption)+
qed

text \<open>
  C4. The procedures report a missing board as the error \<open>NOT_FOUND\<close> with the message
  \<open>Board not found\<close>: \<open>byName\<close>, \<open>byNameSimple\<close> and \<open>updateCustomization\<close> throw it
  exactly when no board has the given name, \<open>addAppsForContainers\<close> exactly when no
  config file of that name exists. When the board exists, \<open>byName\<close> throws
  \<open>NOT_FOUND\<close> with the message \<open>Layout not found\<close> exactly when the board has no
  layout of the requested name (\<open>default\<close> when none is given).
\<close>

theorem not_found_errors:
  "(byName lc beyond rl db input = Inl (TRPCError NOT_FOUND ''Board not found''))
     = (\<forall>b \<in> set (boards db). b_name b \<noteq> bn_boardName input)
   \<and> (byNameSimple db boardName = Inl (TRPCError NOT_FOUND ''Board not found''))
     = (\<forall>b \<in> set (boards db). b_name b \<noteq> boardName)
   \<and> (updateCustomization db uinput = Inl (TRPCError NOT_FOUND ''Board not found''))
     = (\<forall>b \<in> set (boards db). b_name b \<noteq> uc_boardName uinput)
   \<and> (addAppsForContainers configExists getConfig generateDefaultApp truthy numberToString
          ainput
        = Inl (TRPCError NOT_FOUND ''Board not found''))
     = (\<not> configExists (aa_boardName ainput))
   \<and> (\<forall>board. find (\<lambda>b. b_name b = bn_boardName input) (boards db) = Some board \<longrightarrow>
        (byName lc beyond rl db input = Inl (TRPCError NOT_FOUND ''Layout not found''))
          = (\<forall>l \<in> set (layouts db).
               \<not> (l_boardId l = b_id board
                  \<and> l_name l = requestedLayout input)))"
proof (intro conjI allI impI)
  show "(byName lc beyond rl db input = Inl (TRPCError NOT_FOUND ''Board not found''))
     = (\<forall>b \<in> set (boards db). b_name b \<noteq> bn_boardName input)"
  proof (cases "find (\<lambda>b. b_name b = bn_boardName input) (boards db)")
    case None
    then show ?thesis using byName_no_board [OF None] by (simp add: find_None_Ball)
  next
    case (Some b)
    have ex: "\<not> (\<forall>b \<in> set (boards db). b_name b \<noteq> bn_boardName input)"
      using find_Some_D [OF Some] by blast
    have "byName lc beyond rl db input \<noteq> Inl (TRPCError NOT_FOUND ''Board not found'')"
    proof (cases "layoutsOfBoard db b (requestedLayout input)")
      case Nil
      then show ?thesis using byName_no_layout [OF Some Nil] by simp
    next
      case (Cons l ls)
      then show ?thesis using byName_layout_no_trpc [OF Some Cons] by simp
    qed
    with ex show ?thesis by simp
  qed
next
  show "(byNameSimple db boardName = Inl (TRPCError NOT_FOUND ''Board not found''))
     = (\<forall>b \<in> set (boards db). b_name b \<noteq> boardName)"
  proof (cases "find (\<lambda>b. b_name b = boardName) (boards db)")
    case None
    then show ?thesis using None [unfolded find_None_Ball] by (simp add: byNameSimple_def)
  next
    case (Some b)
    then show ?thesis using find_Some_D [OF Some] by (auto simp: byNameSimple_def)
  qed
next
  show "(updateCustomization db uinput = Inl (TRPCError NOT_FOUND ''Board not found''))
     = (\<forall>b \<in> set (boards db). b_name b \<noteq> uc_boardName uinput)"
  proof (cases "find (\<lambda>b. b_name b = uc_boardName uinput) (boards db)")
    case None
    then show ?thesis using None [unfolded find_None_Ball] by (simp add: updateCustomization_def)
  next
    case (Some b)
    then show ?thesis using find_Some_D [OF Some] by (auto simp: updateCustomization_def)
  qed
next
  show "(addAppsForContainers configExists getConfig generateDefaultApp truthy numberToString
          ainput
        = Inl (TRPCError NOT_FOUND ''Board not found''))
     = (\<not> configExists (aa_boardName ainput))"
    by (auto simp: addAppsForContainers_def Let_def containerApp_def
        split: sum.splits option.splits list.splits dest!: mapM_Inl_D)
next
  fix board
  assume found: "find (\<lambda>b. b_name b = bn_boardName input) (boards db) = Some board"
  show "(byName lc beyond rl db input = Inl (TRPCError NOT_FOUND ''Layout not found''))
          = (\<forall>l \<in> set (layouts db).
               \<not> (l_boardId l = b_id board
                  \<and> l_name l = requestedLayout input))"
  proof (cases "layoutsOfBoard db board (requestedLayout input)")
    case Nil
    then show ?thesis using byName_no_layout [OF found Nil]
      by (simp add: layoutsOfBoard_def filter_empty_conv)
  next
    case (Cons l ls)
    then have "l \<in> set (layoutsOfBoard db board (requestedLayout input))" by simp
    then have "l \<in> set (layouts db) \<and> l_boardId l = b_id board
        \<and> l_name l = requestedLayout input"
      by (simp add: layoutsOfBoard_def)
    then show ?thesis using byName_layout_no_trpc [OF found Cons] by blast
  qed
qed

theorem not_found_errors_witness:
  "byName codeUnitCompare demo_beyond pristine demo_db \<lparr> bn_boardName = ''void'', bn_layout = None \<rparr>
     = Inl (TRPCError NOT_FOUND ''Board not found'')
   \<and> byNameSimple demo_db ''void'' = Inl (TRPCError NOT_FOUND ''Board not found'')
   \<and> updateCustomization demo_db (demo_update \<lparr> uc_boardName := ''void'' \<rparr>)
     = Inl (TRPCError NOT_FOUND ''Board not found'')
   \<and> addAppsForContainers (\<lambda>n. n = ''home'') (\<lambda>n. demo_config) demo_defaultApp
        (\<lambda>p. p \<noteq> 0) showInt \<lparr> aa_boardName = ''void'', aa_apps = [] \<rparr>
     = Inl (TRPCError NOT_FOUND ''Board not found'')
   \<and> find (\<lambda>b. b_name b = ''home'') (boards demo_db) = Some demo_board
   \<and> byName codeUnitCompare demo_beyond pristine demo_db
        \<lparr> bn_boardName = ''home'', bn_layout = Some ''tablet'' \<rparr>
     = Inl (TRPCError NOT_FOUND ''Layout not found'')
   \<and> byNameSimple demo_db ''home'' \<noteq> Inl (TRPCError NOT_FOUND ''Board not found'')"
proof -
  have found: "find (\<lambda>b. b_name b = ''home'') (boards demo_db) = Some demo_board"
    by (simp add: demo_db_def demo_board_def)
  have void: "\<forall>b \<in> set (boards demo_db). b_name b \<noteq> ''void''"
    by (simp add: demo_db_def demo_board_def)
  have home: "\<not> (\<forall>b \<in> set (boards demo_db). b_name b \<noteq> ''home'')"
    by (simp add: demo_db_def demo_board_def)
  have tablet: "\<forall>l \<in> set (layouts demo_db). \<not> (l_boardId l = b_id demo_board \<and> l_name l = ''tablet'')"
    by (simp add: demo_db_def)
  show ?thesis
    using found void tablet home
      not_found_errors [of codeUnitCompare demo_beyond pristine demo_db
        "\<lparr> bn_boardName = ''void'', bn_layout = None \<rparr>"
        "''void''" "demo_update \<lparr> uc_boardName := ''void'' \<rparr>" "\<lambda>n. n = ''home''"
        "\<lambda>n. demo_config" demo_defaultApp "\<lambda>p. p \<noteq> 0" showInt
        "\<lparr> aa_boardName = ''void'', aa_apps = [] \<rparr>"]
      not_found_errors [of codeUnitCompare demo_beyond pristine demo_db
        "\<lparr> bn_boardName = ''home'', bn_layout = Some ''tablet'' \<rparr>"
        "''home''" demo_update "\<lambda>n. n = ''home''"
        "\<lambda>n. demo_config" demo_defaultApp "\<lambda>p. p \<noteq> 0" showInt
        "\<lparr> aa_boardName = ''void'', aa_apps = [] \<rparr>"]
    by (simp add: requestedLayout_def demo_update_def)
qed

text \<open>
  C5. The sections of the result of \<open>byName\<close> are the images of the sections of one
  layout, the first layout of the board whose name is the requested one (\<open>default\<close> when
  none is given), and stand in ascending order of the column \<open>position\<close> (null first).
\<close>

theorem byName_sections_sorted:
  assumes "byName lc beyond rl db input = Inr res"
  shows "\<exists>b l rows. find (\<lambda>b. b_name b = bn_boardName input) (boards db) = Some b
      \<and> find (\<lambda>l. l_boardId l = b_id b
                  \<and> l_name l = (case bn_layout input of None \<Rightarrow> ''default'' | Some name \<Rightarrow> name))
            (layouts db) = Some l
      \<and> mset rows = mset (filter (\<lambda>s. s_layoutId s = l_id l) (sections db))
      \<and> sorted (map s_position rows)
      \<and> list_all2 (\<lambda>s ps. \<exists>its. ps = mapSection s its) rows (fb_sections res)"
proof -
  from byName_Inr_D [OF assms] obtain b l where
    b: "find (\<lambda>b. b_name b = bn_boardName input) (boards db) = Some b" and
    l: "find (\<lambda>l. l_boardId l = b_id b \<and> l_name l = requestedLayout input) (layouts db) = Some l" and
    all: "list_all2
          (\<lambda>s ps. \<exists>t t'. prepareSection lc beyond
                     (getAppsForSectionsAsync db (map s_id (sectionsOfLayout db l)))
                     (getWidgetsForSectionsAsync db (map s_id (sectionsOfLayout db l))) s t
                   = (Inr ps, t'))
          (sectionsOfLayout db l) (fb_sections res)"
    by blast
  have 1: "mset (sectionsOfLayout db l) = mset (filter (\<lambda>s. s_layoutId s = l_id l) (sections db))"
    by (simp add: sectionsOfLayout_def)
  have 2: "sorted (map s_position (sectionsOfLayout db l))"
    by (simp add: sectionsOfLayout_def)
  have 3: "list_all2 (\<lambda>s ps. \<exists>its. ps = mapSection s its) (sectionsOfLayout db l) (fb_sections res)"
    by (rule list_all2_mono [OF all]) (use prepareSection_Inr_D in blast)
  from b l [unfolded requestedLayout_def] 1 2 3 show ?thesis by blast
qed

theorem byName_sections_sorted_witness:
  "byName codeUnitCompare demo_beyond pristine demo_db demo_home = Inr demo_result
   \<and> map (\<lambda>s. (s_id s, s_layoutId s, s_position s)) (sections demo_db)
       = [(''s2'', ''l1'', Some 1), (''s1'', ''l1'', Some 0), (''s3'', ''l2'', Some 0)]
   \<and> (\<exists>rows. map s_position rows = [Some 0, Some 1]
         \<and> list_all2 (\<lambda>s ps. \<exists>its. ps = mapSection s its) rows (fb_sections demo_result))
   \<and> map ps_id (fb_sections demo_result) = [''s1'', ''s2'']
   \<and> bn_layout demo_mobile = Some ''mobile''
   \<and> byName codeUnitCompare demo_beyond pristine demo_db demo_mobile = Inr demo_result_mobile
   \<and> (\<exists>l rows. l \<in> set (layouts demo_db) \<and> l_name l = ''mobile''
         \<and> mset rows = mset (filter (\<lambda>s. s_layoutId s = l_id l) (sections demo_db))
         \<and> list_all2 (\<lambda>s ps. \<exists>its. ps = mapSection s its) rows (fb_sections demo_result_mobile))
   \<and> map ps_id (fb_sections demo_result_mobile) = [''s3'']"
proof -
  from byName_sections_sorted [OF demo_byName] obtain b l rows where
    b: "find (\<lambda>b. b_name b = bn_boardName demo_home) (boards demo_db) = Some b" and
    l: "find (\<lambda>l. l_boardId l = b_id b
                  \<and> l_name l = (case bn_layout demo_home of None \<Rightarrow> ''default'' | Some name \<Rightarrow> name))
            (layouts demo_db) = Some l" and
    m: "mset rows = mset (filter (\<lambda>s. s_layoutId s = l_id l) (sections demo_db))" and
    s: "sorted (map s_position rows)" and
    a: "list_all2 (\<lambda>s ps. \<exists>its. ps = mapSection s its) rows (fb_sections demo_result)"
    by blast
  from b have "b = demo_board" by (simp add: demo_db_def demo_home_def demo_board_def)
  with l have lid: "l_id l = ''l1''"
    by (auto simp: demo_db_def demo_home_def demo_board_def)
  from m have "image_mset s_position (mset rows)
      = image_mset s_position (mset (filter (\<lambda>s. s_layoutId s = l_id l) (sections demo_db)))"
    by simp
  then have "mset (map s_position rows) = mset [Some 0, Some (1::int)]"
    unfolding lid by (simp add: demo_db_def add_mset_commute)
  with s have "sort [Some 0, Some (1::int)] = map s_position rows"
    by (intro properties_for_sort) simp_all
  then have pos: "map s_position rows = [Some 0, Some 1]" by simp
  have ex: "\<exists>rows. map s_position rows = [Some 0, Some 1]
         \<and> list_all2 (\<lambda>s ps. \<exists>its. ps = mapSection s its) rows (fb_sections demo_result)"
  proof (intro exI conjI)
    show "map s_position rows = [Some 0, Some 1]" by (fact pos)
    show "list_all2 (\<lambda>s ps. \<exists>its. ps = mapSection s its) rows (fb_sections demo_result)"
      by (fact a)
  qed
  from byName_sections_sorted [OF demo_byName_mobile] obtain b' l' rows' where
    b': "find (\<lambda>b. b_name b = bn_boardName demo_mobile) (boards demo_db) = Some b'" and
    l': "find (\<lambda>l. l_boardId l = b_id b'
                  \<and> l_name l = (case bn_layout demo_mobile of None \<Rightarrow> ''default'' | Some name \<Rightarrow> name))
            (layouts demo_db) = Some l'" and
    m': "mset rows' = mset (filter (\<lambda>s. s_layoutId s = l_id l') (sections demo_db))" and
    a': "list_all2 (\<lambda>s ps. \<exists>its. ps = mapSection s its) rows' (fb_sections demo_result_mobile)"
    by blast
  from find_Some_D [OF l'] have "l' \<in> set (layouts demo_db) \<and> l_name l' = ''mobile''"
    by (simp add: demo_mobile_def)
  with m' a' have ex': "\<exists>l rows. l \<in> set (layouts demo_db) \<and> l_name l = ''mobile''
         \<and> mset rows = mset (filter (\<lambda>s. s_layoutId s = l_id l) (sections demo_db))
         \<and> list_all2 (\<lambda>s ps. \<exists>its. ps = mapSection s its) rows (fb_sections demo_result_mobile)"
    by blast
  have stored: "map (\<lambda>s. (s_id s, s_layoutId s, s_position s)) (sections demo_db)
       = [(''s2'', ''l1'', Some 1), (''s1'', ''l1'', Some 0), (''s3'', ''l2'', Some 0)]"
    by (simp add: demo_db_def)
  have ids: "map ps_id (fb_sections demo_result) = [''s1'', ''s2'']"
    by (simp add: demo_result_def)
  have ids': "map ps_id (fb_sections demo_result_mobile) = [''s3'']"
    by (simp add: demo_result_mobile_def)
  have lay: "bn_layout demo_mobile = Some ''mobile''" by (simp add: demo_mobile_def)
  from demo_byName stored ex ids lay demo_byName_mobile ex' ids' show ?thesis by (intro conjI)
qed

text \<open>
  C6. For an existing board, \<open>updateCustomization\<close> changes no table but \<open>boards\<close>, and in it
  no row but those with the id of the board it read (with unique ids: no row but that
  one); in every row the columns \<open>id\<close>, \<open>name\<close> and \<open>ownerId\<close> stay as they were, so that what
  changes is confined to the fourteen appearance and customization columns.
\<close>

theorem updateCustomization_frame:
  assumes "updateCustomization db input = Inr (db', ret)"
  shows "db' = db \<lparr> boards := boards db' \<rparr>
    \<and> list_all2
        (\<lambda>b b'. b_id b' = b_id b \<and> b_name b' = b_name b \<and> b_ownerId b' = b_ownerId b
                \<and> (b_id b \<noteq> b_id ret \<longrightarrow> b' = b))
        (boards db) (boards db')
    \<and> (distinct (map b_id (boards db))
         \<longrightarrow> list_all2 (\<lambda>b b'. b \<noteq> ret \<longrightarrow> b' = b) (boards db) (boards db'))"
proof -
  let ?f = "\<lambda>b. if b_id b = b_id ret then setCustomization (uc_customization input) b else b"
  from assms have found: "find (\<lambda>b. b_name b = uc_boardName input) (boards db) = Some ret"
    and db': "db' = db \<lparr> boards := map ?f (boards db) \<rparr>"
    by (auto simp: updateCustomization_def split: option.splits)
  have ret: "ret \<in> set (boards db)" using find_Some_D [OF found] by simp
  have 1: "db' = db \<lparr> boards := boards db' \<rparr>" using db' by simp
  have 2: "list_all2
        (\<lambda>b b'. b_id b' = b_id b \<and> b_name b' = b_name b \<and> b_ownerId b' = b_ownerId b
                \<and> (b_id b \<noteq> b_id ret \<longrightarrow> b' = b))
        (boards db) (boards db')"
    unfolding db' by (simp add: list_all2_map2 list_all2_same setCustomization_keys)
  have 3: "list_all2 (\<lambda>b b'. b \<noteq> ret \<longrightarrow> b' = b) (boards db) (boards db')"
    if d: "distinct (map b_id (boards db))"
  proof -
    have "inj_on b_id (set (boards db))" using d by (simp add: distinct_map)
    then have "\<And>b. b \<in> set (boards db) \<Longrightarrow> b \<noteq> ret \<Longrightarrow> b_id b \<noteq> b_id ret"
      using ret by (auto dest: inj_onD)
    then show ?thesis unfolding db' by (simp add: list_all2_map2 list_all2_same)
  qed
  from 1 2 3 show ?thesis by blast
qed

theorem updateCustomization_frame_witness:
  "updateCustomization demo_db demo_update
     = Inr (demo_db \<lparr> boards := [setCustomization demo_customization demo_board,
                                 demo_board \<lparr> b_id := ''b2'', b_name := ''lab'' \<rparr>] \<rparr>,
            demo_board)
   \<and> distinct (map b_id (boards demo_db))
   \<and> list_all2 (\<lambda>b b'. b_id b' = b_id b \<and> b_name b' = b_name b \<and> b_ownerId b' = b_ownerId b)
        (boards demo_db)
        [setCustomization demo_customization demo_board,
         demo_board \<lparr> b_id := ''b2'', b_name := ''lab'' \<rparr>]
   \<and> b_primaryColor (setCustomization demo_customization demo_board) = ''blue''"
proof -
  have run: "updateCustomization demo_db demo_update
     = Inr (demo_db \<lparr> boards := [setCustomization demo_customization demo_board,
                                 demo_board \<lparr> b_id := ''b2'', b_name := ''lab'' \<rparr>] \<rparr>,
            demo_board)"
    by (simp add: updateCustomization_def demo_update_def demo_db_def demo_board_def)
  have d: "distinct (map b_id (boards demo_db))"
    by (simp add: demo_db_def demo_board_def)
  show ?thesis
    using run d updateCustomization_frame [OF run]
    by (simp add: setCustomization_def demo_customization_def demo_board_def demo_db_def)
qed

text \<open>
  C7 (amended). When the named config exists and has a wrapper (or no container is given),
  \<open>addAppsForContainers\<close> writes to \<open>data/configs/<name>.json\<close> the old config with its
  other properties as they were, the same wrappers (nothing is said of their order), and
  the old apps followed by one new app for each container, in input order; each new app
  has the container's name, and its \<open>url\<close> and \<open>externalUrl\<close> are
  \<open>http://localhost:<port>\<close>, the port as the template literal prints the number, when
  the container has a port that is truthy (neither 0 nor \<open>NaN\<close>), and
  \<open>http://localhost\<close> otherwise.
\<close>

theorem addAppsForContainers_writes:
  assumes "configExists (aa_boardName input)"
    and "cf_wrappers (getConfig (aa_boardName input)) \<noteq> [] \<or> aa_apps input = []"
  shows "\<exists>newConfig newApps.
      addAppsForContainers configExists getConfig generateDefaultApp truthy numberToString input
        = Inr (''data/configs/'' @ aa_boardName input @ ''.json'', newConfig)
    \<and> cf_other newConfig = cf_other (getConfig (aa_boardName input))
    \<and> mset (cf_wrappers newConfig) = mset (cf_wrappers (getConfig (aa_boardName input)))
    \<and> cf_apps newConfig = cf_apps (getConfig (aa_boardName input)) @ newApps
    \<and> list_all2
        (\<lambda>c a. ca_name a = ct_name c
           \<and> ca_url a =
               (case ct_port c of
                  None \<Rightarrow> ''http://localhost''
                | Some p \<Rightarrow> if truthy p then ''http://localhost:'' @ numberToString p
                            else ''http://localhost'')
           \<and> externalUrl (ca_behaviour a) = ca_url a)
        (aa_apps input) newApps"
proof (cases "cf_wrappers (getConfig (aa_boardName input)) = []")
  case True
  with assms(2) have e: "aa_apps input = []" by simp
  show ?thesis
    using addAppsForContainers_no_wrapper [where configExists = configExists
        and getConfig = getConfig and input = input and gen = generateDefaultApp
        and truthy = truthy and str = numberToString, OF assms(1) True] e True
    by simp
next
  case False
  then obtain w ws where s: "sort_key wr_position (cf_wrappers (getConfig (aa_boardName input))) = w # ws"
    by (cases "sort_key wr_position (cf_wrappers (getConfig (aa_boardName input)))")
       (simp_all add: sort_key_Nil_iff)
  let ?g = "\<lambda>ic. (generateDefaultApp (fst ic) (wr_id w))
                         \<lparr> ca_name := ct_name (snd ic),
                           ca_url := containerAddress truthy numberToString (snd ic),
                           ca_behaviour := (ca_behaviour (generateDefaultApp (fst ic) (wr_id w)))
                              \<lparr> externalUrl := containerAddress truthy numberToString (snd ic) \<rparr> \<rparr>"
  have l: "list_all2
        (\<lambda>c a. ca_name a = ct_name c
           \<and> ca_url a =
               (case ct_port c of
                  None \<Rightarrow> ''http://localhost''
                | Some p \<Rightarrow> if truthy p then ''http://localhost:'' @ numberToString p
                            else ''http://localhost'')
           \<and> externalUrl (ca_behaviour a) = ca_url a)
        (aa_apps input) (map ?g (zip [0 ..< length (aa_apps input)] (aa_apps input)))"
    by (simp add: list_all2_conv_all_nth containerAddress_def)
  have m: "mset (w # ws) = mset (cf_wrappers (getConfig (aa_boardName input)))"
    using s [symmetric] by simp
  show ?thesis
    using addAppsForContainers_wrapper [where configExists = configExists and getConfig = getConfig
      and input = input and gen = generateDefaultApp and truthy = truthy
      and str = numberToString, OF assms(1) s] l m
    by simp
qed

theorem addAppsForContainers_writes_witness:
  "cf_wrappers demo_config \<noteq> []
   \<and> (\<exists>newConfig newApps.
      addAppsForContainers (\<lambda>n. n = ''home'') (\<lambda>n. demo_config) demo_defaultApp
          (\<lambda>p. p \<noteq> 0) showInt demo_containers
        = Inr (''data/configs/'' @ aa_boardName demo_containers @ ''.json'', newConfig)
    \<and> cf_other newConfig = cf_other demo_config
    \<and> mset (cf_wrappers newConfig) = mset (cf_wrappers demo_config)
    \<and> cf_apps newConfig = cf_apps demo_config @ newApps
    \<and> list_all2
        (\<lambda>c a. ca_name a = ct_name c
           \<and> ca_url a =
               (case ct_port c of
                  None \<Rightarrow> ''http://localhost''
                | Some p \<Rightarrow> if p \<noteq> 0 then ''http://localhost:'' @ showInt p
                            else ''http://localhost'')
           \<and> externalUrl (ca_behaviour a) = ca_url a)
        (aa_apps demo_containers) newApps)
   \<and> map ca_url (cf_apps demo_written)
       = [''http://localhost:8080'', ''http://localhost'', ''http://localhost'']"
proof -
  have e: "(\<lambda>n. n = ''home'') (aa_boardName demo_containers)"
    by (simp add: demo_containers_def)
  have w: "cf_wrappers ((\<lambda>n. demo_config) (aa_boardName demo_containers)) \<noteq> []
      \<or> aa_apps demo_containers = []"
    by (simp add: demo_config_def)
  have u: "map ca_url (cf_apps demo_written)
       = [''http://localhost:8080'', ''http://localhost'', ''http://localhost'']"
    by (simp add: demo_written_def)
  from addAppsForContainers_writes [where configExists = "\<lambda>n. n = ''home''"
      and getConfig = "\<lambda>n. demo_config" and input = demo_containers
      and generateDefaultApp = demo_defaultApp and truthy = "\<lambda>p. p \<noteq> 0"
      and numberToString = showInt, OF e w] u
  show ?thesis by (simp add: demo_config_def)
qed

theorem addAppsForContainers_writes_counterexample:
  "addAppsForContainers (\<lambda>n. n = ''home'') (\<lambda>n. demo_config) demo_defaultApp
       (\<lambda>p. p \<noteq> 0) showInt demo_containers
     = Inr (''data/configs/home.json'', demo_written)
   \<and> cf_wrappers demo_written \<noteq> cf_wrappers demo_config
   \<and> ct_port (aa_apps demo_containers ! 2) = Some 0
   \<and> ca_url (cf_apps demo_written ! 2) = ''http://localhost''
   \<and> addAppsForContainers (\<lambda>n. n = ''home'') (\<lambda>n. demo_config \<lparr> cf_wrappers := [] \<rparr>)
         demo_defaultApp (\<lambda>p. p \<noteq> 0) showInt demo_containers
       = Inl TypeError"
proof -
  have "addAppsForContainers (\<lambda>n. n = ''home'') (\<lambda>n. demo_config \<lparr> cf_wrappers := [] \<rparr>)
         demo_defaultApp (\<lambda>p. p \<noteq> 0) showInt demo_containers
       = Inl TypeError"
    by (simp add: addAppsForContainers_def sort_cmp_def demo_config_def demo_containers_def
        containerApp_def upt_rec)
  with demo_addApps show ?thesis
    by (simp add: demo_written_def demo_config_def demo_containers_def)
qed

text \<open>
  C8 (amended). A run of \<open>exampleBoard\<close> with a name no board has yet, for a session
  user who is a row of \<open>users\<close>, in which the identifiers drawn are distinct and fresh,
  returns and has inserted one board row with the given name, owned by the session user;
  one layout named \<open>default\<close> of that board; one section of type \<open>empty\<close> at position 0
  of that layout; eight items of that board, four of them apps (Contribute, Discord,
  Donate, Documentation, each linked to its item) and four of them widgets (weather,
  date, date, notebook); and eight layout items, one for each item, all in that one
  section. The other tables stay as they were. (A run with a name that a board has
  already, or for a user who is no row of \<open>users\<close>, throws at its first insert and
  inserts nothing; a run in which an identifier comes twice throws at the insert that
  repeats it and leaves the rows inserted before.)
\<close>

theorem exampleBoard_inserts:
  assumes name: "boardName \<notin> set (map b_name (boards (st_db st)))"
    and user: "userId \<in> set (map u_id (users (st_db st)))"
    and dist: "distinct (map uuid [st_drawn st ..< st_drawn st + 27])"
    and fresh: "set (map uuid [st_drawn st ..< st_drawn st + 27]) \<inter> set (usedIds (st_db st)) = {}"
  shows "\<exists>st' newItems newApps newAppItems newWidgets newLayoutItems.
     exampleBoard uuid boardDefaults boardName userId st = (None, st')
   \<and> st_drawn st' = st_drawn st + 27
   \<and> boards (st_db st')
       = boards (st_db st) @
         [boardDefaults \<lparr> b_id := uuid (st_drawn st), b_name := boardName, b_ownerId := Some userId \<rparr>]
   \<and> layouts (st_db st')
       = layouts (st_db st) @
         [\<lparr> l_id = uuid (st_drawn st + 1), l_name = ''default'', l_boardId = uuid (st_drawn st) \<rparr>]
   \<and> sections (st_db st')
       = sections (st_db st) @
         [\<lparr> s_id = uuid (st_drawn st + 2), s_layoutId = uuid (st_drawn st + 1),
            s_type = SecEmpty, s_position = Some 0, s_name = None \<rparr>]
   \<and> items (st_db st') = items (st_db st) @ newItems
   \<and> map i_type newItems
       = [ItemApp, ItemApp, ItemApp, ItemApp, ItemWidget, ItemWidget, ItemWidget, ItemWidget]
   \<and> map i_boardId newItems = replicate 8 (uuid (st_drawn st))
   \<and> apps (st_db st') = apps (st_db st) @ newApps
   \<and> map a_name newApps = [''Contribute'', ''Discord'', ''Donate'', ''Documentation'']
   \<and> appItems (st_db st') = appItems (st_db st) @ newAppItems
   \<and> map ai_appId newAppItems = map a_id newApps
   \<and> map ai_itemId newAppItems = map i_id (take 4 newItems)
   \<and> widgets (st_db st') = widgets (st_db st) @ newWidgets
   \<and> map w_type newWidgets = [''weather'', ''date'', ''date'', ''notebook'']
   \<and> map w_itemId newWidgets = map i_id (drop 4 newItems)
   \<and> layoutItems (st_db st') = layoutItems (st_db st) @ newLayoutItems
   \<and> map li_itemId newLayoutItems = map i_id newItems
   \<and> map li_sectionId newLayoutItems = replicate 8 (uuid (st_drawn st + 2))
   \<and> users (st_db st') = users (st_db st)
   \<and> widgetOptions (st_db st') = widgetOptions (st_db st)
   \<and> integrations (st_db st') = integrations (st_db st)
   \<and> integrationSecrets (st_db st') = integrationSecrets (st_db st)
   \<and> appStatusCodes (st_db st') = appStatusCodes (st_db st)"
proof -
  define n where "n = st_drawn st"
  define db where "db = st_db st"
  have inj: "inj_on uuid (set [n ..< n + 27])"
    using dist by (simp add: distinct_map n_def)
  have D: "(uuid (n + i) = uuid (n + j)) = (i = j)" if "i < 27" and "j < 27" for i j
  proof -
    have "n + i \<in> set [n ..< n + 27]" and "n + j \<in> set [n ..< n + 27]" using that by simp_all
    from inj_on_eq_iff [OF inj this] show ?thesis by simp
  qed
  have F: "uuid (n + k) \<notin> set (usedIds db)" if "k < 27" for k
  proof -
    have "uuid (n + k) \<in> set (map uuid [n ..< n + 27])" using that by simp
    with fresh show ?thesis unfolding n_def db_def by blast
  qed
  have F0: "uuid n \<notin> set (usedIds db)" using F [of 0] by simp
  have Fb: "\<And>k. k < 27 \<Longrightarrow> uuid (n + k) \<notin> b_id ` set (boards db)"
    and Fl: "\<And>k. k < 27 \<Longrightarrow> uuid (n + k) \<notin> l_id ` set (layouts db)"
    and Fs: "\<And>k. k < 27 \<Longrightarrow> uuid (n + k) \<notin> s_id ` set (sections db)"
    and Fi: "\<And>k. k < 27 \<Longrightarrow> uuid (n + k) \<notin> i_id ` set (items db)"
    and Fa: "\<And>k. k < 27 \<Longrightarrow> uuid (n + k) \<notin> a_id ` set (apps db)"
    and Fk: "\<And>k. k < 27 \<Longrightarrow> uuid (n + k) \<notin> ai_appId ` set (appItems db)"
    and Fw: "\<And>k. k < 27 \<Longrightarrow> uuid (n + k) \<notin> w_id ` set (widgets db)"
    and Fy: "\<And>k. k < 27 \<Longrightarrow> uuid (n + k) \<notin> li_id ` set (layoutItems db)"
    using F by (simp_all add: usedIds_def)
  have Fp: "\<And>k x. k < 27 \<Longrightarrow>
      (uuid (n + k), x) \<notin> (\<lambda>r. (ai_appId r, ai_itemId r)) ` set (appItems db)"
    using Fk by force
  have F0b: "uuid n \<notin> b_id ` set (boards db)"
    and F0l: "\<And>x. (uuid n, x) \<notin> (\<lambda>l. (l_boardId l, l_name l)) ` set (layouts db)"
    using F0 by (force simp: usedIds_def)+
  have F1l: "uuid (Suc n) \<notin> l_id ` set (layouts db)" using Fl [of 1] by simp
  have nm: "boardName \<notin> b_name ` set (boards db)" using name by (simp add: db_def)
  have us: "userId \<in> u_id ` set (users db)" using user by (simp add: db_def)
  define mk where "mk = (\<lambda>m its aps lnk wds lis.
    \<lparr> st_drawn = n + m,
      st_db = db
        \<lparr> boards := boards db @ [boardDefaults \<lparr> b_id := uuid n, b_name := boardName, b_ownerId := Some userId \<rparr>],
          layouts := layouts db @ [\<lparr> l_id = uuid (n + 1), l_name = ''default'', l_boardId = uuid n \<rparr>],
          sections := sections db @ [\<lparr> s_id = uuid (n + 2), s_layoutId = uuid (n + 1), s_type = SecEmpty, s_position = Some 0, s_name = None \<rparr>],
          items := items db @ its, apps := apps db @ aps, appItems := appItems db @ lnk,
          widgets := widgets db @ wds, layoutItems := layoutItems db @ lis \<rparr> \<rparr>)"
  have head: "exampleBoard uuid boardDefaults boardName userId st =
    inOrder
      [addApp uuid
         \<lparr> aap_boardId = uuid n, aap_sectionId = uuid (n + 2), aap_name = ''Contribute'', aap_internalUrl = ''https://github.com/ajnart/homarr'', aap_iconUrl = ''https://cdn.jsdelivr.net/gh/walkxcode/dashboard-icons@master/png/github.png'', aap_width = 2, aap_height = 1, aap_x = 2, aap_y = 0 \<rparr>,
       addApp uuid
         \<lparr> aap_boardId = uuid n, aap_sectionId = uuid (n + 2), aap_name = ''Discord'', aap_internalUrl = ''https://discord.com/invite/aCsmEV5RgA'', aap_iconUrl = ''https://cdn.jsdelivr.net/gh/walkxcode/dashboard-icons@master/png/discord.png'', aap_width = 2, aap_height = 1, aap_x = 4, aap_y = 0 \<rparr>,
       addApp uuid
         \<lparr> aap_boardId = uuid n, aap_sectionId = uuid (n + 2), aap_name = ''Donate'', aap_internalUrl = ''https://ko-fi.com/ajnart'', aap_iconUrl = ''https://cdn.jsdelivr.net/gh/walkxcode/dashboard-icons@master/png/ko-fi.png'', aap_width = 2, aap_height = 1, aap_x = 6, aap_y = 0 \<rparr>,
       addApp uuid
         \<lparr> aap_boardId = uuid n, aap_sectionId = uuid (n + 2), aap_name = ''Documentation'', aap_internalUrl = ''https://homarr.dev'', aap_iconUrl = ''/imgs/logo/logo.png'', aap_width = 2, aap_height = 2, aap_x = 6, aap_y = 1 \<rparr>,
       addWidget uuid
         \<lparr> awp_boardId = uuid n, awp_sectionId = uuid (n + 2), awp_type = ''weather'', awp_width = 2, awp_height = 1, awp_x = 0, awp_y = 0 \<rparr>,
       addWidget uuid
         \<lparr> awp_boardId = uuid n, awp_sectionId = uuid (n + 2), awp_type = ''date'', awp_width = 2, awp_height = 1, awp_x = 8, awp_y = 0 \<rparr>,
       addWidget uuid
         \<lparr> awp_boardId = uuid n, awp_sectionId = uuid (n + 2), awp_type = ''date'', awp_width = 2, awp_height = 1, awp_x = 8, awp_y = 1 \<rparr>,
       addWidget uuid
         \<lparr> awp_boardId = uuid n, awp_sectionId = uuid (n + 2), awp_type = ''notebook'', awp_width = 6, awp_height = 3, awp_x = 0, awp_y = 1 \<rparr>]
      (mk 3 [] [] [] [] [])"
    using nm us F0b F0l F1l Fs [of 2]
    by (cases st)
       (simp add: exampleBoard_def Let_def randomUUID_def dbInsert_def insertBoard_def
          insertLayout_def insertSection_def mk_def n_def db_def numeral_2_eq_2 numeral_3_eq_3)
  have e4: "uuid (n + 4) = uuid (n + 3 + 1)" and e5: "uuid (n + 5) = uuid (n + 3 + 2)"
    by (rule arg_cong [where f = uuid], simp)+
  have a1: "addApp uuid
      \<lparr> aap_boardId = uuid n, aap_sectionId = uuid (n + 2), aap_name = ''Contribute'', aap_internalUrl = ''https://github.com/ajnart/homarr'', aap_iconUrl = ''https://cdn.jsdelivr.net/gh/walkxcode/dashboard-icons@master/png/github.png'', aap_width = 2, aap_height = 1, aap_x = 2, aap_y = 0 \<rparr>
      (mk 3
       []
       []
       []
       []
       [])
    = (None,
       mk 6
       [\<lparr> i_id = uuid (n + 3), i_type = ItemApp, i_boardId = uuid n \<rparr>]
       [\<lparr> a_id = uuid (n + 4), a_name = ''Contribute'', a_internalUrl = ''https://github.com/ajnart/homarr'', a_iconUrl = ''https://cdn.jsdelivr.net/gh/walkxcode/dashboard-icons@master/png/github.png'', a_integrationId = None \<rparr>]
       [\<lparr> ai_appId = uuid (n + 4), ai_itemId = uuid (n + 3) \<rparr>]
       []
       [\<lparr> li_id = uuid (n + 5), li_itemId = uuid (n + 3), li_sectionId = uuid (n + 2), li_width = 2, li_height = 1, li_x = 2, li_y = 0 \<rparr>])"
    unfolding mk_def
    by (subst addApp_ok [OF _ refl e4 e5])
       (simp_all add: D Fb Fs Fi Fa Fp Fw Fy)
  have e7: "uuid (n + 7) = uuid (n + 6 + 1)" and e8: "uuid (n + 8) = uuid (n + 6 + 2)"
    by (rule arg_cong [where f = uuid], simp)+
  have a2: "addApp uuid
      \<lparr> aap_boardId = uuid n, aap_sectionId = uuid (n + 2), aap_name = ''Discord'', aap_internalUrl = ''https://discord.com/invite/aCsmEV5RgA'', aap_iconUrl = ''https://cdn.jsdelivr.net/gh/walkxcode/dashboard-icons@master/png/discord.png'', aap_width = 2, aap_height = 1, aap_x = 4, aap_y = 0 \<rparr>
      (mk 6
       [\<lparr> i_id = uuid (n + 3), i_type = ItemApp, i_boardId = uuid n \<rparr>]
       [\<lparr> a_id = uuid (n + 4), a_name = ''Contribute'', a_internalUrl = ''https://github.com/ajnart/homarr'', a_iconUrl = ''https://cdn.jsdelivr.net/gh/walkxcode/dashboard-icons@master/png/github.png'', a_integrationId = None \<rparr>]
       [\<lparr> ai_appId = uuid (n + 4), ai_itemId = uuid (n + 3) \<rparr>]
       []
       [\<lparr> li_id = uuid (n + 5), li_itemId = uuid (n + 3), li_sectionId = uuid (n + 2), li_width = 2, li_height = 1, li_x = 2, li_y = 0 \<rparr>])
    = (None,
       mk 9
       [\<lparr> i_id = uuid (n + 3), i_type = ItemApp, i_boardId = uuid n \<rparr>,
        \<lparr> i_id = uuid (n + 6), i_type = ItemApp, i_boardId = uuid n \<rparr>]
       [\<lparr> a_id = uuid (n + 4), a_name = ''Contribute'', a_internalUrl = ''https://github.com/ajnart/homarr'', a_iconUrl = ''https://cdn.jsdelivr.net/gh/walkxcode/dashboard-icons@master/png/github.png'', a_integrationId = None \<rparr>,
        \<lparr> a_id = uuid (n + 7), a_name = ''Discord'', a_internalUrl = ''https://discord.com/invite/aCsmEV5RgA'', a_iconUrl = ''https://cdn.jsdelivr.net/gh/walkxcode/dashboard-icons@master/png/discord.png'', a_integrationId = None \<rparr>]
       [\<lparr> ai_appId = uuid (n + 4), ai_itemId = uuid (n + 3) \<rparr>,
        \<lparr> ai_appId = uuid (n + 7), ai_itemId = uuid (n + 6) \<rparr>]
       []
       [\<lparr> li_id = uuid (n + 5), li_itemId = uuid (n + 3), li_sectionId = uuid (n + 2), li_width = 2, li_height = 1, li_x = 2, li_y = 0 \<rparr>,
        \<lparr> li_id = uuid (n + 8), li_itemId = uuid (n + 6), li_sectionId = uuid (n + 2), li_width = 2, li_height = 1, li_x = 4, li_y = 0 \<rparr>])"
    unfolding mk_def
    by (subst addApp_ok [OF _ refl e7 e8])
       (simp_all add: D Fb Fs Fi Fa Fp Fw Fy)
  have e10: "uuid (n + 10) = uuid (n + 9 + 1)" and e11: "uuid (n + 11) = uuid (n + 9 + 2)"
    by (rule arg_cong [where f = uuid], simp)+
  have a3: "addApp uuid
      \<lparr> aap_boardId = uuid n, aap_sectionId = uuid (n + 2), aap_name = ''Donate'', aap_internalUrl = ''https://ko-fi.com/ajnart'', aap_iconUrl = ''https://cdn.jsdelivr.net/gh/walkxcode/dashboard-icons@master/png/ko-fi.png'', aap_width = 2, aap_height = 1, aap_x = 6, aap_y = 0 \<rparr>
      (mk 9
       [\<lparr> i_id = uuid (n + 3), i_type = ItemApp, i_boardId = uuid n \<rparr>,
        \<lparr> i_id = uuid (n + 6), i_type = ItemApp, i_boardId = uuid n \<rparr>]
       [\<lparr> a_id = uuid (n + 4), a_name = ''Contribute'', a_internalUrl = ''https://github.com/ajnart/homarr'', a_iconUrl = ''https://cdn.jsdelivr.net/gh/walkxcode/dashboard-icons@master/png/github.png'', a_integrationId = None \<rparr>,
        \<lparr> a_id = uuid (n + 7), a_name = ''Discord'', a_internalUrl = ''https://discord.com/invite/aCsmEV5RgA'', a_iconUrl = ''https://cdn.jsdelivr.net/gh/walkxcode/dashboard-icons@master/png/discord.png'', a_integrationId = None \<rparr>]
       [\<lparr> ai_appId = uuid (n + 4), ai_itemId = uuid (n + 3) \<rparr>,
        \<lparr> ai_appId = uuid (n + 7), ai_itemId = uuid (n + 6) \<rparr>]
       []
       [\<lparr> li_id = uuid (n + 5), li_itemId = uuid (n + 3), li_sectionId = uuid (n + 2), li_width = 2, li_height = 1, li_x = 2, li_y = 0 \<rparr>,
        \<lparr> li_id = uuid (n + 8), li_itemId = uuid (n + 6), li_sectionId = uuid (n + 2), li_width = 2, li_height = 1, li_x = 4, li_y = 0 \<rparr>])
    = (None,
       mk 12
       [\<lparr> i_id = uuid (n + 3), i_type = ItemApp, i_boardId = uuid n \<rparr>,
        \<lparr> i_id = uuid (n + 6), i_type = ItemApp, i_boardId = uuid n \<rparr>,
        \<lparr> i_id = uuid (n + 9), i_type = ItemApp, i_boardId = uuid n \<rparr>]
       [\<lparr> a_id = uuid (n + 4), a_name = ''Contribute'', a_internalUrl = ''https://github.com/ajnart/homarr'', a_iconUrl = ''https://cdn.jsdelivr.net/gh/walkxcode/dashboard-icons@master/png/github.png'', a_integrationId = None \<rparr>,
        \<lparr> a_id = uuid (n + 7), a_name = ''Discord'', a_internalUrl = ''https://discord.com/invite/aCsmEV5RgA'', a_iconUrl = ''https://cdn.jsdelivr.net/gh/walkxcode/dashboard-icons@master/png/discord.png'', a_integrationId = None \<rparr>,
        \<lparr> a_id = uuid (n + 10), a_name = ''Donate'', a_internalUrl = ''https://ko-fi.com/ajnart'', a_iconUrl = ''https://cdn.jsdelivr.net/gh/walkxcode/dashboard-icons@master/png/ko-fi.png'', a_integrationId = None \<rparr>]
       [\<lparr> ai_appId = uuid (n + 4), ai_itemId = uuid (n + 3) \<rparr>,
        \<lparr> ai_appId = uuid (n + 7), ai_itemId = uuid (n + 6) \<rparr>,
        \<lparr> ai_appId = uuid (n + 10), ai_itemId = uuid (n + 9) \<rparr>]
       []
       [\<lparr> li_id = uuid (n + 5), li_itemId = uuid (n + 3), li_sectionId = uuid (n + 2), li_width = 2, li_height = 1, li_x = 2, li_y = 0 \<rparr>,
        \<lparr> li_id = uuid (n + 8), li_itemId = uuid (n + 6), li_sectionId = uuid (n + 2), li_width = 2, li_height = 1, li_x = 4, li_y = 0 \<rparr>,
        \<lparr> li_id = uuid (n + 11), li_itemId = uuid (n + 9), li_sectionId = uuid (n + 2), li_width = 2, li_height = 1, li_x = 6, li_y = 0 \<rparr>])"
    unfolding mk_def
    by (subst addApp_ok [OF _ refl e10 e11])
       (simp_all add: D Fb Fs Fi Fa Fp Fw Fy)
  have e13: "uuid (n + 13) = uuid (n + 12 + 1)" and e14: "uuid (n + 14) = uuid (n + 12 + 2)"
    by (rule arg_cong [where f = uuid], simp)+
  have a4: "addApp uuid
      \<lparr> aap_boardId = uuid n, aap_sectionId = uuid (n + 2), aap_name = ''Documentation'', aap_internalUrl = ''https://homarr.dev'', aap_iconUrl = ''/imgs/logo/logo.png'', aap_width = 2, aap_height = 2, aap_x = 6, aap_y = 1 \<rparr>
      (mk 12
       [\<lparr> i_id = uuid (n + 3), i_type = ItemApp, i_boardId = uuid n \<rparr>,
        \<lparr> i_id = uuid (n + 6), i_type = ItemApp, i_boardId = uuid n \<rparr>,
        \<lparr> i_id = uuid (n + 9), i_type = ItemApp, i_boardId = uuid n \<rparr>]
       [\<lparr> a_id = uuid (n + 4), a_name = ''Contribute'', a_internalUrl = ''https://github.com/ajnart/homarr'', a_iconUrl = ''https://cdn.jsdelivr.net/gh/walkxcode/dashboard-icons@master/png/github.png'', a_integrationId = None \<rparr>,
        \<lparr> a_id = uuid (n + 7), a_name = ''Discord'', a_internalUrl = ''https://discord.com/invite/aCsmEV5RgA'', a_iconUrl = ''https://cdn.jsdelivr.net/gh/walkxcode/dashboard-icons@master/png/discord.png'', a_integrationId = None \<rparr>,
        \<lparr> a_id = uuid (n + 10), a_name = ''Donate'', a_internalUrl = ''https://ko-fi.com/ajnart'', a_iconUrl = ''https://cdn.jsdelivr.net/gh/walkxcode/dashboard-icons@master/png/ko-fi.png'', a_integrationId = None \<rparr>]
       [\<lparr> ai_appId = uuid (n + 4), ai_itemId = uuid (n + 3) \<rparr>,
        \<lparr> ai_appId = uuid (n + 7), ai_itemId = uuid (n + 6) \<rparr>,
        \<lparr> ai_appId = uuid (n + 10), ai_itemId = uuid (n + 9) \<rparr>]
       []
       [\<lparr> li_id = uuid (n + 5), li_itemId = uuid (n + 3), li_sectionId = uuid (n + 2), li_width = 2, li_height = 1, li_x = 2, li_y = 0 \<rparr>,
        \<lparr> li_id = uuid (n + 8), li_itemId = uuid (n + 6), li_sectionId = uuid (n + 2), li_width = 2, li_height = 1, li_x = 4, li_y = 0 \<rparr>,
        \<lparr> li_id = uuid (n + 11), li_itemId = uuid (n + 9), li_sectionId = uuid (n + 2), li_width = 2, li_height = 1, li_x = 6, li_y = 0 \<rparr>])
    = (None,
       mk 15
       [\<lparr> i_id = uuid (n + 3), i_type = ItemApp, i_boardId = uuid n \<rparr>,
        \<lparr> i_id = uuid (n + 6), i_type = ItemApp, i_boardId = uuid n \<rparr>,
        \<lparr> i_id = uuid (n + 9), i_type = ItemApp, i_boardId = uuid n \<rparr>,
        \<lparr> i_id = uuid (n + 12), i_type = ItemApp, i_boardId = uuid n \<rparr>]
       [\<lparr> a_id = uuid (n + 4), a_name = ''Contribute'', a_internalUrl = ''https://github.com/ajnart/homarr'', a_iconUrl = ''https://cdn.jsdelivr.net/gh/walkxcode/dashboard-icons@master/png/github.png'', a_integrationId = None \<rparr>,
        \<lparr> a_id = uuid (n + 7), a_name = ''Discord'', a_internalUrl = ''https://discord.com/invite/aCsmEV5RgA'', a_iconUrl = ''https://cdn.jsdelivr.net/gh/walkxcode/dashboard-icons@master/png/discord.png'', a_integrationId = None \<rparr>,
        \<lparr> a_id = uuid (n + 10), a_name = ''Donate'', a_internalUrl = ''https://ko-fi.com/ajnart'', a_iconUrl = ''https://cdn.jsdelivr.net/gh/walkxcode/dashboard-icons@master/png/ko-fi.png'', a_integrationId = None \<rparr>,
        \<lparr> a_id = uuid (n + 13), a_name = ''Documentation'', a_internalUrl = ''https://homarr.dev'', a_iconUrl = ''/imgs/logo/logo.png'', a_integrationId = None \<rparr>]
       [\<lparr> ai_appId = uuid (n + 4), ai_itemId = uuid (n + 3) \<rparr>,
        \<lparr> ai_appId = uuid (n + 7), ai_itemId = uuid (n + 6) \<rparr>,
        \<lparr> ai_appId = uuid (n + 10), ai_itemId = uuid (n + 9) \<rparr>,
        \<lparr> ai_appId = uuid (n + 13), ai_itemId = uuid (n + 12) \<rparr>]
       []
       [\<lparr> li_id = uuid (n + 5), li_itemId = uuid (n + 3), li_sectionId = uuid (n + 2), li_width = 2, li_height = 1, li_x = 2, li_y = 0 \<rparr>,
        \<lparr> li_id = uuid (n + 8), li_itemId = uuid (n + 6), li_sectionId = uuid (n + 2), li_width = 2, li_height = 1, li_x = 4, li_y = 0 \<rparr>,
        \<lparr> li_id = uuid (n + 11), li_itemId = uuid (n + 9), li_sectionId = uuid (n + 2), li_width = 2, li_height = 1, li_x = 6, li_y = 0 \<rparr>,
        \<lparr> li_id = uuid (n + 14), li_itemId = uuid (n + 12), li_sectionId = uuid (n + 2), li_width = 2, li_height = 2, li_x = 6, li_y = 1 \<rparr>])"
    unfolding mk_def
    by (subst addApp_ok [OF _ refl e13 e14])
       (simp_all add: D Fb Fs Fi Fa Fp Fw Fy)
  have e16: "uuid (n + 16) = uuid (n + 15 + 1)" and e17: "uuid (n + 17) = uuid (n + 15 + 2)"
    by (rule arg_cong [where f = uuid], simp)+
  have a5: "addWidget uuid
      \<lparr> awp_boardId = uuid n, awp_sectionId = uuid (n + 2), awp_type = ''weather'', awp_width = 2, awp_height = 1, awp_x = 0, awp_y = 0 \<rparr>
      (mk 15
       [\<lparr> i_id = uuid (n + 3), i_type = ItemApp, i_boardId = uuid n \<rparr>,
        \<lparr> i_id = uuid (n + 6), i_type = ItemApp, i_boardId = uuid n \<rparr>,
        \<lparr> i_id = uuid (n + 9), i_type = ItemApp, i_boardId = uuid n \<rparr>,
        \<lparr> i_id = uuid (n + 12), i_type = ItemApp, i_boardId = uuid n \<rparr>]
       [\<lparr> a_id = uuid (n + 4), a_name = ''Contribute'', a_internalUrl = ''https://github.com/ajnart/homarr'', a_iconUrl = ''https://cdn.jsdelivr.net/gh/walkxcode/dashboard-icons@master/png/github.png'', a_integrationId = None \<rparr>,
        \<lparr> a_id = uuid (n + 7), a_name = ''Discord'', a_internalUrl = ''https://discord.com/invite/aCsmEV5RgA'', a_iconUrl = ''https://cdn.jsdelivr.net/gh/walkxcode/dashboard-icons@master/png/discord.png'', a_integrationId = None \<rparr>,
        \<lparr> a_id = uuid (n + 10), a_name = ''Donate'', a_internalUrl = ''https://ko-fi.com/ajnart'', a_iconUrl = ''https://cdn.jsdelivr.net/gh/walkxcode/dashboard-icons@master/png/ko-fi.png'', a_integrationId = None \<rparr>,
        \<lparr> a_id = uuid (n + 13), a_name = ''Documentation'', a_internalUrl = ''https://homarr.dev'', a_iconUrl = ''/imgs/logo/logo.png'', a_integrationId = None \<rparr>]
       [\<lparr> ai_appId = uuid (n + 4), ai_itemId = uuid (n + 3) \<rparr>,
        \<lparr> ai_appId = uuid (n + 7), ai_itemId = uuid (n + 6) \<rparr>,
        \<lparr> ai_appId = uuid (n + 10), ai_itemId = uuid (n + 9) \<rparr>,
        \<lparr> ai_appId = uuid (n + 13), ai_itemId = uuid (n + 12) \<rparr>]
       []
       [\<lparr> li_id = uuid (n + 5), li_itemId = uuid (n + 3), li_sectionId = uuid (n + 2), li_width = 2, li_height = 1, li_x = 2, li_y = 0 \<rparr>,
        \<lparr> li_id = uuid (n + 8), li_itemId = uuid (n + 6), li_sectionId = uuid (n + 2), li_width = 2, li_height = 1, li_x = 4, li_y = 0 \<rparr>,
        \<lparr> li_id = uuid (n + 11), li_itemId = uuid (n + 9), li_sectionId = uuid (n + 2), li_width = 2, li_height = 1, li_x = 6, li_y = 0 \<rparr>,
        \<lparr> li_id = uuid (n + 14), li_itemId = uuid (n + 12), li_sectionId = uuid (n + 2), li_width = 2, li_height = 2, li_x = 6, li_y = 1 \<rparr>])
    = (None,
       mk 18
       [\<lparr> i_id = uuid (n + 3), i_type = ItemApp, i_boardId = uuid n \<rparr>,
        \<lparr> i_id = uuid (n + 6), i_type = ItemApp, i_boardId = uuid n \<rparr>,
        \<lparr> i_id = uuid (n + 9), i_type = ItemApp, i_boardId = uuid n \<rparr>,
        \<lparr> i_id = uuid (n + 12), i_type = ItemApp, i_boardId = uuid n \<rparr>,
        \<lparr> i_id = uuid (n + 15), i_type = ItemWidget, i_boardId = uuid n \<rparr>]
       [\<lparr> a_id = uuid (n + 4), a_name = ''Contribute'', a_internalUrl = ''https://github.com/ajnart/homarr'', a_iconUrl = ''https://cdn.jsdelivr.net/gh/walkxcode/dashboard-icons@master/png/github.png'', a_integrationId = None \<rparr>,
        \<lparr> a_id = uuid (n + 7), a_name = ''Discord'', a_internalUrl = ''https://discord.com/invite/aCsmEV5RgA'', a_iconUrl = ''https://cdn.jsdelivr.net/gh/walkxcode/dashboard-icons@master/png/discord.png'', a_integrationId = None \<rparr>,
        \<lparr> a_id = uuid (n + 10), a_name = ''Donate'', a_internalUrl = ''https://ko-fi.com/ajnart'', a_iconUrl = ''https://cdn.jsdelivr.net/gh/walkxcode/dashboard-icons@master/png/ko-fi.png'', a_integrationId = None \<rparr>,
        \<lparr> a_id = uuid (n + 13), a_name = ''Documentation'', a_internalUrl = ''https://homarr.dev'', a_iconUrl = ''/imgs/logo/logo.png'', a_integrationId = None \<rparr>]
       [\<lparr> ai_appId = uuid (n + 4), ai_itemId = uuid (n + 3) \<rparr>,
        \<lparr> ai_appId = uuid (n + 7), ai_itemId = uuid (n + 6) \<rparr>,
        \<lparr> ai_appId = uuid (n + 10), ai_itemId = uuid (n + 9) \<rparr>,
        \<lparr> ai_appId = uuid (n + 13), ai_itemId = uuid (n + 12) \<rparr>]
       [\<lparr> w_id = uuid (n + 16), w_type = ''weather'', w_itemId = uuid (n + 15) \<rparr>]
       [\<lparr> li_id = uuid (n + 5), li_itemId = uuid (n + 3), li_sectionId = uuid (n + 2), li_width = 2, li_height = 1, li_x = 2, li_y = 0 \<rparr>,
        \<lparr> li_id = uuid (n + 8), li_itemId = uuid (n + 6), li_sectionId = uuid (n + 2), li_width = 2, li_height = 1, li_x = 4, li_y = 0 \<rparr>,
        \<lparr> li_id = uuid (n + 11), li_itemId = uuid (n + 9), li_sectionId = uuid (n + 2), li_width = 2, li_height = 1, li_x = 6, li_y = 0 \<rparr>,
        \<lparr> li_id = uuid (n + 14), li_itemId = uuid (n + 12), li_sectionId = uuid (n + 2), li_width = 2, li_height = 2, li_x = 6, li_y = 1 \<rparr>,
        \<lparr> li_id = uuid (n + 17), li_itemId = uuid (n + 15), li_sectionId = uuid (n + 2), li_width = 2, li_height = 1, li_x = 0, li_y = 0 \<rparr>])"
    unfolding mk_def
    by (subst addWidget_ok [OF _ refl e16 e17])
       (simp_all add: D Fb Fs Fi Fa Fp Fw Fy)
  have e19: "uuid (n + 19) = uuid (n + 18 + 1)" and e20: "uuid (n + 20) = uuid (n + 18 + 2)"
    by (rule arg_cong [where f = uuid], simp)+
  have a6: "addWidget uuid
      \<lparr> awp_boardId = uuid n, awp_sectionId = uuid (n + 2), awp_type = ''date'', awp_width = 2, awp_height = 1, awp_x = 8, awp_y = 0 \<rparr>
      (mk 18
       [\<lparr> i_id = uuid (n + 3), i_type = ItemApp, i_boardId = uuid n \<rparr>,
        \<lparr> i_id = uuid (n + 6), i_type = ItemApp, i_boardId = uuid n \<rparr>,
        \<lparr> i_id = uuid (n + 9), i_type = ItemApp, i_boardId = uuid n \<rparr>,
        \<lparr> i_id = uuid (n + 12), i_type = ItemApp, i_boardId = uuid n \<rparr>,
        \<lparr> i_id = uuid (n + 15), i_type = ItemWidget, i_boardId = uuid n \<rparr>]
       [\<lparr> a_id = uuid (n + 4), a_name = ''Contribute'', a_internalUrl = ''https://github.com/ajnart/homarr'', a_iconUrl = ''https://cdn.jsdelivr.net/gh/walkxcode/dashboard-icons@master/png/github.png'', a_integrationId = None \<rparr>,
        \<lparr> a_id = uuid (n + 7), a_name = ''Discord'', a_internalUrl = ''https://discord.com/invite/aCsmEV5RgA'', a_iconUrl = ''https://cdn.jsdelivr.net/gh/walkxcode/dashboard-icons@master/png/discord.png'', a_integrationId = None \<rparr>,
        \<lparr> a_id = uuid (n + 10), a_name = ''Donate'', a_internalUrl = ''https://ko-fi.com/ajnart'', a_iconUrl = ''https://cdn.jsdelivr.net/gh/walkxcode/dashboard-icons@master/png/ko-fi.png'', a_integrationId = None \<rparr>,
        \<lparr> a_id = uuid (n + 13), a_name = ''Documentation'', a_internalUrl = ''https://homarr.dev'', a_iconUrl = ''/imgs/logo/logo.png'', a_integrationId = None \<rparr>]
       [\<lparr> ai_appId = uuid (n + 4), ai_itemId = uuid (n + 3) \<rparr>,
        \<lparr> ai_appId = uuid (n + 7), ai_itemId = uuid (n + 6) \<rparr>,
        \<lparr> ai_appId = uuid (n + 10), ai_itemId = uuid (n + 9) \<rparr>,
        \<lparr> ai_appId = uuid (n + 13), ai_itemId = uuid (n + 12) \<rparr>]
       [\<lparr> w_id = uuid (n + 16), w_type = ''weather'', w_itemId = uuid (n + 15) \<rparr>]
       [\<lparr> li_id = uuid (n + 5), li_itemId = uuid (n + 3), li_sectionId = uuid (n + 2), li_width = 2, li_height = 1, li_x = 2, li_y = 0 \<rparr>,
        \<lparr> li_id = uuid (n + 8), li_itemId = uuid (n + 6), li_sectionId = uuid (n + 2), li_width = 2, li_height = 1, li_x = 4, li_y = 0 \<rparr>,
        \<lparr> li_id = uuid (n + 11), li_itemId = uuid (n + 9), li_sectionId = uuid (n + 2), li_width = 2, li_height = 1, li_x = 6, li_y = 0 \<rparr>,
        \<lparr> li_id = uuid (n + 14), li_itemId = uuid (n + 12), li_sectionId = uuid (n + 2), li_width = 2, li_height = 2, li_x = 6, li_y = 1 \<rparr>,
        \<lparr> li_id = uuid (n + 17), li_itemId = uuid (n + 15), li_sectionId = uuid (n + 2), li_width = 2, li_height = 1, li_x = 0, li_y = 0 \<rparr>])
    = (None,
       mk 21
       [\<lparr> i_id = uuid (n + 3), i_type = ItemApp, i_boardId = uuid n \<rparr>,
        \<lparr> i_id = uuid (n + 6), i_type = ItemApp, i_boardId = uuid n \<rparr>,
        \<lparr> i_id = uuid (n + 9), i_type = ItemApp, i_boardId = uuid n \<rparr>,
        \<lparr> i_id = uuid (n + 12), i_type = ItemApp, i_boardId = uuid n \<rparr>,
        \<lparr> i_id = uuid (n + 15), i_type = ItemWidget, i_boardId = uuid n \<rparr>,
        \<lparr> i_id = uuid (n + 18), i_type = ItemWidget, i_boardId = uuid n \<rparr>]
       [\<lparr> a_id = uuid (n + 4), a_name = ''Contribute'', a_internalUrl = ''https://github.com/ajnart/homarr'', a_iconUrl = ''https://cdn.jsdelivr.net/gh/walkxcode/dashboard-icons@master/png/github.png'', a_integrationId = None \<rparr>,
        \<lparr> a_id = uuid (n + 7), a_name = ''Discord'', a_internalUrl = ''https://discord.com/invite/aCsmEV5RgA'', a_iconUrl = ''https://cdn.jsdelivr.net/gh/walkxcode/dashboard-icons@master/png/discord.png'', a_integrationId = None \<rparr>,
        \<lparr> a_id = uuid (n + 10), a_name = ''Donate'', a_internalUrl = ''https://ko-fi.com/ajnart'', a_iconUrl = ''https://cdn.jsdelivr.net/gh/walkxcode/dashboard-icons@master/png/ko-fi.png'', a_integrationId = None \<rparr>,
        \<lparr> a_id = uuid (n + 13), a_name = ''Documentation'', a_internalUrl = ''https://homarr.dev'', a_iconUrl = ''/imgs/logo/logo.png'', a_integrationId = None \<rparr>]
       [\<lparr> ai_appId = uuid (n + 4), ai_itemId = uuid (n + 3) \<rparr>,
        \<lparr> ai_appId = uuid (n + 7), ai_itemId = uuid (n + 6) \<rparr>,
        \<lparr> ai_appId = uuid (n + 10), ai_itemId = uuid (n + 9) \<rparr>,
        \<lparr> ai_appId = uuid (n + 13), ai_itemId = uuid (n + 12) \<rparr>]
       [\<lparr> w_id = uuid (n + 16), w_type = ''weather'', w_itemId = uuid (n + 15) \<rparr>,
        \<lparr> w_id = uuid (n + 19), w_type = ''date'', w_itemId = uuid (n + 18) \<rparr>]
       [\<lparr> li_id = uuid (n + 5), li_itemId = uuid (n + 3), li_sectionId = uuid (n + 2), li_width = 2, li_height = 1, li_x = 2, li_y = 0 \<rparr>,
        \<lparr> li_id = uuid (n + 8), li_itemId = uuid (n + 6), li_sectionId = uuid (n + 2), li_width = 2, li_height = 1, li_x = 4, li_y = 0 \<rparr>,
        \<lparr> li_id = uuid (n + 11), li_itemId = uuid (n + 9), li_sectionId = uuid (n + 2), li_width = 2, li_height = 1, li_x = 6, li_y = 0 \<rparr>,
        \<lparr> li_id = uuid (n + 14), li_itemId = uuid (n + 12), li_sectionId = uuid (n + 2), li_width = 2, li_height = 2, li_x = 6, li_y = 1 \<rparr>,
        \<lparr> li_id = uuid (n + 17), li_itemId = uuid (n + 15), li_sectionId = uuid (n + 2), li_width = 2, li_height = 1, li_x = 0, li_y = 0 \<rparr>,
        \<lparr> li_id = uuid (n + 20), li_itemId = uuid (n + 18), li_sectionId = uuid (n + 2), li_width = 2, li_height = 1, li_x = 8, li_y = 0 \<rparr>])"
    unfolding mk_def
    by (subst addWidget_ok [OF _ refl e19 e20])
       (simp_all add: D Fb Fs Fi Fa Fp Fw Fy)
  have e22: "uuid (n + 22) = uuid (n + 21 + 1)" and e23: "uuid (n + 23) = uuid (n + 21 + 2)"
    by (rule arg_cong [where f = uuid], simp)+
  have a7: "addWidget uuid
      \<lparr> awp_boardId = uuid n, awp_sectionId = uuid (n + 2), awp_type = ''date'', awp_width = 2, awp_height = 1, awp_x = 8, awp_y = 1 \<rparr>
      (mk 21
       [\<lparr> i_id = uuid (n + 3), i_type = ItemApp, i_boardId = uuid n \<rparr>,
        \<lparr> i_id = uuid (n + 6), i_type = ItemApp, i_boardId = uuid n \<rparr>,
        \<lparr> i_id = uuid (n + 9), i_type = ItemApp, i_boardId = uuid n \<rparr>,
        \<lparr> i_id = uuid (n + 12), i_type = ItemApp, i_boardId = uuid n \<rparr>,
        \<lparr> i_id = uuid (n + 15), i_type = ItemWidget, i_boardId = uuid n \<rparr>,
        \<lparr> i_id = uuid (n + 18), i_type = ItemWidget, i_boardId = uuid n \<rparr>]
       [\<lparr> a_id = uuid (n + 4), a_name = ''Contribute'', a_internalUrl = ''https://github.com/ajnart/homarr'', a_iconUrl = ''https://cdn.jsdelivr.net/gh/walkxcode/dashboard-icons@master/png/github.png'', a_integrationId = None \<rparr>,
        \<lparr> a_id = uuid (n + 7), a_name = ''Discord'', a_internalUrl = ''https://discord.com/invite/aCsmEV5RgA'', a_iconUrl = ''https://cdn.jsdelivr.net/gh/walkxcode/dashboard-icons@master/png/discord.png'', a_integrationId = None \<rparr>,
        \<lparr> a_id = uuid (n + 10), a_name = ''Donate'', a_internalUrl = ''https://ko-fi.com/ajnart'', a_iconUrl = ''https://cdn.jsdelivr.net/gh/walkxcode/dashboard-icons@master/png/ko-fi.png'', a_integrationId = None \<rparr>,
        \<lparr> a_id = uuid (n + 13), a_name = ''Documentation'', a_internalUrl = ''https://homarr.dev'', a_iconUrl = ''/imgs/logo/logo.png'', a_integrationId = None \<rparr>]
       [\<lparr> ai_appId = uuid (n + 4), ai_itemId = uuid (n + 3) \<rparr>,
        \<lparr> ai_appId = uuid (n + 7), ai_itemId = uuid (n + 6) \<rparr>,
        \<lparr> ai_appId = uuid (n + 10), ai_itemId = uuid (n + 9) \<rparr>,
        \<lparr> ai_appId = uuid (n + 13), ai_itemId = uuid (n + 12) \<rparr>]
       [\<lparr> w_id = uuid (n + 16), w_type = ''weather'', w_itemId = uuid (n + 15) \<rparr>,
        \<lparr> w_id = uuid (n + 19), w_type = ''date'', w_itemId = uuid (n + 18) \<rparr>]
       [\<lparr> li_id = uuid (n + 5), li_itemId = uuid (n + 3), li_sectionId = uuid (n + 2), li_width = 2, li_height = 1, li_x = 2, li_y = 0 \<rparr>,
        \<lparr> li_id = uuid (n + 8), li_itemId = uuid (n + 6), li_sectionId = uuid (n + 2), li_width = 2, li_height = 1, li_x = 4, li_y = 0 \<rparr>,
        \<lparr> li_id = uuid (n + 11), li_itemId = uuid (n + 9), li_sectionId = uuid (n + 2), li_width = 2, li_height = 1, li_x = 6, li_y = 0 \<rparr>,
        \<lparr> li_id = uuid (n + 14), li_itemId = uuid (n + 12), li_sectionId = uuid (n + 2), li_width = 2, li_height = 2, li_x = 6, li_y = 1 \<rparr>,
        \<lparr> li_id = uuid (n + 17), li_itemId = uuid (n + 15), li_sectionId = uuid (n + 2), li_width = 2, li_height = 1, li_x = 0, li_y = 0 \<rparr>,
        \<lparr> li_id = uuid (n + 20), li_itemId = uuid (n + 18), li_sectionId = uuid (n + 2), li_width = 2, li_height = 1, li_x = 8, li_y = 0 \<rparr>])
    = (None,
       mk 24
       [\<lparr> i_id = uuid (n + 3), i_type = ItemApp, i_boardId = uuid n \<rparr>,
        \<lparr> i_id = uuid (n + 6), i_type = ItemApp, i_boardId = uuid n \<rparr>,
        \<lparr> i_id = uuid (n + 9), i_type = ItemApp, i_boardId = uuid n \<rparr>,
        \<lparr> i_id = uuid (n + 12), i_type = ItemApp, i_boardId = uuid n \<rparr>,
        \<lparr> i_id = uuid (n + 15), i_type = ItemWidget, i_boardId = uuid n \<rparr>,
        \<lparr> i_id = uuid (n + 18), i_type = ItemWidget, i_boardId = uuid n \<rparr>,
        \<lparr> i_id = uuid (n + 21), i_type = ItemWidget, i_boardId = uuid n \<rparr>]
       [\<lparr> a_id = uuid (n + 4), a_name = ''Contribute'', a_internalUrl = ''https://github.com/ajnart/homarr'', a_iconUrl = ''https://cdn.jsdelivr.net/gh/walkxcode/dashboard-icons@master/png/github.png'', a_integrationId = None \<rparr>,
        \<lparr> a_id = uuid (n + 7), a_name = ''Discord'', a_internalUrl = ''https://discord.com/invite/aCsmEV5RgA'', a_iconUrl = ''https://cdn.jsdelivr.net/gh/walkxcode/dashboard-icons@master/png/discord.png'', a_integrationId = None \<rparr>,
        \<lparr> a_id = uuid (n + 10), a_name = ''Donate'', a_internalUrl = ''https://ko-fi.com/ajnart'', a_iconUrl = ''https://cdn.jsdelivr.net/gh/walkxcode/dashboard-icons@master/png/ko-fi.png'', a_integrationId = None \<rparr>,
        \<lparr> a_id = uuid (n + 13), a_name = ''Documentation'', a_internalUrl = ''https://homarr.dev'', a_iconUrl = ''/imgs/logo/logo.png'', a_integrationId = None \<rparr>]
       [\<lparr> ai_appId = uuid (n + 4), ai_itemId = uuid (n + 3) \<rparr>,
        \<lparr> ai_appId = uuid (n + 7), ai_itemId = uuid (n + 6) \<rparr>,
        \<lparr> ai_appId = uuid (n + 10), ai_itemId = uuid (n + 9) \<rparr>,
        \<lparr> ai_appId = uuid (n + 13), ai_itemId = uuid (n + 12) \<rparr>]
       [\<lparr> w_id = uuid (n + 16), w_type = ''weather'', w_itemId = uuid (n + 15) \<rparr>,
        \<lparr> w_id = uuid (n + 19), w_type = ''date'', w_itemId = uuid (n + 18) \<rparr>,
        \<lparr> w_id = uuid (n + 22), w_type = ''date'', w_itemId = uuid (n + 21) \<rparr>]
       [\<lparr> li_id = uuid (n + 5), li_itemId = uuid (n + 3), li_sectionId = uuid (n + 2), li_width = 2, li_height = 1, li_x = 2, li_y = 0 \<rparr>,
        \<lparr> li_id = uuid (n + 8), li_itemId = uuid (n + 6), li_sectionId = uuid (n + 2), li_width = 2, li_height = 1, li_x = 4, li_y = 0 \<rparr>,
        \<lparr> li_id = uuid (n + 11), li_itemId = uuid (n + 9), li_sectionId = uuid (n + 2), li_width = 2, li_height = 1, li_x = 6, li_y = 0 \<rparr>,
        \<lparr> li_id = uuid (n + 14), li_itemId = uuid (n + 12), li_sectionId = uuid (n + 2), li_width = 2, li_height = 2, li_x = 6, li_y = 1 \<rparr>,
        \<lparr> li_id = uuid (n + 17), li_itemId = uuid (n + 15), li_sectionId = uuid (n + 2), li_width = 2, li_height = 1, li_x = 0, li_y = 0 \<rparr>,
        \<lparr> li_id = uuid (n + 20), li_itemId = uuid (n + 18), li_sectionId = uuid (n + 2), li_width = 2, li_height = 1, li_x = 8, li_y = 0 \<rparr>,
        \<lparr> li_id = uuid (n + 23), li_itemId = uuid (n + 21), li_sectionId = uuid (n + 2), li_width = 2, li_height = 1, li_x = 8, li_y = 1 \<rparr>])"
    unfolding mk_def
    by (subst addWidget_ok [OF _ refl e22 e23])
       (simp_all add: D Fb Fs Fi Fa Fp Fw Fy)
  have e25: "uuid (n + 25) = uuid (n + 24 + 1)" and e26: "uuid (n + 26) = uuid (n + 24 + 2)"
    by (rule arg_cong [where f = uuid], simp)+
  have a8: "addWidget uuid
      \<lparr> awp_boardId = uuid n, awp_sectionId = uuid (n + 2), awp_type = ''notebook'', awp_width = 6, awp_height = 3, awp_x = 0, awp_y = 1 \<rparr>
      (mk 24
       [\<lparr> i_id = uuid (n + 3), i_type = ItemApp, i_boardId = uuid n \<rparr>,
        \<lparr> i_id = uuid (n + 6), i_type = ItemApp, i_boardId = uuid n \<rparr>,
        \<lparr> i_id = uuid (n + 9), i_type = ItemApp, i_boardId = uuid n \<rparr>,
        \<lparr> i_id = uuid (n + 12), i_type = ItemApp, i_boardId = uuid n \<rparr>,
        \<lparr> i_id = uuid (n + 15), i_type = ItemWidget, i_boardId = uuid n \<rparr>,
        \<lparr> i_id = uuid (n + 18), i_type = ItemWidget, i_boardId = uuid n \<rparr>,
        \<lparr> i_id = uuid (n + 21), i_type = ItemWidget, i_boardId = uuid n \<rparr>]
       [\<lparr> a_id = uuid (n + 4), a_name = ''Contribute'', a_internalUrl = ''https://github.com/ajnart/homarr'', a_iconUrl = ''https://cdn.jsdelivr.net/gh/walkxcode/dashboard-icons@master/png/github.png'', a_integrationId = None \<rparr>,
        \<lparr> a_id = uuid (n + 7), a_name = ''Discord'', a_internalUrl = ''https://discord.com/invite/aCsmEV5RgA'', a_iconUrl = ''https://cdn.jsdelivr.net/gh/walkxcode/dashboard-icons@master/png/discord.png'', a_integrationId = None \<rparr>,
        \<lparr> a_id = uuid (n + 10), a_name = ''Donate'', a_internalUrl = ''https://ko-fi.com/ajnart'', a_iconUrl = ''https://cdn.jsdelivr.net/gh/walkxcode/dashboard-icons@master/png/ko-fi.png'', a_integrationId = None \<rparr>,
        \<lparr> a_id = uuid (n + 13), a_name = ''Documentation'', a_internalUrl = ''https://homarr.dev'', a_iconUrl = ''/imgs/logo/logo.png'', a_integrationId = None \<rparr>]
       [\<lparr> ai_appId = uuid (n + 4), ai_itemId = uuid (n + 3) \<rparr>,
        \<lparr> ai_appId = uuid (n + 7), ai_itemId = uuid (n + 6) \<rparr>,
        \<lparr> ai_appId = uuid (n + 10), ai_itemId = uuid (n + 9) \<rparr>,
        \<lparr> ai_appId = uuid (n + 13), ai_itemId = uuid (n + 12) \<rparr>]
       [\<lparr> w_id = uuid (n + 16), w_type = ''weather'', w_itemId = uuid (n + 15) \<rparr>,
        \<lparr> w_id = uuid (n + 19), w_type = ''date'', w_itemId = uuid (n + 18) \<rparr>,
        \<lparr> w_id = uuid (n + 22), w_type = ''date'', w_itemId = uuid (n + 21) \<rparr>]
       [\<lparr> li_id = uuid (n + 5), li_itemId = uuid (n + 3), li_sectionId = uuid (n + 2), li_width = 2, li_height = 1, li_x = 2, li_y = 0 \<rparr>,
        \<lparr> li_id = uuid (n + 8), li_itemId = uuid (n + 6), li_sectionId = uuid (n + 2), li_width = 2, li_height = 1, li_x = 4, li_y = 0 \<rparr>,
        \<lparr> li_id = uuid (n + 11), li_itemId = uuid (n + 9), li_sectionId = uuid (n + 2), li_width = 2, li_height = 1, li_x = 6, li_y = 0 \<rparr>,
        \<lparr> li_id = uuid (n + 14), li_itemId = uuid (n + 12), li_sectionId = uuid (n + 2), li_width = 2, li_height = 2, li_x = 6, li_y = 1 \<rparr>,
        \<lparr> li_id = uuid (n + 17), li_itemId = uuid (n + 15), li_sectionId = uuid (n + 2), li_width = 2, li_height = 1, li_x = 0, li_y = 0 \<rparr>,
        \<lparr> li_id = uuid (n + 20), li_itemId = uuid (n + 18), li_sectionId = uuid (n + 2), li_width = 2, li_height = 1, li_x = 8, li_y = 0 \<rparr>,
        \<lparr> li_id = uuid (n + 23), li_itemId = uuid (n + 21), li_sectionId = uuid (n + 2), li_width = 2, li_height = 1, li_x = 8, li_y = 1 \<rparr>])
    = (None,
       mk 27
       [\<lparr> i_id = uuid (n + 3), i_type = ItemApp, i_boardId = uuid n \<rparr>,
        \<lparr> i_id = uuid (n + 6), i_type = ItemApp, i_boardId = uuid n \<rparr>,
        \<lparr> i_id = uuid (n + 9), i_type = ItemApp, i_boardId = uuid n \<rparr>,
        \<lparr> i_id = uuid (n + 12), i_type = ItemApp, i_boardId = uuid n \<rparr>,
        \<lparr> i_id = uuid (n + 15), i_type = ItemWidget, i_boardId = uuid n \<rparr>,
        \<lparr> i_id = uuid (n + 18), i_type = ItemWidget, i_boardId = uuid n \<rparr>,
        \<lparr> i_id = uuid (n + 21), i_type = ItemWidget, i_boardId = uuid n \<rparr>,
        \<lparr> i_id = uuid (n + 24), i_type = ItemWidget, i_boardId = uuid n \<rparr>]
       [\<lparr> a_id = uuid (n + 4), a_name = ''Contribute'', a_internalUrl = ''https://github.com/ajnart/homarr'', a_iconUrl = ''https://cdn.jsdelivr.net/gh/walkxcode/dashboard-icons@master/png/github.png'', a_integrationId = None \<rparr>,
        \<lparr> a_id = uuid (n + 7), a_name = ''Discord'', a_internalUrl = ''https://discord.com/invite/aCsmEV5RgA'', a_iconUrl = ''https://cdn.jsdelivr.net/gh/walkxcode/dashboard-icons@master/png/discord.png'', a_integrationId = None \<rparr>,
        \<lparr> a_id = uuid (n + 10), a_name = ''Donate'', a_internalUrl = ''https://ko-fi.com/ajnart'', a_iconUrl = ''https://cdn.jsdelivr.net/gh/walkxcode/dashboard-icons@master/png/ko-fi.png'', a_integrationId = None \<rparr>,
        \<lparr> a_id = uuid (n + 13), a_name = ''Documentation'', a_internalUrl = ''https://homarr.dev'', a_iconUrl = ''/imgs/logo/logo.png'', a_integrationId = None \<rparr>]
       [\<lparr> ai_appId = uuid (n + 4), ai_itemId = uuid (n + 3) \<rparr>,
        \<lparr> ai_appId = uuid (n + 7), ai_itemId = uuid (n + 6) \<rparr>,
        \<lparr> ai_appId = uuid (n + 10), ai_itemId = uuid (n + 9) \<rparr>,
        \<lparr> ai_appId = uuid (n + 13), ai_itemId = uuid (n + 12) \<rparr>]
       [\<lparr> w_id = uuid (n + 16), w_type = ''weather'', w_itemId = uuid (n + 15) \<rparr>,
        \<lparr> w_id = uuid (n + 19), w_type = ''date'', w_itemId = uuid (n + 18) \<rparr>,
        \<lparr> w_id = uuid (n + 22), w_type = ''date'', w_itemId = uuid (n + 21) \<rparr>,
        \<lparr> w_id = uuid (n + 25), w_type = ''notebook'', w_itemId = uuid (n + 24) \<rparr>]
       [\<lparr> li_id = uuid (n + 5), li_itemId = uuid (n + 3), li_sectionId = uuid (n + 2), li_width = 2, li_height = 1, li_x = 2, li_y = 0 \<rparr>,
        \<lparr> li_id = uuid (n + 8), li_itemId = uuid (n + 6), li_sectionId = uuid (n + 2), li_width = 2, li_height = 1, li_x = 4, li_y = 0 \<rparr>,
        \<lparr> li_id = uuid (n + 11), li_itemId = uuid (n + 9), li_sectionId = uuid (n + 2), li_width = 2, li_height = 1, li_x = 6, li_y = 0 \<rparr>,
        \<lparr> li_id = uuid (n + 14), li_itemId = uuid (n + 12), li_sectionId = uuid (n + 2), li_width = 2, li_height = 2, li_x = 6, li_y = 1 \<rparr>,
        \<lparr> li_id = uuid (n + 17), li_itemId = uuid (n + 15), li_sectionId = uuid (n + 2), li_width = 2, li_height = 1, li_x = 0, li_y = 0 \<rparr>,
        \<lparr> li_id = uuid (n + 20), li_itemId = uuid (n + 18), li_sectionId = uuid (n + 2), li_width = 2, li_height = 1, li_x = 8, li_y = 0 \<rparr>,
        \<lparr> li_id = uuid (n + 23), li_itemId = uuid (n + 21), li_sectionId = uuid (n + 2), li_width = 2, li_height = 1, li_x = 8, li_y = 1 \<rparr>,
        \<lparr> li_id = uuid (n + 26), li_itemId = uuid (n + 24), li_sectionId = uuid (n + 2), li_width = 6, li_height = 3, li_x = 0, li_y = 1 \<rparr>])"
    unfolding mk_def
    by (subst addWidget_ok [OF _ refl e25 e26])
       (simp_all add: D Fb Fs Fi Fa Fp Fw Fy)
  have run: "exampleBoard uuid boardDefaults boardName userId st =
    (None,
     mk 27
       [\<lparr> i_id = uuid (n + 3), i_type = ItemApp, i_boardId = uuid n \<rparr>,
        \<lparr> i_id = uuid (n + 6), i_type = ItemApp, i_boardId = uuid n \<rparr>,
        \<lparr> i_id = uuid (n + 9), i_type = ItemApp, i_boardId = uuid n \<rparr>,
        \<lparr> i_id = uuid (n + 12), i_type = ItemApp, i_boardId = uuid n \<rparr>,
        \<lparr> i_id = uuid (n + 15), i_type = ItemWidget, i_boardId = uuid n \<rparr>,
        \<lparr> i_id = uuid (n + 18), i_type = ItemWidget, i_boardId = uuid n \<rparr>,
        \<lparr> i_id = uuid (n + 21), i_type = ItemWidget, i_boardId = uuid n \<rparr>,
        \<lparr> i_id = uuid (n + 24), i_type = ItemWidget, i_boardId = uuid n \<rparr>]
       [\<lparr> a_id = uuid (n + 4), a_name = ''Contribute'', a_internalUrl = ''https://github.com/ajnart/homarr'', a_iconUrl = ''https://cdn.jsdelivr.net/gh/walkxcode/dashboard-icons@master/png/github.png'', a_integrationId = None \<rparr>,
        \<lparr> a_id = uuid (n + 7), a_name = ''Discord'', a_internalUrl = ''https://discord.com/invite/aCsmEV5RgA'', a_iconUrl = ''https://cdn.jsdelivr.net/gh/walkxcode/dashboard-icons@master/png/discord.png'', a_integrationId = None \<rparr>,
        \<lparr> a_id = uuid (n + 10), a_name = ''Donate'', a_internalUrl = ''https://ko-fi.com/ajnart'', a_iconUrl = ''https://cdn.jsdelivr.net/gh/walkxcode/dashboard-icons@master/png/ko-fi.png'', a_integrationId = None \<rparr>,
        \<lparr> a_id = uuid (n + 13), a_name = ''Documentation'', a_internalUrl = ''https://homarr.dev'', a_iconUrl = ''/imgs/logo/logo.png'', a_integrationId = None \<rparr>]
       [\<lparr> ai_appId = uuid (n + 4), ai_itemId = uuid (n + 3) \<rparr>,
        \<lparr> ai_appId = uuid (n + 7), ai_itemId = uuid (n + 6) \<rparr>,
        \<lparr> ai_appId = uuid (n + 10), ai_itemId = uuid (n + 9) \<rparr>,
        \<lparr> ai_appId = uuid (n + 13), ai_itemId = uuid (n + 12) \<rparr>]
       [\<lparr> w_id = uuid (n + 16), w_type = ''weather'', w_itemId = uuid (n + 15) \<rparr>,
        \<lparr> w_id = uuid (n + 19), w_type = ''date'', w_itemId = uuid (n + 18) \<rparr>,
        \<lparr> w_id = uuid (n + 22), w_type = ''date'', w_itemId = uuid (n + 21) \<rparr>,
        \<lparr> w_id = uuid (n + 25), w_type = ''notebook'', w_itemId = uuid (n + 24) \<rparr>]
       [\<lparr> li_id = uuid (n + 5), li_itemId = uuid (n + 3), li_sectionId = uuid (n + 2), li_width = 2, li_height = 1, li_x = 2, li_y = 0 \<rparr>,
        \<lparr> li_id = uuid (n + 8), li_itemId = uuid (n + 6), li_sectionId = uuid (n + 2), li_width = 2, li_height = 1, li_x = 4, li_y = 0 \<rparr>,
        \<lparr> li_id = uuid (n + 11), li_itemId = uuid (n + 9), li_sectionId = uuid (n + 2), li_width = 2, li_height = 1, li_x = 6, li_y = 0 \<rparr>,
        \<lparr> li_id = uuid (n + 14), li_itemId = uuid (n + 12), li_sectionId = uuid (n + 2), li_width = 2, li_height = 2, li_x = 6, li_y = 1 \<rparr>,
        \<lparr> li_id = uuid (n + 17), li_itemId = uuid (n + 15), li_sectionId = uuid (n + 2), li_width = 2, li_height = 1, li_x = 0, li_y = 0 \<rparr>,
        \<lparr> li_id = uuid (n + 20), li_itemId = uuid (n + 18), li_sectionId = uuid (n + 2), li_width = 2, li_height = 1, li_x = 8, li_y = 0 \<rparr>,
        \<lparr> li_id = uuid (n + 23), li_itemId = uuid (n + 21), li_sectionId = uuid (n + 2), li_width = 2, li_height = 1, li_x = 8, li_y = 1 \<rparr>,
        \<lparr> li_id = uuid (n + 26), li_itemId = uuid (n + 24), li_sectionId = uuid (n + 2), li_width = 6, li_height = 3, li_x = 0, li_y = 1 \<rparr>])"
    unfolding head by (simp only: inOrder.simps a1 a2 a3 a4 a5 a6 a7 a8 prod.case option.case)
  show ?thesis
    unfolding run by (simp add: mk_def n_def db_def numeral_eq_Suc)
qed

theorem exampleBoard_inserts_witness:
  "''demo'' \<notin> set (map b_name (boards (st_db demo_state)))
   \<and> ''u1'' \<in> set (map u_id (users (st_db demo_state)))
   \<and> distinct (map demo_uuid [st_drawn demo_state ..< st_drawn demo_state + 27])
   \<and> set (map demo_uuid [st_drawn demo_state ..< st_drawn demo_state + 27])
        \<inter> set (usedIds (st_db demo_state)) = {}
   \<and> (\<exists>st'. exampleBoard demo_uuid demo_board ''demo'' ''u1'' demo_state = (None, st')
        \<and> st_drawn st' = 27
        \<and> map b_name (boards (st_db st')) = [''home'', ''lab'', ''demo'']
        \<and> map l_name (layouts (st_db st')) = [''default'', ''mobile'', ''default'']
        \<and> map s_id (sections (st_db st')) = [''s2'', ''s1'', ''s3'', ''uuid-2'']
        \<and> map i_type (items (st_db st'))
            = [ItemApp, ItemWidget,
               ItemApp, ItemApp, ItemApp, ItemApp, ItemWidget, ItemWidget, ItemWidget, ItemWidget]
        \<and> map a_name (apps (st_db st'))
            = [''Plex'', ''Contribute'', ''Discord'', ''Donate'', ''Documentation'']
        \<and> map w_type (widgets (st_db st'))
            = [''weather'', ''weather'', ''date'', ''date'', ''notebook'']
        \<and> map li_sectionId (layoutItems (st_db st'))
            = [''s1'', ''s2'', ''uuid-2'', ''uuid-2'', ''uuid-2'', ''uuid-2'', ''uuid-2'',
               ''uuid-2'', ''uuid-2'', ''uuid-2''])"
proof -
  have name: "''demo'' \<notin> set (map b_name (boards (st_db demo_state)))"
    by (simp add: demo_state_def demo_db_def demo_board_def)
  have user: "''u1'' \<in> set (map u_id (users (st_db demo_state)))"
    by (simp add: demo_state_def demo_db_def)
  have ids: "map demo_uuid [st_drawn demo_state ..< st_drawn demo_state + 27]
      = [''uuid-0'', ''uuid-1'', ''uuid-2'', ''uuid-3'', ''uuid-4'', ''uuid-5'', ''uuid-6'',
         ''uuid-7'', ''uuid-8'', ''uuid-9'', ''uuid-10'', ''uuid-11'', ''uuid-12'', ''uuid-13'',
         ''uuid-14'', ''uuid-15'', ''uuid-16'', ''uuid-17'', ''uuid-18'', ''uuid-19'',
         ''uuid-20'', ''uuid-21'', ''uuid-22'', ''uuid-23'', ''uuid-24'', ''uuid-25'',
         ''uuid-26'']"
    by (simp add: demo_state_def demo_uuid_def showNat.simps upt_rec)
  have dist: "distinct (map demo_uuid [st_drawn demo_state ..< st_drawn demo_state + 27])"
    unfolding ids by simp
  have fresh: "set (map demo_uuid [st_drawn demo_state ..< st_drawn demo_state + 27])
        \<inter> set (usedIds (st_db demo_state)) = {}"
    unfolding ids by (simp add: usedIds_def demo_state_def demo_db_def demo_board_def)
  have ex: "\<exists>st'. exampleBoard demo_uuid demo_board ''demo'' ''u1'' demo_state = (None, st')
        \<and> st_drawn st' = 27
        \<and> map b_name (boards (st_db st')) = [''home'', ''lab'', ''demo'']
        \<and> map l_name (layouts (st_db st')) = [''default'', ''mobile'', ''default'']
        \<and> map s_id (sections (st_db st')) = [''s2'', ''s1'', ''s3'', ''uuid-2'']
        \<and> map i_type (items (st_db st'))
            = [ItemApp, ItemWidget,
               ItemApp, ItemApp, ItemApp, ItemApp, ItemWidget, ItemWidget, ItemWidget, ItemWidget]
        \<and> map a_name (apps (st_db st'))
            = [''Plex'', ''Contribute'', ''Discord'', ''Donate'', ''Documentation'']
        \<and> map w_type (widgets (st_db st'))
            = [''weather'', ''weather'', ''date'', ''date'', ''notebook'']
        \<and> map li_sectionId (layoutItems (st_db st'))
            = [''s1'', ''s2'', ''uuid-2'', ''uuid-2'', ''uuid-2'', ''uuid-2'', ''uuid-2'',
               ''uuid-2'', ''uuid-2'', ''uuid-2'']"
    using exampleBoard_inserts [OF name user dist fresh, of demo_board]
    by (elim exE conjE)
       (simp add: demo_state_def demo_db_def demo_board_def demo_uuid_def showNat.simps
          numeral_eq_Suc)
  from name user dist fresh ex show ?thesis by (intro conjI)
qed

theorem exampleBoard_inserts_counterexample:
  "''home'' \<in> set (map b_name (boards (st_db demo_state)))
   \<and> exampleBoard demo_uuid demo_board ''home'' ''u1'' demo_state
       = (Some ConstraintError, \<lparr> st_drawn = 3, st_db = demo_db \<rparr>)
   \<and> ''u9'' \<notin> set (map u_id (users (st_db demo_state)))
   \<and> exampleBoard demo_uuid demo_board ''demo'' ''u9'' demo_state
       = (Some ConstraintError, \<lparr> st_drawn = 3, st_db = demo_db \<rparr>)
   \<and> fst (exampleBoard (\<lambda>n. ''x'') demo_board ''demo'' ''u1'' demo_state) = Some ConstraintError
   \<and> map b_name (boards (st_db (snd (exampleBoard (\<lambda>n. ''x'') demo_board ''demo'' ''u1''
                                          demo_state))))
       = [''home'', ''lab'', ''demo'']
   \<and> map a_name (apps (st_db (snd (exampleBoard (\<lambda>n. ''x'') demo_board ''demo'' ''u1''
                                        demo_state))))
       = [''Plex'', ''Contribute'']
   \<and> widgets (st_db (snd (exampleBoard (\<lambda>n. ''x'') demo_board ''demo'' ''u1'' demo_state)))
       = widgets demo_db"
  by (simp add: exampleBoard_def addApp_def Let_def randomUUID_def dbInsert_def insertBoard_def
      insertLayout_def insertSection_def insertItem_def insertApp_def insertAppItem_def
      insertLayoutItem_def demo_state_def demo_db_def demo_board_def)

text \<open>
  C9. For an existing board, \<open>updateCustomization\<close> returns the row as it was read before
  the update: the values it returns are those stored before, while the row now stored
  under that name carries the customization just written.
\<close>

theorem updateCustomization_returns_row_read:
  assumes "find (\<lambda>b. b_name b = uc_boardName input) (boards db) = Some dbBoard"
  shows "\<exists>db'. updateCustomization db input = Inr (db', dbBoard)
           \<and> find (\<lambda>b. b_name b = uc_boardName input) (boards db')
               = Some (setCustomization (uc_customization input) dbBoard)"
proof -
  let ?f = "\<lambda>b. if b_id b = b_id dbBoard then setCustomization (uc_customization input) b else b"
  have "\<And>y. (b_name (?f y) = uc_boardName input) = (b_name y = uc_boardName input)"
    by (simp add: setCustomization_def)
  from find_map_same [OF assms, of ?f, OF this]
  have "find (\<lambda>b. b_name b = uc_boardName input) (map ?f (boards db)) = Some (?f dbBoard)" .
  then show ?thesis using assms by (simp add: updateCustomization_def)
qed

theorem updateCustomization_returns_row_read_witness:
  "find (\<lambda>b. b_name b = uc_boardName demo_update) (boards demo_db) = Some demo_board
   \<and> (\<exists>db'. updateCustomization demo_db demo_update = Inr (db', demo_board)
           \<and> find (\<lambda>b. b_name b = uc_boardName demo_update) (boards db')
               = Some (setCustomization demo_customization demo_board))
   \<and> b_primaryColor demo_board = ''red''
   \<and> b_primaryColor (setCustomization demo_customization demo_board) = ''blue''"
proof -
  have found: "find (\<lambda>b. b_name b = uc_boardName demo_update) (boards demo_db) = Some demo_board"
    by (simp add: demo_update_def demo_db_def demo_board_def)
  show ?thesis
    using found updateCustomization_returns_row_read [OF found]
    by (simp add: demo_update_def setCustomization_def demo_customization_def demo_board_def)
qed

text \<open>
  C10 (amended). When the named config has a wrapper, every app \<open>addAppsForContainers\<close>
  creates is the default app generated for one wrapper of the config whose position is
  minimal, with the container's name and address put in. When the config has no wrapper
  and at least one container is given, the procedure throws and writes nothing.
\<close>

theorem addAppsForContainers_lowest_wrapper:
  assumes "configExists (aa_boardName input)"
  shows "(cf_wrappers (getConfig (aa_boardName input)) \<noteq> [] \<longrightarrow>
           (\<exists>w newConfig.
               w \<in> set (cf_wrappers (getConfig (aa_boardName input)))
             \<and> (\<forall>w' \<in> set (cf_wrappers (getConfig (aa_boardName input))).
                   wr_position w \<le> wr_position w')
             \<and> addAppsForContainers configExists getConfig generateDefaultApp truthy numberToString
                 input
                 = Inr (''data/configs/'' @ aa_boardName input @ ''.json'', newConfig)
             \<and> cf_apps newConfig
                 = cf_apps (getConfig (aa_boardName input)) @
                   map (\<lambda>ic. (generateDefaultApp (fst ic) (wr_id w))
                         \<lparr> ca_name := ct_name (snd ic), ca_url := containerAddress truthy numberToString (snd ic),
                           ca_behaviour := (ca_behaviour (generateDefaultApp (fst ic) (wr_id w)))
                              \<lparr> externalUrl := containerAddress truthy numberToString (snd ic) \<rparr> \<rparr>)
                     (zip [0 ..< length (aa_apps input)] (aa_apps input))))
       \<and> (cf_wrappers (getConfig (aa_boardName input)) = [] \<and> aa_apps input \<noteq> [] \<longrightarrow>
            addAppsForContainers configExists getConfig generateDefaultApp truthy numberToString
                 input = Inl TypeError)"
proof (intro conjI impI)
  assume ne: "cf_wrappers (getConfig (aa_boardName input)) \<noteq> []"
  then obtain w ws where s: "sort_key wr_position (cf_wrappers (getConfig (aa_boardName input))) = w # ws"
    by (cases "sort_key wr_position (cf_wrappers (getConfig (aa_boardName input)))")
       (simp_all add: sort_key_Nil_iff)
  from sort_key_hd_min [OF s] addAppsForContainers_wrapper [where configExists = configExists and getConfig = getConfig
      and input = input and gen = generateDefaultApp and truthy = truthy
      and str = numberToString, OF assms s]
  show "\<exists>w newConfig.
               w \<in> set (cf_wrappers (getConfig (aa_boardName input)))
             \<and> (\<forall>w' \<in> set (cf_wrappers (getConfig (aa_boardName input))).
                   wr_position w \<le> wr_position w')
             \<and> addAppsForContainers configExists getConfig generateDefaultApp truthy numberToString
                 input
                 = Inr (''data/configs/'' @ aa_boardName input @ ''.json'', newConfig)
             \<and> cf_apps newConfig
                 = cf_apps (getConfig (aa_boardName input)) @
                   map (\<lambda>ic. (generateDefaultApp (fst ic) (wr_id w))
                         \<lparr> ca_name := ct_name (snd ic), ca_url := containerAddress truthy numberToString (snd ic),
                           ca_behaviour := (ca_behaviour (generateDefaultApp (fst ic) (wr_id w)))
                              \<lparr> externalUrl := containerAddress truthy numberToString (snd ic) \<rparr> \<rparr>)
                     (zip [0 ..< length (aa_apps input)] (aa_apps input))"
    by (intro exI [where x = w]) simp
next
  assume "cf_wrappers (getConfig (aa_boardName input)) = [] \<and> aa_apps input \<noteq> []"
  then show "addAppsForContainers configExists getConfig generateDefaultApp truthy numberToString
                 input = Inl TypeError"
    using addAppsForContainers_no_wrapper [where configExists = configExists
        and getConfig = getConfig and input = input and gen = generateDefaultApp and truthy = truthy
      and str = numberToString, OF assms] by simp
qed

theorem addAppsForContainers_lowest_wrapper_witness:
  "cf_wrappers demo_config \<noteq> []
   \<and> (\<exists>w newConfig.
               w \<in> set (cf_wrappers demo_config)
             \<and> (\<forall>w' \<in> set (cf_wrappers demo_config). wr_position w \<le> wr_position w')
             \<and> addAppsForContainers (\<lambda>n. n = ''home'') (\<lambda>n. demo_config) demo_defaultApp
                  (\<lambda>p. p \<noteq> 0) showInt demo_containers
                 = Inr (''data/configs/'' @ aa_boardName demo_containers @ ''.json'', newConfig)
             \<and> cf_apps newConfig
                 = cf_apps demo_config @
                   map (\<lambda>ic. (demo_defaultApp (fst ic) (wr_id w))
                         \<lparr> ca_name := ct_name (snd ic),
                           ca_url := containerAddress (\<lambda>p. p \<noteq> 0) showInt (snd ic),
                           ca_behaviour := (ca_behaviour (demo_defaultApp (fst ic) (wr_id w)))
                              \<lparr> externalUrl := containerAddress (\<lambda>p. p \<noteq> 0) showInt (snd ic) \<rparr> \<rparr>)
                     (zip [0 ..< length (aa_apps demo_containers)] (aa_apps demo_containers)))
   \<and> map ca_other (cf_apps demo_written) = [(0, ''wrapA''), (1, ''wrapA''), (2, ''wrapA'')]
   \<and> addAppsForContainers (\<lambda>n. n = ''home'') (\<lambda>n. demo_config \<lparr> cf_wrappers := [] \<rparr>)
        demo_defaultApp (\<lambda>p. p \<noteq> 0) showInt demo_containers = Inl TypeError"
proof -
  have e: "(\<lambda>n. n = ''home'') (aa_boardName demo_containers)"
    by (simp add: demo_containers_def)
  have u: "map ca_other (cf_apps demo_written) = [(0, ''wrapA''), (1, ''wrapA''), (2, ''wrapA'')]"
    by (simp add: demo_written_def)
  have c: "aa_apps demo_containers \<noteq> []" by (simp add: demo_containers_def)
  from addAppsForContainers_lowest_wrapper [where configExists = "\<lambda>n. n = ''home''"
      and getConfig = "\<lambda>n. demo_config" and input = demo_containers
      and generateDefaultApp = demo_defaultApp and truthy = "\<lambda>p. p \<noteq> 0"
      and numberToString = showInt, OF e]
    addAppsForContainers_lowest_wrapper [where configExists = "\<lambda>n. n = ''home''"
      and getConfig = "\<lambda>n. demo_config \<lparr> cf_wrappers := [] \<rparr>" and input = demo_containers
      and generateDefaultApp = demo_defaultApp and truthy = "\<lambda>p. p \<noteq> 0"
      and numberToString = showInt, OF e] u c
  show ?thesis by (simp add: demo_config_def)
qed

theorem addAppsForContainers_lowest_wrapper_counterexample:
  "cf_wrappers (demo_config \<lparr> cf_wrappers := [] \<rparr>) = []
   \<and> addAppsForContainers (\<lambda>n. n = ''home'') (\<lambda>n. demo_config \<lparr> cf_wrappers := [] \<rparr>)
        demo_defaultApp (\<lambda>p. p \<noteq> 0) showInt \<lparr> aa_boardName = ''home'', aa_apps = [] \<rparr>
       = Inr (''data/configs/home.json'', demo_config \<lparr> cf_wrappers := [] \<rparr>)"
  by (simp add: addAppsForContainers_def sort_cmp_def demo_config_def)

end
